theory Spec2Isabelle
  imports Main "HOL-Library.Word" "HOL-Library.Log_Nat" "HOL-Library.Monad_Syntax"
begin

unbundle bit_operations_syntax

section \<open>Data model (ultrahdr.h)\<close>

text \<open>
  Conventions of the embedding.
  \<^item> A pointer to a struct is an \<open>option\<close>: \<open>None\<close> is \<open>nullptr\<close>.
  \<^item> A pixel buffer is a function from element offsets to samples; the size of the
    allocation behind a pointer is not part of the C++ struct and is not modelled.
  \<^item> Where the C++ has undefined behaviour that the modelled functions can reach
    (a null pointer that is dereferenced, \<open>%\<close> by zero, a \<open>size_t\<close> length that wraps in
    \<open>memset\<close>, an \<open>int\<close> that overflows, a pointer moved out of its object), and where
    \<open>new\<close> throws, the model returns \<open>None\<close>; a defined return is \<open>Some\<close>.
  \<^item> \<open>size_t\<close> quantities are natural numbers. Where the code computes in \<open>size_t\<close>
    alone (gain map, tone mapping), sums and products of dimensions and strides are
    those of the natural numbers. Where it assigns them to \<open>int\<close>s (editor, \<open>addImage\<close>),
    the narrowing, the conversions back and the overflows are modelled.
\<close>

type_synonym u8 = "8 word"
type_synonym u16 = "16 word"
type_synonym 'a buffer = "nat \<Rightarrow> 'a"

datatype ultrahdr_color_gamut =
    ULTRAHDR_COLORGAMUT_UNSPECIFIED
  | ULTRAHDR_COLORGAMUT_BT709
  | ULTRAHDR_COLORGAMUT_P3
  | ULTRAHDR_COLORGAMUT_BT2100

datatype ultrahdr_transfer_function =
    ULTRAHDR_TF_UNSPECIFIED
  | ULTRAHDR_TF_LINEAR
  | ULTRAHDR_TF_HLG
  | ULTRAHDR_TF_PQ
  | ULTRAHDR_TF_SRGB

datatype ultrahdr_output_format =
    ULTRAHDR_OUTPUT_UNSPECIFIED
  | ULTRAHDR_OUTPUT_SDR
  | ULTRAHDR_OUTPUT_HDR_LINEAR
  | ULTRAHDR_OUTPUT_HDR_PQ
  | ULTRAHDR_OUTPUT_HDR_HLG
  | ULTRAHDR_OUTPUT_HDR_LINEAR_RGB_10BIT

datatype ultrahdr_pixel_format =
    ULTRAHDR_PIX_FMT_UNSPECIFIED
  | ULTRAHDR_PIX_FMT_P010
  | ULTRAHDR_PIX_FMT_YUV420
  | ULTRAHDR_PIX_FMT_MONOCHROME
  | ULTRAHDR_PIX_FMT_RGBA8888
  | ULTRAHDR_PIX_FMT_RGBAF16
  | ULTRAHDR_PIX_FMT_RGBA1010102

datatype status_t =
    ULTRAHDR_NO_ERROR
  | ULTRAHDR_UNKNOWN_ERROR
  | ERROR_ULTRAHDR_BAD_PTR
  | ERROR_ULTRAHDR_UNSUPPORTED_WIDTH_HEIGHT
  | ERROR_ULTRAHDR_INVALID_COLORGAMUT
  | ERROR_ULTRAHDR_INVALID_STRIDE
  | ERROR_ULTRAHDR_INVALID_TRANS_FUNC
  | ERROR_ULTRAHDR_RESOLUTION_MISMATCH
  | ERROR_ULTRAHDR_INVALID_QUALITY_FACTOR
  | ERROR_ULTRAHDR_INVALID_DISPLAY_BOOST
  | ERROR_ULTRAHDR_INVALID_OUTPUT_FORMAT
  | ERROR_ULTRAHDR_BAD_METADATA
  | ERROR_ULTRAHDR_INVALID_CROPPING_PARAMETERS
  | ERROR_ULTRAHDR_ENCODE_ERROR
  | ERROR_ULTRAHDR_DECODE_ERROR
  | ERROR_ULTRAHDR_GAIN_MAP_IMAGE_NOT_FOUND
  | ERROR_ULTRAHDR_BUFFER_TOO_SMALL
  | ERROR_ULTRAHDR_METADATA_ERROR
  | ERROR_ULTRAHDR_NO_IMAGES_FOUND
  | ERROR_ULTRAHDR_MULTIPLE_EXIFS_RECEIVED
  | ERROR_ULTRAHDR_UNSUPPORTED_MAP_SCALE_FACTOR
  | ERROR_ULTRAHDR_INSUFFICIENT_RESOURCE
  | ERROR_ULTRAHDR_UNSUPPORTED_FEATURE

text \<open>
  A \<open>void*\<close> into pixel memory other than \<open>data\<close> itself: null, an offset into the
  allocation that \<open>data\<close> points to (\<open>data + k\<close>), or a pointer into another allocation
  (given by the contents found there).
\<close>

datatype 'a ptr = Null | Own nat | Ext "'a buffer"

record 'a ultrahdr_uncompressed_struct =
  data :: "'a buffer option"
  width :: nat
  height :: nat
  colorGamut :: ultrahdr_color_gamut
  chroma_data :: "'a ptr"
  luma_stride :: nat
  chroma_stride :: nat
  pixelFormat :: ultrahdr_pixel_format

text \<open>The fields of the compressed struct carry the suffix \<open>_c\<close>: \<open>length\<close> is the
  length of lists in HOL, and field names are global.\<close>

record ultrahdr_compressed_struct =
  data_c :: "u8 buffer option"
  length_c :: int
  maxLength_c :: int
  colorGamut_c :: ultrahdr_color_gamut

subsection \<open>Single-precision floats\<close>

text \<open>
  A \<open>float\<close> is a finite rational, an infinity or a NaN; the sign of zero is not
  modelled (zeros compare equal in C++ as well). \<open>round32\<close> is rounding to nearest, ties
  to even, into IEEE 754 binary32 (24-bit significand, exponents -126..127, gradual
  underflow, overflow to infinity).
\<close>

datatype float = Finite rat | PlusInf | MinusInf | NaN

definition floor_log2 :: "rat \<Rightarrow> int" where
  "floor_log2 q =
     (let (a, b) = quotient_of q; d = bitlen a - bitlen b
      in if 2 powi d \<le> q then d else d - 1)"

definition round_half_even :: "rat \<Rightarrow> int" where
  "round_half_even q =
     (let f = \<lfloor>q\<rfloor>; r = q - of_int f
      in if r < 1 / 2 then f else if 1 / 2 < r then f + 1 else if even f then f else f + 1)"

definition round32 :: "rat \<Rightarrow> float" where
  "round32 q =
     (if q = 0 then Finite 0
      else let s = \<bar>q\<bar>;
               e = max (floor_log2 s) (- 126);
               ulp = 2 powi (e - 23);
               r = of_int (round_half_even (s / ulp)) * ulp
           in if 2 powi 128 \<le> r then (if 0 < q then PlusInf else MinusInf)
              else Finite (sgn q * r))"

text \<open>\<open>a / b\<close> on floats.\<close>

fun fdiv :: "float \<Rightarrow> float \<Rightarrow> float" where
  "fdiv (Finite x) (Finite y) =
     (if y = 0 then (if x = 0 then NaN else if 0 < x then PlusInf else MinusInf)
      else round32 (x / y))"
| "fdiv (Finite x) PlusInf = Finite 0"
| "fdiv (Finite x) MinusInf = Finite 0"
| "fdiv PlusInf (Finite y) = (if 0 \<le> y then PlusInf else MinusInf)"
| "fdiv MinusInf (Finite y) = (if 0 \<le> y then MinusInf else PlusInf)"
| "fdiv _ _ = NaN"

text \<open>\<open>a < b\<close>, \<open>a != b\<close> and \<open>a <= b\<close> on floats: every comparison with a NaN is
  false, except \<open>!=\<close>, which is true.\<close>

fun flt :: "float \<Rightarrow> float \<Rightarrow> bool" where
  "flt NaN _ = False"
| "flt _ NaN = False"
| "flt (Finite x) (Finite y) = (x < y)"
| "flt MinusInf MinusInf = False"
| "flt MinusInf _ = True"
| "flt _ MinusInf = False"
| "flt PlusInf _ = False"
| "flt _ PlusInf = True"

definition fne :: "float \<Rightarrow> float \<Rightarrow> bool" where
  "fne a b = (a = NaN \<or> b = NaN \<or> a \<noteq> b)"

definition fle :: "float \<Rightarrow> float \<Rightarrow> bool" where
  "fle a b = (flt a b \<or> \<not> fne a b)"

text \<open>\<open>std::min(a, b)\<close> is \<open>(b < a) ? b : a\<close>.\<close>

definition fmin :: "float \<Rightarrow> float \<Rightarrow> float" where
  "fmin a b = (if flt b a then b else a)"

text \<open>\<open>(float) n\<close> for a \<open>size_t\<close> and \<open>floorf\<close>.\<close>

definition float_of_size_t :: "nat \<Rightarrow> float" where
  "float_of_size_t n = round32 (of_nat n)"

fun floorf :: "float \<Rightarrow> float" where
  "floorf (Finite x) = Finite (of_int \<lfloor>x\<rfloor>)"
| "floorf f = f"

record ultrahdr_metadata_struct =
  version :: string
  maxContentBoost :: float
  minContentBoost :: float
  gamma :: float
  offsetSdr :: float
  offsetHdr :: float
  hdrCapacityMin :: float
  hdrCapacityMax :: float

definition kGainMapVersion :: string where
  "kGainMapVersion = ''1.0''"

definition kMapDimensionScaleFactor :: nat where
  "kMapDimensionScaleFactor = 4"

text \<open>Modelled from the spec: \<open>gainmapmath.h\<close>, which declares \<open>kSdrWhiteNits\<close>,
  \<open>kHlgMaxNits\<close> and \<open>kPqMaxNits\<close>, is not among the sources; the spec gives
  \<open>sdrWhiteNits = 203\<close>, \<open>hdrWhiteNits = 1000\<close> for HLG and LINEAR and \<open>10000\<close> for PQ.\<close>

definition kSdrWhiteNits :: float where
  "kSdrWhiteNits = Finite 203"

definition kHlgMaxNits :: float where
  "kHlgMaxNits = Finite 1000"

definition kPqMaxNits :: float where
  "kPqMaxNits = Finite 10000"

text \<open>\<open>for (i = 0; i < n; ++i) body\<close> on a state.\<close>

definition for_loop :: "nat \<Rightarrow> (nat \<Rightarrow> 's \<Rightarrow> 's) \<Rightarrow> 's \<Rightarrow> 's" where
  "for_loop n body s = fold body [0..<n] s"


text \<open>\<open>memcpy(dst + off, src, n)\<close>, and the pointer \<open>p + k\<close>.\<close>

definition memcpy :: "'a buffer \<Rightarrow> nat \<Rightarrow> 'a buffer \<Rightarrow> nat \<Rightarrow> 'a buffer" where
  "memcpy dst off src n = (\<lambda>i. if off \<le> i \<and> i < off + n then src (i - off) else dst i)"

definition advance :: "'a buffer \<Rightarrow> nat \<Rightarrow> 'a buffer" where
  "advance p k = (\<lambda>i. p (k + i))"

subsection \<open>The types \<open>int\<close> and \<open>size_t\<close>\<close>

text \<open>
  \<open>int\<close> has 32 bits and \<open>size_t\<close> 64. The editor and \<open>addImage\<close> hold sizes, strides and
  loop counters in \<open>int\<close>s that receive \<open>size_t\<close> values. A \<open>size_t\<close> assigned to an \<open>int\<close>
  keeps its low 32 bits, read in two's complement (\<open>to_int\<close>). An \<open>int\<close> that meets a
  \<open>size_t\<close> in an expression is converted modulo \<open>2^64\<close> (\<open>to_size_t\<close>), and the
  expression is computed modulo \<open>2^64\<close> (\<open>size_t_mul\<close>). An operation on \<open>int\<close>s whose
  result is not a value of \<open>int\<close> is undefined (\<open>int_res\<close>), and \<open>/\<close> on \<open>int\<close>s truncates.
\<close>

definition INT_MAX :: int where
  "INT_MAX = 2147483647"

definition INT_MIN :: int where
  "INT_MIN = - 2147483648"

definition to_int :: "nat \<Rightarrow> int" where
  "to_int n = (let m = int n mod 2 ^ 32 in if m \<le> INT_MAX then m else m - 2 ^ 32)"

definition to_size_t :: "int \<Rightarrow> nat" where
  "to_size_t k = nat (k mod 2 ^ 64)"

definition size_t_mul :: "nat \<Rightarrow> nat \<Rightarrow> nat" where
  "size_t_mul a b = a * b mod 2 ^ 64"

definition int_res :: "int \<Rightarrow> int option" where
  "int_res k = (if INT_MIN \<le> k \<and> k \<le> INT_MAX then Some k else None)"

definition int_div :: "int \<Rightarrow> int \<Rightarrow> int" where
  "int_div a b = sgn a * sgn b * (\<bar>a\<bar> div \<bar>b\<bar>)"

text \<open>The pointer \<open>p + k\<close> for a \<open>size_t\<close> \<open>k\<close>. No object has \<open>2^63\<close> bytes: from there on
  the pointer leaves the object that \<open>p\<close> points into, which is undefined.\<close>

definition offset :: "nat \<Rightarrow> nat option" where
  "offset k = (if k < 2 ^ 63 then Some k else None)"

text \<open>
  A pointer into a buffer is the buffer and an offset \<open>base\<close> from its start. The two
  forms of pointer arithmetic in the editor: \<open>p + a * b + c\<close>, where \<open>a * b\<close> is computed
  in \<open>size_t\<close> and \<open>c\<close> is not negative, and \<open>p + i * s + c\<close>, where \<open>i * s\<close> is a product
  of \<open>int\<close>s, which may be negative: below the start of the buffer there is nothing.
\<close>

definition idx_size :: "nat \<Rightarrow> nat \<Rightarrow> nat \<Rightarrow> nat \<Rightarrow> nat option" where
  "idx_size base a b c = map_option (\<lambda>k. base + k + c) (offset (size_t_mul a b))"

definition idx_int :: "nat \<Rightarrow> int \<Rightarrow> int \<Rightarrow> nat \<Rightarrow> nat option" where
  "idx_int base i s c =
     (case int_res (i * s) of
        None \<Rightarrow> None
      | Some k \<Rightarrow> if int base + k < 0 then None else Some (nat (int base + k) + c))"

text \<open>\<open>for (int i = 0; i < n; i++) body\<close> with a \<open>size_t\<close> bound \<open>n\<close>: above \<open>INT_MAX\<close> the
  counter overflows. The body gives \<open>None\<close> where it is undefined.\<close>

definition int_loop :: "nat \<Rightarrow> (nat \<Rightarrow> 's \<Rightarrow> 's option) \<Rightarrow> 's \<Rightarrow> 's option" where
  "int_loop n body s =
     (if INT_MAX < int n then None
      else fold (\<lambda>i r. case r of None \<Rightarrow> None | Some t \<Rightarrow> body i t) [0..<n] (Some s))"

section \<open>Gain map generation and application (ultrahdr.cpp)\<close>

text \<open>
  The colour functions of \<open>gainmapmath\<close> (\<open>sampleYuv420\<close>, \<open>encodeGain\<close>, \<open>sampleMap\<close>,
  \<open>applyGainLUT\<close>, the transfer functions and the rest) are not among the sources. The
  functions the code selects are named by a tag, and the value they compute for one pixel
  is a parameter of the model: \<open>encode\<close> for the body of the pixel loop of
  \<open>generateGainMap\<close>, \<open>render\<close> for that of \<open>applyGainMap\<close>. The worker threads of both
  functions process disjoint row ranges that together are all rows; the model runs the
  rows in order.
\<close>

datatype color_fn =
    identityConversion | hlgInvOetfLUT | pqInvOetfLUT
  | srgbLuminance | p3Luminance | bt2100Luminance
  | srgbYuvToRgb | p3YuvToRgb | bt2100YuvToRgb

record gain_fns =
  hdrInvOetf :: color_fn
  hdrGamutConversionFn :: "ultrahdr_color_gamut \<times> ultrahdr_color_gamut"
  luminanceFn :: color_fn
  sdrYuvToRgbFn :: color_fn
  hdrYuvToRgbFn :: color_fn
  hdr_white_nits :: float

type_synonym gain_kernel =
  "gain_fns \<Rightarrow> ultrahdr_metadata_struct \<Rightarrow> u8 ultrahdr_uncompressed_struct \<Rightarrow>
   u16 ultrahdr_uncompressed_struct \<Rightarrow> nat \<Rightarrow> nat \<Rightarrow> u8"

text \<open>The first \<open>switch\<close> of \<open>generateGainMap\<close>: inverse OETF and white level of the HDR
  transfer function; \<open>None\<close> is its \<open>default\<close> branch.\<close>

fun hdr_tf_switch :: "ultrahdr_transfer_function \<Rightarrow> (color_fn \<times> float) option" where
  "hdr_tf_switch ULTRAHDR_TF_LINEAR = Some (identityConversion, kHlgMaxNits)"
| "hdr_tf_switch ULTRAHDR_TF_HLG = Some (hlgInvOetfLUT, kHlgMaxNits)"
| "hdr_tf_switch ULTRAHDR_TF_PQ = Some (pqInvOetfLUT, kPqMaxNits)"
| "hdr_tf_switch _ = None"

fun sdr_gamut_switch :: "ultrahdr_color_gamut \<Rightarrow> (color_fn \<times> color_fn) option" where
  "sdr_gamut_switch ULTRAHDR_COLORGAMUT_BT709 = Some (srgbLuminance, srgbYuvToRgb)"
| "sdr_gamut_switch ULTRAHDR_COLORGAMUT_P3 = Some (p3Luminance, p3YuvToRgb)"
| "sdr_gamut_switch ULTRAHDR_COLORGAMUT_BT2100 = Some (bt2100Luminance, bt2100YuvToRgb)"
| "sdr_gamut_switch ULTRAHDR_COLORGAMUT_UNSPECIFIED = None"

fun hdr_gamut_switch :: "ultrahdr_color_gamut \<Rightarrow> color_fn option" where
  "hdr_gamut_switch ULTRAHDR_COLORGAMUT_BT709 = Some srgbYuvToRgb"
| "hdr_gamut_switch ULTRAHDR_COLORGAMUT_P3 = Some p3YuvToRgb"
| "hdr_gamut_switch ULTRAHDR_COLORGAMUT_BT2100 = Some bt2100YuvToRgb"
| "hdr_gamut_switch ULTRAHDR_COLORGAMUT_UNSPECIFIED = None"

text \<open>
  \<open>generateGainMap\<close> returns its status with the metadata and the destination struct as
  the call leaves them. \<open>fresh\<close> is the content of the array that \<open>new\<close> returns. On the
  error returns that follow the allocation the array has been released again, and the
  \<open>data\<close> of the destination dangles; the model leaves the released array there.
\<close>

definition generateGainMap ::
  "gain_kernel \<Rightarrow> u8 buffer \<Rightarrow> u8 ultrahdr_uncompressed_struct option \<Rightarrow>
   u16 ultrahdr_uncompressed_struct option \<Rightarrow> ultrahdr_transfer_function \<Rightarrow>
   ultrahdr_metadata_struct option \<Rightarrow> u8 ultrahdr_uncompressed_struct option \<Rightarrow> bool \<Rightarrow>
   status_t \<times> ultrahdr_metadata_struct option \<times> u8 ultrahdr_uncompressed_struct option" where
  "generateGainMap encode fresh yuv420_image_ptr p010_image_ptr hdr_tf metadata dest sdr_is_601 =
     (case (yuv420_image_ptr, p010_image_ptr, metadata, dest) of
        (Some yuv, Some p010, Some md, Some d) \<Rightarrow>
          if data yuv = None \<or> chroma_data yuv = Null \<or> data p010 = None \<or> chroma_data p010 = Null
          then (ERROR_ULTRAHDR_BAD_PTR, metadata, dest)
          else if width yuv \<noteq> width p010 \<or> height yuv \<noteq> height p010
          then (ERROR_ULTRAHDR_RESOLUTION_MISMATCH, metadata, dest)
          else if colorGamut yuv = ULTRAHDR_COLORGAMUT_UNSPECIFIED \<or>
                  colorGamut p010 = ULTRAHDR_COLORGAMUT_UNSPECIFIED
          then (ERROR_ULTRAHDR_INVALID_COLORGAMUT, metadata, dest)
          else
            let image_width = width yuv;
                image_height = height yuv;
                map_width = image_width div kMapDimensionScaleFactor;
                map_height = image_height div kMapDimensionScaleFactor;
                d1 = d\<lparr>data := Some fresh, width := map_width, height := map_height,
                       colorGamut := ULTRAHDR_COLORGAMUT_UNSPECIFIED, luma_stride := map_width,
                       chroma_data := Null, chroma_stride := 0,
                       pixelFormat := ULTRAHDR_PIX_FMT_MONOCHROME\<rparr>
            in (case hdr_tf_switch hdr_tf of
                 None \<Rightarrow> (ERROR_ULTRAHDR_INVALID_TRANS_FUNC, metadata, Some d1)
               | Some (inv_oetf, white_nits) \<Rightarrow>
                   let mcb = fdiv white_nits kSdrWhiteNits;
                       md1 = md\<lparr>version := kGainMapVersion, maxContentBoost := mcb,
                                minContentBoost := Finite 1, gamma := Finite 1,
                                offsetSdr := Finite 0, offsetHdr := Finite 0,
                                hdrCapacityMin := Finite 1, hdrCapacityMax := mcb\<rparr>
                   in (case sdr_gamut_switch (colorGamut yuv) of
                        None \<Rightarrow> (ERROR_ULTRAHDR_INVALID_COLORGAMUT, Some md1, Some d1)
                      | Some (lum, sdr_to_rgb) \<Rightarrow>
                          (case hdr_gamut_switch (colorGamut p010) of
                             None \<Rightarrow> (ERROR_ULTRAHDR_INVALID_COLORGAMUT, Some md1, Some d1)
                           | Some hdr_to_rgb \<Rightarrow>
                               let fns = \<lparr>hdrInvOetf = inv_oetf,
                                          hdrGamutConversionFn = (colorGamut yuv, colorGamut p010),
                                          luminanceFn = lum,
                                          sdrYuvToRgbFn = (if sdr_is_601 then p3YuvToRgb else sdr_to_rgb),
                                          hdrYuvToRgbFn = hdr_to_rgb,
                                          hdr_white_nits = white_nits\<rparr>;
                                   map_data =
                                     for_loop map_height (\<lambda>y.
                                       for_loop (width d1) (\<lambda>x b.
                                         b(x + y * width d1 := encode fns md1 yuv p010 x y))) fresh
                               in (ULTRAHDR_NO_ERROR, Some md1, Some (d1\<lparr>data := Some map_data\<rparr>)))))
      | _ \<Rightarrow> (ERROR_ULTRAHDR_BAD_PTR, metadata, dest))"

text \<open>The two overloads of \<open>sampleMap\<close>: without a weight table (bilinear) and with the
  table of Shepard's inverse distance weighting.\<close>

datatype sampler = sampleMap_bilinear | sampleMap_idw

text \<open>The test \<open>map_scale_factor != floorf(map_scale_factor)\<close> on the \<open>size_t\<close> scale factor,
  which the comparison converts to \<open>float\<close>.\<close>

definition choose_sampler :: "nat \<Rightarrow> sampler" where
  "choose_sampler map_scale_factor =
     (if fne (float_of_size_t map_scale_factor) (floorf (float_of_size_t map_scale_factor))
      then sampleMap_bilinear else sampleMap_idw)"

type_synonym 'c render_kernel =
  "sampler \<Rightarrow> float \<Rightarrow> ultrahdr_metadata_struct \<Rightarrow> ultrahdr_output_format \<Rightarrow>
   u8 ultrahdr_uncompressed_struct \<Rightarrow> u8 ultrahdr_uncompressed_struct \<Rightarrow> nat \<Rightarrow> nat \<Rightarrow> nat \<Rightarrow> 'c"

text \<open>The \<open>switch (output_format)\<close> of the pixel loop: the stores into \<open>dest->data\<close>, in
  elements of the type the format casts it to. The last argument of \<open>px\<close> is the channel.\<close>

fun store_pixel ::
  "ultrahdr_output_format \<Rightarrow> nat \<Rightarrow> nat \<Rightarrow> (nat \<Rightarrow> 'c) \<Rightarrow> nat \<Rightarrow> 'c buffer \<Rightarrow> 'c buffer" where
  "store_pixel ULTRAHDR_OUTPUT_HDR_LINEAR w h px pixel_idx b = b(pixel_idx := px 0)"
| "store_pixel ULTRAHDR_OUTPUT_HDR_LINEAR_RGB_10BIT w h px pixel_idx b =
     b(pixel_idx := px 0, w * h + pixel_idx := px 1, w * h * 2 + pixel_idx := px 2)"
| "store_pixel ULTRAHDR_OUTPUT_HDR_HLG w h px pixel_idx b = b(pixel_idx := px 0)"
| "store_pixel ULTRAHDR_OUTPUT_HDR_PQ w h px pixel_idx b = b(pixel_idx := px 0)"
| "store_pixel _ w h px pixel_idx b = b"

fun stores :: "ultrahdr_output_format \<Rightarrow> bool" where
  "stores ULTRAHDR_OUTPUT_HDR_LINEAR = True"
| "stores ULTRAHDR_OUTPUT_HDR_LINEAR_RGB_10BIT = True"
| "stores ULTRAHDR_OUTPUT_HDR_HLG = True"
| "stores ULTRAHDR_OUTPUT_HDR_PQ = True"
| "stores _ = False"

text \<open>
  \<open>applyGainMap\<close>. \<open>None\<close> is undefined behaviour: \<open>%\<close> by a zero map width or height
  (the \<open>||\<close> evaluates the height test only when the width test is false), and a store
  through a null \<open>dest->data\<close>, which the function does not check.
\<close>

definition applyGainMap ::
  "'c render_kernel \<Rightarrow> u8 ultrahdr_uncompressed_struct option \<Rightarrow>
   u8 ultrahdr_uncompressed_struct option \<Rightarrow> ultrahdr_metadata_struct option \<Rightarrow>
   ultrahdr_output_format \<Rightarrow> float \<Rightarrow> 'c ultrahdr_uncompressed_struct option \<Rightarrow>
   (status_t \<times> 'c ultrahdr_uncompressed_struct option) option" where
  "applyGainMap render yuv420_image_ptr gainmap_image_ptr metadata output_format max_display_boost dest =
     (case (yuv420_image_ptr, gainmap_image_ptr, metadata, dest) of
        (Some yuv, Some gm, Some md, Some d) \<Rightarrow>
          if data yuv = None \<or> chroma_data yuv = Null \<or> data gm = None
          then Some (ERROR_ULTRAHDR_BAD_PTR, dest)
          else if version md \<noteq> kGainMapVersion
          then Some (ERROR_ULTRAHDR_BAD_METADATA, dest)
          else if fne (gamma md) (Finite 1)
          then Some (ERROR_ULTRAHDR_BAD_METADATA, dest)
          else if fne (offsetSdr md) (Finite 0) \<or> fne (offsetHdr md) (Finite 0)
          then Some (ERROR_ULTRAHDR_BAD_METADATA, dest)
          else if fne (hdrCapacityMin md) (minContentBoost md) \<or>
                  fne (hdrCapacityMax md) (maxContentBoost md)
          then Some (ERROR_ULTRAHDR_BAD_METADATA, dest)
          else if width gm = 0 then None
          else if width yuv mod width gm \<noteq> 0
          then Some (ERROR_ULTRAHDR_UNSUPPORTED_MAP_SCALE_FACTOR, dest)
          else if height gm = 0 then None
          else if height yuv mod height gm \<noteq> 0
          then Some (ERROR_ULTRAHDR_UNSUPPORTED_MAP_SCALE_FACTOR, dest)
          else if width yuv * height gm \<noteq> height yuv * width gm
          then Some (ERROR_ULTRAHDR_UNSUPPORTED_MAP_SCALE_FACTOR, dest)
          else
            let map_scale_factor = width yuv div width gm;
                d1 = d\<lparr>width := width yuv, height := height yuv, colorGamut := colorGamut yuv\<rparr>;
                display_boost = fmin max_display_boost (maxContentBoost md);
                w = width yuv;
                h = height yuv;
                rows = (\<lambda>b.
                  for_loop h (\<lambda>y.
                    for_loop w (\<lambda>x.
                      store_pixel output_format w h
                        (render (choose_sampler map_scale_factor) display_boost md output_format
                           yuv gm x y)
                        (x + y * w))) b)
            in (case data d1 of
                  None \<Rightarrow>
                    if stores output_format \<and> 0 < w \<and> 0 < h then None
                    else Some (ULTRAHDR_NO_ERROR, Some d1)
                | Some b \<Rightarrow> Some (ULTRAHDR_NO_ERROR, Some (d1\<lparr>data := Some (rows b)\<rparr>)))
      | _ \<Rightarrow> Some (ERROR_ULTRAHDR_BAD_PTR, dest))"

section \<open>Geometric editor (editorhelper.cpp)\<close>

text \<open>
  The input struct and its buffers are objects other than the output struct and its
  buffer, so an operation reads the input as it was before the call. Every loop has an
  \<open>int\<close> counter, and the strides of the input are held in \<open>int\<close>s.
\<close>

text \<open>\<open>*(p + a) = v\<close> and the value \<open>*(q + a)\<close>, for offsets that may be undefined.\<close>

definition store :: "nat option \<Rightarrow> 'a option \<Rightarrow> 'a buffer \<Rightarrow> 'a buffer option" where
  "store a v b = (case (a, v) of (Some k, Some x) \<Rightarrow> Some (b(k := x)) | _ \<Rightarrow> None)"

definition load :: "'a buffer \<Rightarrow> nat option \<Rightarrow> 'a option" where
  "load q a = map_option q a"

text \<open>The nested loops that store one sample at a time: for each row \<open>i\<close> and column
  \<open>j\<close>, in order, the sample \<open>px i j\<close> is stored at offset \<open>addr i j\<close> of the output
  buffer.\<close>

definition int_store_rows ::
  "nat \<Rightarrow> nat \<Rightarrow> (nat \<Rightarrow> nat \<Rightarrow> nat option) \<Rightarrow> (nat \<Rightarrow> nat \<Rightarrow> 'a option) \<Rightarrow> 'a buffer \<Rightarrow>
   'a buffer option" where
  "int_store_rows rows cols addr px b =
     int_loop rows (\<lambda>i. int_loop cols (\<lambda>j. store (addr i j) (px i j))) b"

text \<open>The loops that copy a row at a time:
  \<open>for (int i = 0; i < rows; i++) memcpy(dest + daddr i, src + saddr i, n)\<close>, the
  offsets taken from the start of the two buffers.\<close>

definition int_copy_rows ::
  "nat \<Rightarrow> nat \<Rightarrow> (nat \<Rightarrow> nat option) \<Rightarrow> 'a buffer \<Rightarrow> (nat \<Rightarrow> nat option) \<Rightarrow> 'a buffer \<Rightarrow>
   'a buffer option" where
  "int_copy_rows rows n daddr src saddr b =
     int_loop rows
       (\<lambda>i b. case (daddr i, saddr i) of
                 (Some d, Some s) \<Rightarrow>
                   if n < 2 ^ 63 then Some (memcpy b d (advance src s) n) else None
               | _ \<Rightarrow> None) b"

text \<open>The nested loops as they run when no counter overflows and every offset is
  defined.\<close>

definition store_rows ::
  "nat \<Rightarrow> nat \<Rightarrow> (nat \<Rightarrow> nat \<Rightarrow> nat) \<Rightarrow> (nat \<Rightarrow> nat \<Rightarrow> 'a) \<Rightarrow> 'a buffer \<Rightarrow> 'a buffer" where
  "store_rows rows cols addr px b =
     for_loop rows (\<lambda>i. for_loop cols (\<lambda>j b. b(addr i j := px i j))) b"

text \<open>\<open>int in_luma_stride = in_img->luma_stride != 0 ? in_img->luma_stride : in_img->width\<close>
  and \<open>int in_chroma_stride = in_img->chroma_stride != 0 ? in_img->chroma_stride :
  (in_luma_stride >> 1)\<close>, where the third operand is converted to \<open>size_t\<close>.\<close>

definition in_luma_stride_of :: "'a ultrahdr_uncompressed_struct \<Rightarrow> int" where
  "in_luma_stride_of inp = to_int (if luma_stride inp \<noteq> 0 then luma_stride inp else width inp)"

definition in_chroma_stride_of :: "'a ultrahdr_uncompressed_struct \<Rightarrow> int" where
  "in_chroma_stride_of inp =
     to_int (if chroma_stride inp \<noteq> 0 then chroma_stride inp
             else to_size_t (in_luma_stride_of inp div 2))"

text \<open>The chroma source, a buffer and an offset: \<open>in_img->chroma_data\<close>, or, when that
  is null, \<open>in_img->data + in_luma_stride * in_img->height\<close>.\<close>

definition chroma_source ::
  "'a ultrahdr_uncompressed_struct \<Rightarrow> 'a buffer \<Rightarrow> int \<Rightarrow> ('a buffer \<times> nat) option" where
  "chroma_source inp d in_luma_stride =
     (case chroma_data inp of
        Null \<Rightarrow> map_option (\<lambda>k. (d, k))
                  (offset (size_t_mul (to_size_t in_luma_stride) (height inp)))
      | Own k \<Rightarrow> Some (d, k)
      | Ext b \<Rightarrow> Some (b, 0))"

text \<open>What every operation does to the output struct before its chroma loops:
  \<open>chroma_stride = luma_stride / 2\<close> and \<open>chroma_data = data + luma_stride * height\<close>;
  the result is the struct and the offset of its chroma planes.\<close>

definition set_out_chroma ::
  "'a ultrahdr_uncompressed_struct \<Rightarrow> ('a ultrahdr_uncompressed_struct \<times> nat) option" where
  "set_out_chroma out =
     map_option (\<lambda>k. (out\<lparr>chroma_stride := luma_stride out div 2, chroma_data := Own k\<rparr>, k))
       (offset (size_t_mul (luma_stride out) (height out)))"

text \<open>
  \<open>crop\<close>. The bounds are \<open>int\<close>, the dimensions \<open>size_t\<close>: in \<open>right >= in_img->width\<close> a
  negative \<open>right\<close> converts to a huge unsigned value and the test is true. A negative
  \<open>right - left + 1\<close> or \<open>bottom - top + 1\<close> converts to a huge width or height. The chroma
  loop runs over \<open>out_img->height\<close> rows, as the source has it.
\<close>

definition crop ::
  "u8 ultrahdr_uncompressed_struct option \<Rightarrow> int \<Rightarrow> int \<Rightarrow> int \<Rightarrow> int \<Rightarrow>
   u8 ultrahdr_uncompressed_struct option \<Rightarrow>
   (status_t \<times> u8 ultrahdr_uncompressed_struct option) option" where
  "crop in_img left right top' bottom out_img =
     (case (in_img, out_img) of
        (Some inp, Some out) \<Rightarrow>
          (case (data inp, data out) of
             (Some src0, Some dest0) \<Rightarrow>
               if left < 0 \<or> width inp \<le> to_size_t right \<or>
                  top' < 0 \<or> height inp \<le> to_size_t bottom
               then Some (ERROR_ULTRAHDR_INVALID_CROPPING_PARAMETERS, out_img)
               else if pixelFormat inp \<noteq> ULTRAHDR_PIX_FMT_YUV420 \<and>
                       pixelFormat inp \<noteq> ULTRAHDR_PIX_FMT_MONOCHROME
               then Some (ERROR_ULTRAHDR_UNSUPPORTED_FEATURE, out_img)
               else do {
                 let in_luma_stride = in_luma_stride_of inp;
                 wd \<leftarrow> int_res (right - left);
                 ow \<leftarrow> map_option to_size_t (int_res (wd + 1));
                 hd \<leftarrow> int_res (bottom - top');
                 oh \<leftarrow> map_option to_size_t (int_res (hd + 1));
                 let out1 = out\<lparr>colorGamut := colorGamut inp, pixelFormat := pixelFormat inp,
                              width := ow, height := oh, luma_stride := ow\<rparr>;
                 k \<leftarrow> idx_int 0 in_luma_stride top' (nat left);
                 dest1 \<leftarrow> int_copy_rows oh ow (\<lambda>i. idx_size 0 i (luma_stride out1) 0)
                            src0 (\<lambda>i. idx_int k (int i) in_luma_stride 0) dest0;
                 if pixelFormat inp = ULTRAHDR_PIX_FMT_MONOCHROME
                 then Some (ULTRAHDR_NO_ERROR, Some (out1\<lparr>data := Some dest1\<rparr>))
                 else do {
                   let in_chroma_stride = in_chroma_stride_of inp;
                   oc \<leftarrow> set_out_chroma out1;
                   let out2 = fst oc;
                   let base = snd oc;
                   src1 \<leftarrow> chroma_source inp src0 in_luma_stride;
                   kc \<leftarrow> idx_int (snd src1) in_chroma_stride (top' div 2) (nat (left div 2));
                   dest2 \<leftarrow> int_copy_rows oh (ow div 2)
                              (\<lambda>i. idx_size base i (chroma_stride out2) 0)
                              (fst src1) (\<lambda>i. idx_int kc (int i) in_chroma_stride 0) dest1;
                   Some (ULTRAHDR_NO_ERROR, Some (out2\<lparr>data := Some dest2\<rparr>))
                 }
               }
           | _ \<Rightarrow> Some (ERROR_ULTRAHDR_BAD_PTR, out_img))
      | _ \<Rightarrow> Some (ERROR_ULTRAHDR_BAD_PTR, out_img))"

datatype ultrahdr_mirroring_direction = ULTRAHDR_MIRROR_VERTICAL | ULTRAHDR_MIRROR_HORIZONTAL

text \<open>\<open>mirror\<close>. The output takes the \<open>int\<close> \<open>in_luma_stride\<close> as its luma stride.\<close>

definition mirror ::
  "u8 ultrahdr_uncompressed_struct option \<Rightarrow> ultrahdr_mirroring_direction \<Rightarrow>
   u8 ultrahdr_uncompressed_struct option \<Rightarrow>
   (status_t \<times> u8 ultrahdr_uncompressed_struct option) option" where
  "mirror in_img mirror_dir out_img =
     (case (in_img, out_img) of
        (Some inp, Some out) \<Rightarrow>
          (case (data inp, data out) of
             (Some src0, Some dest0) \<Rightarrow>
               if pixelFormat inp \<noteq> ULTRAHDR_PIX_FMT_YUV420 \<and>
                  pixelFormat inp \<noteq> ULTRAHDR_PIX_FMT_MONOCHROME
               then Some (ERROR_ULTRAHDR_UNSUPPORTED_FEATURE, out_img)
               else do {
                 let in_luma_stride = in_luma_stride_of inp;
                 let w = width inp;
                 let h = height inp;
                 let ols = to_size_t in_luma_stride;
                 let out1 = out\<lparr>colorGamut := colorGamut inp, pixelFormat := pixelFormat inp,
                              width := w, height := h, luma_stride := ols\<rparr>;
                 dest1 \<leftarrow>
                   (if mirror_dir = ULTRAHDR_MIRROR_VERTICAL
                    then int_copy_rows h w (\<lambda>i. idx_size 0 (h - i - 1) ols 0)
                           src0 (\<lambda>i. idx_int 0 (int i) in_luma_stride 0) dest0
                    else int_store_rows h w (\<lambda>i j. idx_size 0 i ols j)
                           (\<lambda>i j. load src0 (idx_int 0 (int i) in_luma_stride (w - j - 1)))
                           dest0);
                 if pixelFormat inp = ULTRAHDR_PIX_FMT_MONOCHROME
                 then Some (ULTRAHDR_NO_ERROR, Some (out1\<lparr>data := Some dest1\<rparr>))
                 else do {
                   let in_chroma_stride = in_chroma_stride_of inp;
                   oc \<leftarrow> set_out_chroma out1;
                   let out2 = fst oc;
                   let baseU = snd oc;
                   let ocs = chroma_stride out2;
                   srcU \<leftarrow> chroma_source inp src0 in_luma_stride;
                   let src = fst srcU;
                   let kU = snd srcU;
                   dest3 \<leftarrow>
                     (if mirror_dir = ULTRAHDR_MIRROR_VERTICAL
                      then do {
                        dest2 \<leftarrow> int_copy_rows (h div 2) (w div 2)
                                   (\<lambda>i. idx_size baseU (h div 2 - i - 1) ocs 0)
                                   src (\<lambda>i. idx_int kU (int i) in_chroma_stride 0) dest1;
                        kV \<leftarrow> idx_size kU (to_size_t in_chroma_stride) (h div 2) 0;
                        baseV \<leftarrow> idx_size baseU ocs (h div 2) 0;
                        int_copy_rows (h div 2) (w div 2)
                          (\<lambda>i. idx_size baseV (h div 2 - i - 1) ocs 0)
                          src (\<lambda>i. idx_int kV (int i) in_chroma_stride 0) dest2
                      }
                      else do {
                        dest2 \<leftarrow> int_store_rows (h div 2) (w div 2)
                                   (\<lambda>i j. idx_size baseU i ocs j)
                                   (\<lambda>i j. load src
                                             (idx_int kU (int i) in_chroma_stride (w div 2 - j - 1)))
                                   dest1;
                        kV \<leftarrow> idx_size kU (to_size_t in_chroma_stride) (h div 2) 0;
                        baseV \<leftarrow> idx_size baseU ocs (h div 2) 0;
                        int_store_rows (h div 2) (w div 2)
                          (\<lambda>i j. idx_size baseV i ocs j)
                          (\<lambda>i j. load src
                                    (idx_int kV (int i) in_chroma_stride (w div 2 - j - 1)))
                          dest2
                      });
                   Some (ULTRAHDR_NO_ERROR, Some (out2\<lparr>data := Some dest3\<rparr>))
                 }
               }
           | _ \<Rightarrow> Some (ERROR_ULTRAHDR_BAD_PTR, out_img))
      | _ \<Rightarrow> Some (ERROR_ULTRAHDR_BAD_PTR, out_img))"

text \<open>The three luma loops of \<open>rotate\<close>, with the dimensions and stride each branch
  gives the output; the degree is one of 90, 180 and 270 here. The row offset of the
  source is a \<open>size_t\<close> product for 90 and 180 degrees and the \<open>int\<close> product
  \<open>j * in_luma_stride\<close> for 270.\<close>

definition rotate_luma ::
  "u8 ultrahdr_uncompressed_struct \<Rightarrow> u8 buffer \<Rightarrow> int \<Rightarrow> u8 ultrahdr_uncompressed_struct \<Rightarrow>
   u8 buffer \<Rightarrow> u8 ultrahdr_uncompressed_struct option" where
  "rotate_luma inp src0 clockwise_degree out dest0 =
     (let in_luma_stride = in_luma_stride_of inp;
          w = width inp;
          h = height inp
      in if clockwise_degree = 90 then
           map_option (\<lambda>d. out\<lparr>width := h, height := w, luma_stride := h, data := Some d\<rparr>)
             (int_store_rows w h (\<lambda>i j. idx_size 0 i h j)
                (\<lambda>i j. load src0 (idx_size 0 (h - j - 1) (to_size_t in_luma_stride) i)) dest0)
         else if clockwise_degree = 180 then
           map_option (\<lambda>d. out\<lparr>width := w, height := h,
                                luma_stride := to_size_t in_luma_stride, data := Some d\<rparr>)
             (int_store_rows h w (\<lambda>i j. idx_size 0 i (to_size_t in_luma_stride) j)
                (\<lambda>i j. load src0
                          (idx_size 0 (h - i - 1) (to_size_t in_luma_stride) (w - j - 1))) dest0)
         else if clockwise_degree = 270 then
           map_option (\<lambda>d. out\<lparr>width := h, height := w, luma_stride := h, data := Some d\<rparr>)
             (int_store_rows w h (\<lambda>i j. idx_size 0 i h j)
                (\<lambda>i j. load src0 (idx_int 0 (int j) in_luma_stride (w - i - 1))) dest0)
         else Some out)"

text \<open>The source sample of the chroma loops of \<open>rotate\<close> for output row \<open>i\<close> and column
  \<open>j\<close>, the same expression for the U and the V plane; \<open>src\<close> is the buffer and \<open>k\<close> the
  offset of the plane in it.\<close>

definition rotate_chroma_px ::
  "u8 ultrahdr_uncompressed_struct \<Rightarrow> int \<Rightarrow> u8 buffer \<Rightarrow> nat \<Rightarrow> nat \<Rightarrow> nat \<Rightarrow> u8 option" where
  "rotate_chroma_px inp clockwise_degree src k i j =
     (let in_chroma_stride = in_chroma_stride_of inp;
          w = width inp;
          h = height inp
      in if clockwise_degree = 90
         then load src (idx_size k (h div 2 - j - 1) (to_size_t in_chroma_stride) i)
         else if clockwise_degree = 180
         then load src (idx_size k (h div 2 - i - 1) (to_size_t in_chroma_stride)
                          (w div 2 - j - 1))
         else load src (idx_int k (int j) in_chroma_stride (w div 2 - i - 1)))"

definition rotate ::
  "u8 ultrahdr_uncompressed_struct option \<Rightarrow> int \<Rightarrow> u8 ultrahdr_uncompressed_struct option \<Rightarrow>
   (status_t \<times> u8 ultrahdr_uncompressed_struct option) option" where
  "rotate in_img clockwise_degree out_img =
     (case (in_img, out_img) of
        (Some inp, Some out) \<Rightarrow>
          (case (data inp, data out) of
             (Some src0, Some dest0) \<Rightarrow>
               if clockwise_degree \<noteq> 90 \<and> clockwise_degree \<noteq> 180 \<and> clockwise_degree \<noteq> 270
               then Some (ERROR_ULTRAHDR_INVALID_CROPPING_PARAMETERS, out_img)
               else if pixelFormat inp \<noteq> ULTRAHDR_PIX_FMT_YUV420 \<and>
                       pixelFormat inp \<noteq> ULTRAHDR_PIX_FMT_MONOCHROME
               then Some (ERROR_ULTRAHDR_UNSUPPORTED_FEATURE, out_img)
               else do {
                 out1 \<leftarrow> rotate_luma inp src0 clockwise_degree
                           (out\<lparr>colorGamut := colorGamut inp, pixelFormat := pixelFormat inp\<rparr>)
                           dest0;
                 if pixelFormat inp = ULTRAHDR_PIX_FMT_MONOCHROME
                 then Some (ULTRAHDR_NO_ERROR, Some out1)
                 else do {
                   let in_chroma_stride = in_chroma_stride_of inp;
                   oc \<leftarrow> set_out_chroma out1;
                   let out2 = fst oc;
                   let baseU = snd oc;
                   let ocs = chroma_stride out2;
                   srcU \<leftarrow> chroma_source inp src0 (in_luma_stride_of inp);
                   dest1 \<leftarrow> data out1;
                   dest2 \<leftarrow> int_store_rows (height out2 div 2) (width out2 div 2)
                              (\<lambda>i j. idx_size baseU i ocs j)
                              (rotate_chroma_px inp clockwise_degree (fst srcU) (snd srcU)) dest1;
                   kV \<leftarrow> idx_size (snd srcU) (to_size_t in_chroma_stride) (height inp div 2) 0;
                   baseV \<leftarrow> idx_size baseU ocs (height out2 div 2) 0;
                   dest3 \<leftarrow> int_store_rows (height out2 div 2) (width out2 div 2)
                              (\<lambda>i j. idx_size baseV i ocs j)
                              (rotate_chroma_px inp clockwise_degree (fst srcU) kV) dest2;
                   Some (ULTRAHDR_NO_ERROR, Some (out2\<lparr>data := Some dest3\<rparr>))
                 }
               }
           | _ \<Rightarrow> Some (ERROR_ULTRAHDR_BAD_PTR, out_img))
      | _ \<Rightarrow> Some (ERROR_ULTRAHDR_BAD_PTR, out_img))"

text \<open>\<open>resize\<close>. A negative \<open>out_width\<close> or \<open>out_height\<close> converts to a huge \<open>size_t\<close>
  dimension. The row and the column of the source, \<open>i * in_img->height /
  out_img->height\<close> and \<open>j * in_img->width / out_img->width\<close>, are \<open>size_t\<close> expressions.
  The chroma loop runs over \<open>out_img->height\<close> rows, as the source has it, and stores the
  one plane behind the luma plane.\<close>

definition resize ::
  "u8 ultrahdr_uncompressed_struct option \<Rightarrow> int \<Rightarrow> int \<Rightarrow>
   u8 ultrahdr_uncompressed_struct option \<Rightarrow>
   (status_t \<times> u8 ultrahdr_uncompressed_struct option) option" where
  "resize in_img out_width out_height out_img =
     (case (in_img, out_img) of
        (Some inp, Some out) \<Rightarrow>
          (case (data inp, data out) of
             (Some src0, Some dest0) \<Rightarrow>
               if pixelFormat inp \<noteq> ULTRAHDR_PIX_FMT_YUV420 \<and>
                  pixelFormat inp \<noteq> ULTRAHDR_PIX_FMT_MONOCHROME
               then Some (ERROR_ULTRAHDR_UNSUPPORTED_FEATURE, out_img)
               else do {
                 let in_luma_stride = in_luma_stride_of inp;
                 let ow = to_size_t out_width;
                 let oh = to_size_t out_height;
                 let out1 = out\<lparr>colorGamut := colorGamut inp, pixelFormat := pixelFormat inp,
                              width := ow, height := oh, luma_stride := ow\<rparr>;
                 dest1 \<leftarrow> int_store_rows oh ow (\<lambda>i j. idx_size 0 i (luma_stride out1) j)
                            (\<lambda>i j. load src0
                                      (idx_size 0 (size_t_mul i (height inp) div oh)
                                         (to_size_t in_luma_stride)
                                         (size_t_mul j (width inp) div ow))) dest0;
                 if pixelFormat inp = ULTRAHDR_PIX_FMT_MONOCHROME
                 then Some (ULTRAHDR_NO_ERROR, Some (out1\<lparr>data := Some dest1\<rparr>))
                 else do {
                   let in_chroma_stride = in_chroma_stride_of inp;
                   oc \<leftarrow> set_out_chroma out1;
                   let out2 = fst oc;
                   let base = snd oc;
                   src1 \<leftarrow> chroma_source inp src0 in_luma_stride;
                   dest2 \<leftarrow> int_store_rows oh (ow div 2)
                              (\<lambda>i j. idx_size base i (chroma_stride out2) j)
                              (\<lambda>i j. load (fst src1)
                                        (idx_size (snd src1) (size_t_mul i (height inp) div oh)
                                           (to_size_t in_chroma_stride)
                                           (size_t_mul j (width inp) div ow))) dest1;
                   Some (ULTRAHDR_NO_ERROR, Some (out2\<lparr>data := Some dest2\<rparr>))
                 }
               }
           | _ \<Rightarrow> Some (ERROR_ULTRAHDR_BAD_PTR, out_img))
      | _ \<Rightarrow> Some (ERROR_ULTRAHDR_BAD_PTR, out_img))"

text \<open>The effects, by their dynamic type; \<open>ultrahdr_other_effect\<close> is an object that
  none of the four \<open>dynamic_cast\<close>s accepts, or a null pointer.\<close>

datatype ultrahdr_effect =
    ultrahdr_crop_effect int int int int
  | ultrahdr_mirror_effect ultrahdr_mirroring_direction
  | ultrahdr_rotate_effect int
  | ultrahdr_resize_effect int int
  | ultrahdr_other_effect

text \<open>
  The state of the loop of \<open>addEffects\<close>: the local struct \<open>tmp\<close>, the output struct, the
  struct \<open>last\<close> points to (the input before the first effect, the output after it) and
  the \<open>int\<close> \<open>size\<close>.
\<close>

record effects_state =
  tmp :: "u8 ultrahdr_uncompressed_struct"
  out_s :: "u8 ultrahdr_uncompressed_struct"
  last :: "u8 ultrahdr_uncompressed_struct"
  size_s :: int

text \<open>\<open>if (!isSingleChannel) size = size * 3 / 2\<close> on the \<open>int\<close> \<open>size\<close>.\<close>

definition channels_size :: "bool \<Rightarrow> int \<Rightarrow> int option" where
  "channels_size isSingleChannel n =
     (if isSingleChannel then Some n else map_option (\<lambda>k. int_div k 2) (int_res (n * 3)))"

text \<open>The \<open>int\<close> \<open>size\<close> that an effect computes before it allocates \<open>tmp.data\<close>; an effect
  of another type computes none.\<close>

definition effect_size ::
  "bool \<Rightarrow> ultrahdr_effect \<Rightarrow> u8 ultrahdr_uncompressed_struct \<Rightarrow> int option" where
  "effect_size isSingleChannel e last_img =
     (case e of
        ultrahdr_crop_effect left right top' bottom \<Rightarrow>
          do {
            hd \<leftarrow> int_res (bottom - top');
            h1 \<leftarrow> int_res (hd + 1);
            wd \<leftarrow> int_res (right - left);
            w1 \<leftarrow> int_res (wd + 1);
            n \<leftarrow> int_res (h1 * w1);
            channels_size isSingleChannel n
          }
      | ultrahdr_mirror_effect d \<Rightarrow>
          channels_size isSingleChannel (to_int (size_t_mul (width last_img) (height last_img)))
      | ultrahdr_rotate_effect g \<Rightarrow>
          channels_size isSingleChannel (to_int (size_t_mul (width last_img) (height last_img)))
      | ultrahdr_resize_effect new_width new_height \<Rightarrow>
          do {
            n \<leftarrow> int_res (new_width * new_height);
            channels_size isSingleChannel n
          }
      | ultrahdr_other_effect \<Rightarrow> None)"

text \<open>
  One iteration. The status of the operation is dropped. \<open>tmp.data\<close> is a new array of
  \<open>size\<close> bytes, of content \<open>fresh\<close>; a negative \<open>size\<close> makes \<open>new\<close> throw, and an effect of
  another type leaves \<open>tmp.data\<close> pointing to an array that is gone: both are \<open>None\<close>.
\<close>

definition run_effect ::
  "bool \<Rightarrow> u8 buffer \<Rightarrow> ultrahdr_effect \<Rightarrow> effects_state \<Rightarrow> effects_state option" where
  "run_effect isSingleChannel fresh e s =
     do {
       n \<leftarrow> effect_size isSingleChannel e (last s);
       if n < 0 then None
       else do {
         let t0 = Some ((tmp s)\<lparr>data := Some fresh\<rparr>);
         r \<leftarrow> (case e of
                 ultrahdr_crop_effect left right top' bottom \<Rightarrow>
                   crop (Some (last s)) left right top' bottom t0
               | ultrahdr_mirror_effect d \<Rightarrow> mirror (Some (last s)) d t0
               | ultrahdr_rotate_effect g \<Rightarrow> rotate (Some (last s)) g t0
               | ultrahdr_resize_effect new_width new_height \<Rightarrow>
                   resize (Some (last s)) new_width new_height t0
               | ultrahdr_other_effect \<Rightarrow> None);
         t \<leftarrow> snd r;
         td \<leftarrow> data t;
         od \<leftarrow> data (out_s s);
         let o1 = (out_s s)\<lparr>width := width t, height := height t,
                    colorGamut := colorGamut t, pixelFormat := pixelFormat t,
                    luma_stride := luma_stride t, chroma_stride := chroma_stride t,
                    data := Some (memcpy od 0 td (nat n))\<rparr>;
         o2 \<leftarrow> (if \<not> isSingleChannel
                then map_option (\<lambda>k. o1\<lparr>chroma_data := Own k\<rparr>)
                       (offset (size_t_mul (luma_stride o1) (height o1)))
                else Some o1);
         Some \<lparr>tmp = t, out_s = o2, last = o2, size_s = n\<rparr>
       }
     }"

text \<open>\<open>for (auto e : effects)\<close>.\<close>

fun run_effects ::
  "bool \<Rightarrow> u8 buffer \<Rightarrow> ultrahdr_effect list \<Rightarrow> effects_state \<Rightarrow> effects_state option" where
  "run_effects isSingleChannel fresh [] s = Some s"
| "run_effects isSingleChannel fresh (e # es) s =
     (case run_effect isSingleChannel fresh e s of
        None \<Rightarrow> None
      | Some s' \<Rightarrow> run_effects isSingleChannel fresh es s')"

text \<open>\<open>addEffects\<close>. \<open>tmp0\<close> is the local struct \<open>tmp\<close> as its declaration leaves it: the
  members with a default initialiser set, the others indeterminate. \<open>size\<close> is the \<open>int\<close>
  that receives \<open>in_img->width * in_img->height\<close>; a negative one, converted to the
  \<open>size_t\<close> length of \<open>memcpy\<close>, makes the copy leave every object.\<close>

definition addEffects ::
  "u8 ultrahdr_uncompressed_struct \<Rightarrow> u8 buffer \<Rightarrow> u8 ultrahdr_uncompressed_struct option \<Rightarrow>
   ultrahdr_effect list \<Rightarrow> u8 ultrahdr_uncompressed_struct option \<Rightarrow>
   (status_t \<times> u8 ultrahdr_uncompressed_struct option) option" where
  "addEffects tmp0 fresh in_img effects out_img =
     (case (in_img, out_img) of
        (Some inp, Some out) \<Rightarrow>
          (case (data inp, data out) of
             (Some src0, Some dest0) \<Rightarrow>
               do {
                 let isSingleChannel = (pixelFormat inp = ULTRAHDR_PIX_FMT_MONOCHROME);
                 size0 \<leftarrow> channels_size isSingleChannel
                            (to_int (size_t_mul (width inp) (height inp)));
                 if size0 < 0 then None
                 else do {
                   let out1 = out\<lparr>width := width inp, height := height inp,
                                colorGamut := colorGamut inp, pixelFormat := pixelFormat inp,
                                luma_stride := luma_stride inp,
                                chroma_stride := chroma_stride inp,
                                data := Some (memcpy dest0 0 src0 (nat size0))\<rparr>;
                   s \<leftarrow> run_effects isSingleChannel fresh effects
                          \<lparr>tmp = tmp0\<lparr>chroma_data := Null, luma_stride := 0, chroma_stride := 0,
                                      pixelFormat := ULTRAHDR_PIX_FMT_UNSPECIFIED\<rparr>,
                           out_s = out1, last = inp, size_s = size0\<rparr>;
                   Some (ULTRAHDR_NO_ERROR, Some (out_s s))
                 }
               }
           | _ \<Rightarrow> Some (ERROR_ULTRAHDR_BAD_PTR, out_img))
      | _ \<Rightarrow> Some (ERROR_ULTRAHDR_BAD_PTR, out_img))"

section \<open>Tone mapping (ultrahdr.cpp)\<close>

text \<open>\<open>static_cast<uint8_t>((v_uint >> 2) & 0xff)\<close> for \<open>uint16_t v_uint = v >> 6\<close>.\<close>

definition tone :: "u16 \<Rightarrow> u8" where
  "tone v = ucast (drop_bit 2 (drop_bit 6 v) AND 0xff)"

text \<open>\<open>memset(p + off, 0, n)\<close>.\<close>

definition memset0 :: "u8 buffer \<Rightarrow> nat \<Rightarrow> nat \<Rightarrow> u8 buffer" where
  "memset0 b off n = (\<lambda>i. if off \<le> i \<and> i < off + n then 0 else b i)"

text \<open>The body of the luma loop for row \<open>y\<close>: the samples, then the padding.\<close>

definition toneMap_luma_row ::
  "u16 buffer \<Rightarrow> nat \<Rightarrow> nat \<Rightarrow> nat \<Rightarrow> nat \<Rightarrow> u8 buffer \<Rightarrow> u8 buffer" where
  "toneMap_luma_row src_y_data src_stride w dst_stride y b =
     (let b1 = for_loop w (\<lambda>x b. b(y * dst_stride + x := tone (src_y_data (y * src_stride + x)))) b
      in if w \<noteq> dst_stride then memset0 b1 (y * dst_stride + w) (dst_stride - w) else b1)"





section \<open>Sniffing the container type (ultrahdr.cpp)\<close>

text \<open>\<open>isJpeg\<close>: the copy into \<open>brand\<close> is dead code; the test is the source's
  \<open>data[0] == 0xFF && data[1] == 0xD8 || data[2] == 0xFF\<close>, where \<open>&&\<close> binds tighter.\<close>

definition isJpeg :: "u8 buffer option \<Rightarrow> int \<Rightarrow> bool" where
  "isJpeg d len =
     (case d of
        None \<Rightarrow> False
      | Some b \<Rightarrow>
          if len < 3 then False
          else if (b 0 = 0xFF \<and> b 1 = 0xD8) \<or> b 2 = 0xFF then True
          else False)"

text \<open>\<open>strcmp(brand, s) == 0\<close> for the four bytes \<open>data[8..11]\<close>, which the source
  copies into a NUL-terminated array, and a literal \<open>s\<close> of four characters.\<close>

definition brand_is :: "u8 buffer \<Rightarrow> string \<Rightarrow> bool" where
  "brand_is b s = ([b 8, b 9, b 10, b 11] = map (\<lambda>c. of_nat (of_char c)) s)"

definition isAvif :: "u8 buffer option \<Rightarrow> int \<Rightarrow> bool" where
  "isAvif d len =
     (case d of
        None \<Rightarrow> False
      | Some b \<Rightarrow>
          if len < 12 then False
          else if brand_is b ''avif'' \<or> brand_is b ''avis'' then True
          else False)"

definition isHeic :: "u8 buffer option \<Rightarrow> int \<Rightarrow> bool" where
  "isHeic d len =
     (case d of
        None \<Rightarrow> False
      | Some b \<Rightarrow>
          if len < 12 then False
          else if brand_is b ''heic'' \<or> brand_is b ''heix'' \<or> brand_is b ''heim'' \<or>
                  brand_is b ''heis'' \<or> brand_is b ''mif1'' \<or> brand_is b ''hevc'' \<or>
                  brand_is b ''hevx'' \<or> brand_is b ''hevm'' \<or> brand_is b ''hevs'' \<or>
                  brand_is b ''msf1'' then True
          else False)"

definition isHeif :: "u8 buffer option \<Rightarrow> int \<Rightarrow> bool" where
  "isHeif d len = (isHeic d len \<or> isAvif d len)"

section \<open>The assembler: adding images (ultrahdr.cpp)\<close>

record ultrahdr_exif_struct =
  data_e :: "u8 buffer option"
  length_e :: nat

text \<open>The members of \<open>UltraHdr\<close> that \<open>addImage\<close> reads and writes. The raw images are
  held as bytes, so an \<open>Own\<close> offset of theirs counts bytes.\<close>

record UltraHdr =
  sdr_jpeg_img :: "ultrahdr_compressed_struct option"
  sdr_heif_img :: "ultrahdr_compressed_struct option"
  sdr_raw_img :: "u8 ultrahdr_uncompressed_struct option"
  hdr_raw_img :: "u8 ultrahdr_uncompressed_struct option"
  gain_map_raw_img :: "u8 ultrahdr_uncompressed_struct option"
  gain_map_metadata :: "ultrahdr_metadata_struct option"
  exif :: "ultrahdr_exif_struct option"

text \<open>
  \<open>std::make_shared<T>()\<close> value-initialises: members without a default member
  initialiser are zeroed, and the enumerator with value 0 of \<open>ultrahdr_color_gamut\<close> is
  \<open>ULTRAHDR_COLORGAMUT_BT709\<close>.
\<close>

definition new_uncompressed :: "'a ultrahdr_uncompressed_struct" where
  "new_uncompressed = \<lparr>data = None, width = 0, height = 0,
     colorGamut = ULTRAHDR_COLORGAMUT_BT709, chroma_data = Null, luma_stride = 0,
     chroma_stride = 0, pixelFormat = ULTRAHDR_PIX_FMT_UNSPECIFIED\<rparr>"

definition new_compressed :: ultrahdr_compressed_struct where
  "new_compressed = \<lparr>data_c = None, length_c = 0, maxLength_c = 0,
     colorGamut_c = ULTRAHDR_COLORGAMUT_BT709\<rparr>"

definition new_metadata :: ultrahdr_metadata_struct where
  "new_metadata = \<lparr>version = [], maxContentBoost = Finite 0, minContentBoost = Finite 0,
     gamma = Finite 0, offsetSdr = Finite 0, offsetHdr = Finite 0, hdrCapacityMin = Finite 0,
     hdrCapacityMax = Finite 0\<rparr>"

text \<open>
  The collaborators of \<open>addImage\<close>, which are libraries outside the sources: the JPEG
  scanner of image_io (the ranges of the images it finds, \<open>None\<close> when it reports an
  error), \<open>JpegDecoderHelper\<close>, \<open>getMetadataFromXMP\<close> (its success and the metadata it
  wrote), and what libheif answers about a container. \<open>uninit_c\<close> is the content of an
  uninitialised local struct, \<open>alloc\<close> the content of a new array.
\<close>

record jpeg_decoded =
  DecompressedImagePtr :: "u8 buffer"
  DecompressedImageSize :: nat
  DecompressedImageWidth :: nat
  DecompressedImageHeight :: nat
  XMP :: "u8 list"

record heif_decoded =
  exif_block :: "(nat \<times> u8 buffer) option"
  luma_bits_per_pixel :: int
  image_width :: nat
  image_height :: nat
  image_as_p010 :: "u8 buffer"
  plane_Y :: "u8 buffer"
  plane_Cb :: "u8 buffer"
  plane_Cr :: "u8 buffer"
  gain_map_image :: "(nat \<times> nat \<times> u8 buffer \<times> ultrahdr_metadata_struct) option"

record codecs =
  jpeg_scanner :: "u8 buffer \<Rightarrow> int \<Rightarrow> (nat \<times> nat) list option"
  decompressImage :: "u8 buffer option \<Rightarrow> int \<Rightarrow> jpeg_decoded option"
  getMetadataFromXMP :: "u8 list \<Rightarrow> ultrahdr_metadata_struct \<Rightarrow> bool \<times> ultrahdr_metadata_struct"
  heif_read :: "u8 buffer option \<Rightarrow> int \<Rightarrow> heif_decoded"
  uninit_c :: ultrahdr_compressed_struct
  alloc :: "u8 buffer"

text \<open>\<open>JpegR::extractPrimaryImageAndGainMap\<close> (jpegr.cpp), called with non-null
  pointers: the status and the two output structs.\<close>

definition extractPrimaryImageAndGainMap ::
  "codecs \<Rightarrow> ultrahdr_compressed_struct \<Rightarrow> ultrahdr_compressed_struct \<Rightarrow>
   ultrahdr_compressed_struct \<Rightarrow>
   status_t \<times> ultrahdr_compressed_struct \<times> ultrahdr_compressed_struct" where
  "extractPrimaryImageAndGainMap c img primary gainmap =
     (case data_c img of
        None \<Rightarrow> (ULTRAHDR_UNKNOWN_ERROR, primary, gainmap)
      | Some b \<Rightarrow>
         (case jpeg_scanner c b (length_c img) of
            None \<Rightarrow> (ULTRAHDR_UNKNOWN_ERROR, primary, gainmap)
          | Some [] \<Rightarrow> (ERROR_ULTRAHDR_NO_IMAGES_FOUND, primary, gainmap)
          | Some [r0] \<Rightarrow>
              (ERROR_ULTRAHDR_GAIN_MAP_IMAGE_NOT_FOUND,
               primary\<lparr>data_c := Some (advance b (fst r0)), length_c := int (snd r0)\<rparr>, gainmap)
          | Some (r0 # r1 # rs) \<Rightarrow>
              (ULTRAHDR_NO_ERROR,
               primary\<lparr>data_c := Some (advance b (fst r0)), length_c := int (snd r0)\<rparr>,
               gainmap\<lparr>data_c := Some (advance b (fst r1)), length_c := int (snd r1)\<rparr>)))"

text \<open>The copy of a compressed img into a new struct: \<open>make_shared\<close>, \<open>new\<close>,
  \<open>memcpy\<close>. \<open>None\<close> when the source pointer is null.\<close>

definition copy_compressed ::
  "codecs \<Rightarrow> u8 buffer option \<Rightarrow> int \<Rightarrow> ultrahdr_color_gamut \<Rightarrow>
   ultrahdr_compressed_struct option" where
  "copy_compressed c src len gamut =
     (case src of
        None \<Rightarrow> None
      | Some b \<Rightarrow>
          Some (new_compressed\<lparr>data_c := Some (memcpy (alloc c) 0 b (nat len)),
                  length_c := len, colorGamut_c := gamut\<rparr>))"

text \<open>The JPEG and JPEG_R branch of \<open>addImage(ultrahdr_compressed_struct*)\<close>.\<close>

definition addImage_jpeg ::
  "codecs \<Rightarrow> UltraHdr \<Rightarrow> ultrahdr_compressed_struct \<Rightarrow> (status_t \<times> UltraHdr) option" where
  "addImage_jpeg c st img =
     (case extractPrimaryImageAndGainMap c img (uninit_c c) (uninit_c c) of
        (err, primary_jpeg_image, gainmap_jpeg_image) \<Rightarrow>
          if err = ULTRAHDR_NO_ERROR then
            (case (if sdr_jpeg_img st = None
                   then map_option (\<lambda>j. st\<lparr>sdr_jpeg_img := Some j\<rparr>)
                          (copy_compressed c (data_c primary_jpeg_image)
                             (length_c primary_jpeg_image) (colorGamut_c img))
                   else Some st) of
               None \<Rightarrow> None
             | Some st1 \<Rightarrow>
                 if gain_map_raw_img st1 = None \<or> gain_map_metadata st1 = None then
                   (case decompressImage c (data_c gainmap_jpeg_image) (length_c gainmap_jpeg_image) of
                      None \<Rightarrow> Some (ERROR_ULTRAHDR_DECODE_ERROR, st1)
                    | Some dec \<Rightarrow>
                        let st2 =
                              (if gain_map_raw_img st1 = None
                               then st1\<lparr>gain_map_raw_img := Some (new_uncompressed
                                      \<lparr>data := Some (memcpy (alloc c) 0 (DecompressedImagePtr dec)
                                                       (DecompressedImageSize dec)),
                                       width := DecompressedImageWidth dec,
                                       height := DecompressedImageHeight dec\<rparr>)\<rparr>
                               else st1);
                            m = getMetadataFromXMP c (XMP dec) new_metadata
                        in if gain_map_metadata st2 = None \<and> \<not> fst m
                           then Some (ERROR_ULTRAHDR_METADATA_ERROR,
                                      st2\<lparr>gain_map_metadata := Some (snd m)\<rparr>)
                           else
                             let st3 = (if gain_map_metadata st2 = None
                                        then st2\<lparr>gain_map_metadata := Some (snd m)\<rparr> else st2)
                             in (case decompressImage c (data_c primary_jpeg_image)
                                        (length_c primary_jpeg_image) of
                                   None \<Rightarrow> Some (ERROR_ULTRAHDR_DECODE_ERROR, st3)
                                 | Some dec' \<Rightarrow> Some (ULTRAHDR_NO_ERROR, st3)))
                 else Some (ULTRAHDR_NO_ERROR, st1))
          else
            (if sdr_jpeg_img st = None
             then map_option (\<lambda>j. (ULTRAHDR_NO_ERROR, st\<lparr>sdr_jpeg_img := Some j\<rparr>))
                    (copy_compressed c (data_c img) (length_c img) (colorGamut_c img))
             else Some (ULTRAHDR_NO_ERROR, st)))"

text \<open>The gain map part of the HEIF branch.\<close>

definition addImage_heif_gain_map :: "heif_decoded \<Rightarrow> UltraHdr \<Rightarrow> status_t \<times> UltraHdr" where
  "addImage_heif_gain_map h st =
     (case gain_map_image h of
        None \<Rightarrow> (ULTRAHDR_NO_ERROR, st)
      | Some (gm_width, gm_height, plane, gmm) \<Rightarrow>
          if gain_map_raw_img st = None \<or> gain_map_metadata st = None then
            let st1 = (if gain_map_raw_img st = None
                       then st\<lparr>gain_map_raw_img := Some (new_uncompressed
                              \<lparr>data := Some (memcpy (\<lambda>i. 0) 0 plane (gm_width * gm_height)),
                               width := gm_width, height := gm_height,
                               pixelFormat := ULTRAHDR_PIX_FMT_MONOCHROME\<rparr>)\<rparr>
                       else st);
                st2 = (if gain_map_metadata st1 = None
                       then st1\<lparr>gain_map_metadata := Some gmm\<rparr> else st1)
            in (ULTRAHDR_NO_ERROR, st2)
          else (ULTRAHDR_NO_ERROR, st))"

text \<open>The HEIF branch. \<open>std::make_unique<uint8_t[]>(n)\<close> zeroes the array.\<close>

definition addImage_heif ::
  "codecs \<Rightarrow> UltraHdr \<Rightarrow> ultrahdr_compressed_struct \<Rightarrow> (status_t \<times> UltraHdr) option" where
  "addImage_heif c st img =
     (let h = heif_read c (data_c img) (length_c img);
          st1 = (if exif st = None
                 then (case exif_block h of
                         Some (len, bytes) \<Rightarrow>
                           st\<lparr>exif := Some \<lparr>data_e = Some (memcpy (alloc c) 0 bytes len),
                                              length_e = len\<rparr>\<rparr>
                       | None \<Rightarrow> st)
                 else st);
          w = image_width h;
          ht = image_height h
      in if luma_bits_per_pixel h = 10 then
           (if hdr_raw_img st1 = None
            then Some (ULTRAHDR_NO_ERROR,
                   st1\<lparr>hdr_raw_img := Some (new_uncompressed
                        \<lparr>data := Some (memcpy (\<lambda>i. 0) 0 (image_as_p010 h) (w * ht * 3)),
                         chroma_data := Own (w * ht * 2), width := w, height := ht,
                         pixelFormat := ULTRAHDR_PIX_FMT_P010, colorGamut := colorGamut_c img,
                         luma_stride := w, chroma_stride := w\<rparr>)\<rparr>)
            else Some (addImage_heif_gain_map h st1))
         else if luma_bits_per_pixel h = 8 then
           (let st2 = (if sdr_raw_img st1 = None
                       then st1\<lparr>sdr_raw_img := Some (new_uncompressed
                              \<lparr>data := Some
                                 (memcpy
                                   (memcpy (memcpy (\<lambda>i. 0) 0 (plane_Y h) (w * ht))
                                      (w * ht) (plane_Cb h) (((w + 1) div 2) * ((ht + 1) div 2)))
                                   (w * ht * 5 div 4) (plane_Cr h)
                                   (((w + 1) div 2) * ((ht + 1) div 2))),
                               chroma_data := Own (w * ht), width := w, height := ht,
                               pixelFormat := ULTRAHDR_PIX_FMT_YUV420,
                               colorGamut := colorGamut_c img\<rparr>)\<rparr>
                       else st1)
            in if sdr_heif_img st2 = None
               then (case copy_compressed c (data_c img) (length_c img) (colorGamut_c img) of
                       None \<Rightarrow> None
                     | Some j \<Rightarrow> Some (addImage_heif_gain_map h (st2\<lparr>sdr_heif_img := Some j\<rparr>)))
               else Some (addImage_heif_gain_map h st2))
         else Some (addImage_heif_gain_map h st1))"

text \<open>\<open>addImage(ultrahdr_compressed_struct*)\<close>. The pointer is dereferenced unchecked.\<close>

definition addImage_compressed ::
  "codecs \<Rightarrow> UltraHdr \<Rightarrow> ultrahdr_compressed_struct option \<Rightarrow> (status_t \<times> UltraHdr) option" where
  "addImage_compressed c st image_ptr =
     (case image_ptr of
        None \<Rightarrow> None
      | Some img \<Rightarrow>
          if isJpeg (data_c img) (length_c img) then addImage_jpeg c st img
          else if isHeif (data_c img) (length_c img) then addImage_heif c st img
          else Some (ERROR_ULTRAHDR_UNSUPPORTED_FEATURE, st))"

text \<open>
  \<open>addImage(ultrahdr_uncompressed_struct*)\<close>. The test
  \<open>image == nullptr && image->data == nullptr\<close> dereferences a null \<open>image\<close> and is false
  for every other; a null \<open>image->data\<close> reaches \<open>memcpy\<close>. The new struct has a null
  \<open>chroma_data\<close>, so the chroma pointer and stride are always derived from the luma
  stride; for P010 the pointer arithmetic is on \<open>uint16_t\<close>, two bytes an element.
  \<open>size\<close> is an \<open>int\<close> that receives a \<open>size_t\<close> product; \<open>new uint8_t[size]\<close> throws for
  a negative one.
\<close>

definition addImage_raw ::
  "u8 buffer \<Rightarrow> UltraHdr \<Rightarrow> u8 ultrahdr_uncompressed_struct option \<Rightarrow> (status_t \<times> UltraHdr) option" where
  "addImage_raw fresh st image_ptr =
     (case image_ptr of
        None \<Rightarrow> None
      | Some img \<Rightarrow>
          if pixelFormat img = ULTRAHDR_PIX_FMT_P010 then
            (if hdr_raw_img st = None then
               (case data img of
                  None \<Rightarrow> None
                | Some src \<Rightarrow>
                    let size = to_int (size_t_mul (size_t_mul (width img) (height img)) 3);
                        h0 = new_uncompressed\<lparr>width := width img, height := height img,
                               colorGamut := colorGamut img, pixelFormat := pixelFormat img,
                               luma_stride := luma_stride img,
                               chroma_stride := chroma_stride img,
                               data := Some (memcpy fresh 0 src (nat size))\<rparr>;
                        h1 = (if luma_stride h0 = 0 then h0\<lparr>luma_stride := width h0\<rparr> else h0);
                        h2 = (if chroma_data h1 = Null
                              then h1\<lparr>chroma_data := Own (2 * (luma_stride h1 * height h1)),
                                     chroma_stride := luma_stride h1\<rparr>
                              else h1)
                    in if size < 0 then None
                       else Some (ULTRAHDR_NO_ERROR, st\<lparr>hdr_raw_img := Some h2\<rparr>))
             else Some (ULTRAHDR_NO_ERROR, st))
          else if pixelFormat img = ULTRAHDR_PIX_FMT_YUV420 then
            (if sdr_raw_img st = None then
               (case data img of
                  None \<Rightarrow> None
                | Some src \<Rightarrow>
                    let size = to_int (size_t_mul (size_t_mul (width img) (height img)) 3 div 2);
                        s0 = new_uncompressed\<lparr>width := width img, height := height img,
                               colorGamut := colorGamut img, pixelFormat := pixelFormat img,
                               luma_stride := luma_stride img,
                               chroma_stride := chroma_stride img,
                               data := Some (memcpy fresh 0 src (nat size))\<rparr>;
                        s1 = (if luma_stride s0 = 0 then s0\<lparr>luma_stride := width s0\<rparr> else s0);
                        s2 = (if chroma_data s1 = Null
                              then s1\<lparr>chroma_data := Own (luma_stride s1 * height s1),
                                     chroma_stride := luma_stride s1 div 2\<rparr>
                              else s1)
                    in if size < 0 then None
                       else Some (ULTRAHDR_NO_ERROR, st\<lparr>sdr_raw_img := Some s2\<rparr>))
             else Some (ULTRAHDR_NO_ERROR, st))
          else Some (ERROR_ULTRAHDR_UNSUPPORTED_FEATURE, st))"

section \<open>Example inputs\<close>

text \<open>An 8x4 SDR image and an 8x4 P010 image, each in one allocation with the chroma
  plane behind the luma plane, a 2x1 gain map, and metadata records.\<close>

definition ex_sdr :: "u8 ultrahdr_uncompressed_struct" where
  "ex_sdr = \<lparr>data = Some (\<lambda>i. of_nat i), width = 8, height = 4,
     colorGamut = ULTRAHDR_COLORGAMUT_BT709, chroma_data = Own 32, luma_stride = 8,
     chroma_stride = 4, pixelFormat = ULTRAHDR_PIX_FMT_YUV420\<rparr>"

definition ex_hdr :: "u16 ultrahdr_uncompressed_struct" where
  "ex_hdr = \<lparr>data = Some (\<lambda>i. of_nat (64 * i)), width = 8, height = 4,
     colorGamut = ULTRAHDR_COLORGAMUT_BT2100, chroma_data = Own 32, luma_stride = 8,
     chroma_stride = 8, pixelFormat = ULTRAHDR_PIX_FMT_P010\<rparr>"

definition ex_gainmap :: "u8 ultrahdr_uncompressed_struct" where
  "ex_gainmap = \<lparr>data = Some (\<lambda>i. 128), width = 2, height = 1,
     colorGamut = ULTRAHDR_COLORGAMUT_UNSPECIFIED, chroma_data = Null, luma_stride = 2,
     chroma_stride = 0, pixelFormat = ULTRAHDR_PIX_FMT_MONOCHROME\<rparr>"

definition ex_gainmap3 :: "u8 ultrahdr_uncompressed_struct" where
  "ex_gainmap3 = ex_gainmap\<lparr>width := 3\<rparr>"

text \<open>A metadata record as a caller declares it, unset, and one that \<open>applyGainMap\<close>
  accepts.\<close>

definition ex_metadata_unset :: ultrahdr_metadata_struct where
  "ex_metadata_unset = \<lparr>version = [], maxContentBoost = NaN, minContentBoost = NaN,
     gamma = NaN, offsetSdr = NaN, offsetHdr = NaN, hdrCapacityMin = NaN,
     hdrCapacityMax = NaN\<rparr>"

definition ex_metadata :: ultrahdr_metadata_struct where
  "ex_metadata = \<lparr>version = ''1.0'', maxContentBoost = Finite 4, minContentBoost = Finite 1,
     gamma = Finite 1, offsetSdr = Finite 0, offsetHdr = Finite 0, hdrCapacityMin = Finite 1,
     hdrCapacityMax = Finite 4\<rparr>"

text \<open>A destination struct whose \<open>data\<close> is null, and one with a zeroed buffer.\<close>

definition ex_dest_null :: "'c ultrahdr_uncompressed_struct" where
  "ex_dest_null = \<lparr>data = None, width = 0, height = 0,
     colorGamut = ULTRAHDR_COLORGAMUT_UNSPECIFIED, chroma_data = Null, luma_stride = 0,
     chroma_stride = 0, pixelFormat = ULTRAHDR_PIX_FMT_UNSPECIFIED\<rparr>"

definition ex_dest :: "nat ultrahdr_uncompressed_struct" where
  "ex_dest = ex_dest_null\<lparr>data := Some (\<lambda>i. 0)\<rparr>"

definition ex_encode :: gain_kernel where
  "ex_encode fns md yuv p010 x y = of_nat (x + y)"

definition ex_render :: "nat render_kernel" where
  "ex_render smp boost md fmt yuv gm x y c = x + y + c"

definition ex_fresh :: "u8 buffer" where
  "ex_fresh i = 0"

text \<open>Compressed buffers: the two bytes FF D8 alone, a JPEG prefix FF D8 FF E0, and
  three bytes 00 00 FF; collaborators that find no image; an empty assembler.\<close>

definition ex_soi2 :: ultrahdr_compressed_struct where
  "ex_soi2 = \<lparr>data_c = Some (\<lambda>i. if i = 0 then 0xFF else if i = 1 then 0xD8 else 0),
     length_c = 2, maxLength_c = 2, colorGamut_c = ULTRAHDR_COLORGAMUT_BT709\<rparr>"

definition ex_jpeg :: ultrahdr_compressed_struct where
  "ex_jpeg = \<lparr>data_c = Some (\<lambda>i. if i = 0 then 0xFF else if i = 1 then 0xD8
                              else if i = 2 then 0xFF else if i = 3 then 0xE0 else 0),
     length_c = 64, maxLength_c = 64, colorGamut_c = ULTRAHDR_COLORGAMUT_BT709\<rparr>"

definition ex_not_jpeg :: ultrahdr_compressed_struct where
  "ex_not_jpeg = \<lparr>data_c = Some (\<lambda>i. if i = 2 then 0xFF else 0),
     length_c = 3, maxLength_c = 3, colorGamut_c = ULTRAHDR_COLORGAMUT_BT709\<rparr>"

definition ex_codecs :: codecs where
  "ex_codecs = \<lparr>jpeg_scanner = (\<lambda>b n. None), decompressImage = (\<lambda>b n. None),
     getMetadataFromXMP = (\<lambda>x m. (False, m)),
     heif_read = (\<lambda>b n. \<lparr>exif_block = None, luma_bits_per_pixel = 0, image_width = 0,
        image_height = 0, image_as_p010 = (\<lambda>i. 0), plane_Y = (\<lambda>i. 0), plane_Cb = (\<lambda>i. 0),
        plane_Cr = (\<lambda>i. 0), gain_map_image = None\<rparr>),
     uninit_c = new_compressed, alloc = (\<lambda>i. 0)\<rparr>"

definition ex_empty :: UltraHdr where
  "ex_empty = \<lparr>sdr_jpeg_img = None, sdr_heif_img = None, sdr_raw_img = None,
     hdr_raw_img = None, gain_map_raw_img = None, gain_map_metadata = None, exif = None\<rparr>"

text \<open>A second 8x4 SDR image, with other samples and gamut, and a P010 image as bytes.\<close>

definition ex_sdr2 :: "u8 ultrahdr_uncompressed_struct" where
  "ex_sdr2 = ex_sdr\<lparr>data := Some (\<lambda>i. 7), colorGamut := ULTRAHDR_COLORGAMUT_P3\<rparr>"

definition ex_p010_bytes :: "u8 ultrahdr_uncompressed_struct" where
  "ex_p010_bytes = \<lparr>data = Some (\<lambda>i. of_nat (3 * i)), width = 8, height = 4,
     colorGamut = ULTRAHDR_COLORGAMUT_BT2100, chroma_data = Null, luma_stride = 0,
     chroma_stride = 0, pixelFormat = ULTRAHDR_PIX_FMT_P010\<rparr>"

text \<open>An output struct with a zeroed buffer, and the local struct \<open>tmp\<close> of \<open>addEffects\<close>
  with arbitrary values in the members its declaration does not initialise.\<close>

definition ex_out :: "u8 ultrahdr_uncompressed_struct" where
  "ex_out = \<lparr>data = Some (\<lambda>i. 0), width = 0, height = 0,
     colorGamut = ULTRAHDR_COLORGAMUT_UNSPECIFIED, chroma_data = Null, luma_stride = 0,
     chroma_stride = 0, pixelFormat = ULTRAHDR_PIX_FMT_UNSPECIFIED\<rparr>"

definition ex_tmp :: "u8 ultrahdr_uncompressed_struct" where
  "ex_tmp = \<lparr>data = None, width = 12345, height = 678,
     colorGamut = ULTRAHDR_COLORGAMUT_P3, chroma_data = Null, luma_stride = 0,
     chroma_stride = 0, pixelFormat = ULTRAHDR_PIX_FMT_UNSPECIFIED\<rparr>"



section \<open>Properties\<close>

subsection \<open>Gain map generation\<close>

lemma fdiv_hlg: "fdiv kHlgMaxNits kSdrWhiteNits = Finite (5165399 / 1048576)"
  by code_simp

lemma fdiv_pq: "fdiv kPqMaxNits kSdrWhiteNits = Finite (6456749 / 131072)"
  by code_simp

lemma hdr_tf_switch_Some:
  "hdr_tf_switch tf = Some (f, w) \<Longrightarrow>
     (tf = ULTRAHDR_TF_LINEAR \<or> tf = ULTRAHDR_TF_HLG) \<and> w = kHlgMaxNits \<or> tf = ULTRAHDR_TF_PQ \<and> w = kPqMaxNits"
  by (cases tf) auto


lemma sdr_gamut_switch_specified:
  "g \<noteq> ULTRAHDR_COLORGAMUT_UNSPECIFIED \<Longrightarrow> \<exists>l f. sdr_gamut_switch g = Some (l, f)"
  by (cases g) auto

lemma hdr_gamut_switch_specified:
  "g \<noteq> ULTRAHDR_COLORGAMUT_UNSPECIFIED \<Longrightarrow> \<exists>f. hdr_gamut_switch g = Some f"
  by (cases g) auto

lemma generateGainMap_success:
  fixes encode fresh M D sdr_is_601
  assumes "data Y \<noteq> None" "chroma_data Y \<noteq> Null" "data P \<noteq> None" "chroma_data P \<noteq> Null"
    and "width Y = width P" "height Y = height P"
    and "colorGamut Y \<noteq> ULTRAHDR_COLORGAMUT_UNSPECIFIED"
    and "colorGamut P \<noteq> ULTRAHDR_COLORGAMUT_UNSPECIFIED"
    and "hdr_tf_switch hdr_tf = Some (inv_oetf, white)"
  defines "r \<equiv> generateGainMap encode fresh (Some Y) (Some P) hdr_tf (Some M) (Some D) sdr_is_601"
  shows "fst r = ULTRAHDR_NO_ERROR"
    and "fst (snd r) =
      Some (M\<lparr>version := kGainMapVersion, maxContentBoost := fdiv white kSdrWhiteNits,
              minContentBoost := Finite 1, gamma := Finite 1,
              offsetSdr := Finite 0, offsetHdr := Finite 0,
              hdrCapacityMin := Finite 1, hdrCapacityMax := fdiv white kSdrWhiteNits\<rparr>)"
    and "\<exists>d. snd (snd r) = Some d \<and> data d \<noteq> None
          \<and> width d = width Y div kMapDimensionScaleFactor
          \<and> height d = height Y div kMapDimensionScaleFactor
          \<and> colorGamut d = ULTRAHDR_COLORGAMUT_UNSPECIFIED
          \<and> luma_stride d = width Y div kMapDimensionScaleFactor
          \<and> chroma_data d = Null \<and> chroma_stride d = 0
          \<and> pixelFormat d = ULTRAHDR_PIX_FMT_MONOCHROME"
proof -
  obtain l f where s: "sdr_gamut_switch (colorGamut Y) = Some (l, f)"
    using sdr_gamut_switch_specified assms(7) by blast
  obtain g where h: "hdr_gamut_switch (colorGamut P) = Some g"
    using hdr_gamut_switch_specified assms(8) by blast
  obtain yb pb where p: "data Y = Some yb" "data P = Some pb"
    using assms(1,3) by auto
  note facts = p assms(2,4-9) s h
  show "fst r = ULTRAHDR_NO_ERROR"
    using facts by (simp add: r_def generateGainMap_def Let_def)
  show "fst (snd r) =
      Some (M\<lparr>version := kGainMapVersion, maxContentBoost := fdiv white kSdrWhiteNits,
              minContentBoost := Finite 1, gamma := Finite 1,
              offsetSdr := Finite 0, offsetHdr := Finite 0,
              hdrCapacityMin := Finite 1, hdrCapacityMax := fdiv white kSdrWhiteNits\<rparr>)"
    using facts by (simp add: r_def generateGainMap_def Let_def)
  show "\<exists>d. snd (snd r) = Some d \<and> data d \<noteq> None
          \<and> width d = width Y div kMapDimensionScaleFactor
          \<and> height d = height Y div kMapDimensionScaleFactor
          \<and> colorGamut d = ULTRAHDR_COLORGAMUT_UNSPECIFIED
          \<and> luma_stride d = width Y div kMapDimensionScaleFactor
          \<and> chroma_data d = Null \<and> chroma_stride d = 0
          \<and> pixelFormat d = ULTRAHDR_PIX_FMT_MONOCHROME"
    using facts by (simp add: r_def generateGainMap_def Let_def)
qed

lemma generateGainMap_NO_ERROR_D:
  assumes ok: "fst (generateGainMap encode fresh yuv p010 hdr_tf metadata dest sdr_is_601) = ULTRAHDR_NO_ERROR"
  shows "\<exists>Y P M D inv_oetf white. yuv = Some Y \<and> p010 = Some P \<and> metadata = Some M \<and> dest = Some D
     \<and> data Y \<noteq> None \<and> chroma_data Y \<noteq> Null \<and> data P \<noteq> None \<and> chroma_data P \<noteq> Null
     \<and> width Y = width P \<and> height Y = height P
     \<and> colorGamut Y \<noteq> ULTRAHDR_COLORGAMUT_UNSPECIFIED
     \<and> colorGamut P \<noteq> ULTRAHDR_COLORGAMUT_UNSPECIFIED
     \<and> hdr_tf_switch hdr_tf = Some (inv_oetf, white)"
proof -
  obtain Y where Y: "yuv = Some Y" using ok by (cases yuv) (simp_all add: generateGainMap_def)
  obtain P where P: "p010 = Some P" using ok Y by (cases p010) (simp_all add: generateGainMap_def)
  obtain M where M: "metadata = Some M" using ok Y P by (cases metadata) (simp_all add: generateGainMap_def)
  obtain D where D: "dest = Some D" using ok Y P M by (cases dest) (simp_all add: generateGainMap_def)
  note ok' = ok[unfolded Y P M D generateGainMap_def, simplified]
  have ptr: "data Y \<noteq> None \<and> chroma_data Y \<noteq> Null \<and> data P \<noteq> None \<and> chroma_data P \<noteq> Null"
    using ok' by (auto split: if_splits)
  have dims: "width Y = width P \<and> height Y = height P"
    using ok' ptr by (auto split: if_splits)
  have gam: "colorGamut Y \<noteq> ULTRAHDR_COLORGAMUT_UNSPECIFIED \<and> colorGamut P \<noteq> ULTRAHDR_COLORGAMUT_UNSPECIFIED"
    using ok' ptr dims by (auto split: if_splits)
  have "hdr_tf_switch hdr_tf \<noteq> None"
  proof
    assume "hdr_tf_switch hdr_tf = None"
    then show False
      using ok ptr dims gam unfolding Y P M D generateGainMap_def by (auto simp: Let_def)
  qed
  then obtain i w where "hdr_tf_switch hdr_tf = Some (i, w)" by (cases "hdr_tf_switch hdr_tf") auto
  with Y P M D ptr dims gam show ?thesis by blast
qed

text \<open>
  Claim C2. Whenever \<open>generateGainMap\<close> returns \<open>ULTRAHDR_NO_ERROR\<close>, the metadata it
  leaves has version "1.0", gamma 1.0, both offsets 0, \<open>minContentBoost\<close> and
  \<open>hdrCapacityMin\<close> 1.0, and \<open>maxContentBoost = hdrCapacityMax\<close> the float quotient of the
  HDR white level by 203, the white level being 1000 for HLG and LINEAR and 10000 for PQ;
  and \<open>minContentBoost \<le> hdrCapacityMin \<le> hdrCapacityMax \<le> maxContentBoost\<close>.
\<close>

theorem generateGainMap_metadata:
  assumes ok: "fst (generateGainMap encode fresh yuv p010 hdr_tf metadata dest sdr_is_601) = ULTRAHDR_NO_ERROR"
  defines "md \<equiv> the (fst (snd (generateGainMap encode fresh yuv p010 hdr_tf metadata dest sdr_is_601)))"
  shows "fst (snd (generateGainMap encode fresh yuv p010 hdr_tf metadata dest sdr_is_601)) = Some md
    \<and> version md = ''1.0'' \<and> gamma md = Finite 1 \<and> offsetSdr md = Finite 0 \<and> offsetHdr md = Finite 0
    \<and> minContentBoost md = Finite 1 \<and> hdrCapacityMin md = Finite 1
    \<and> hdrCapacityMax md = maxContentBoost md
    \<and> ((hdr_tf = ULTRAHDR_TF_HLG \<or> hdr_tf = ULTRAHDR_TF_LINEAR) \<and> maxContentBoost md = fdiv (Finite 1000) (Finite 203)
       \<or> hdr_tf = ULTRAHDR_TF_PQ \<and> maxContentBoost md = fdiv (Finite 10000) (Finite 203))
    \<and> fle (minContentBoost md) (hdrCapacityMin md) \<and> fle (hdrCapacityMin md) (hdrCapacityMax md)
    \<and> fle (hdrCapacityMax md) (maxContentBoost md)"
proof -
  from generateGainMap_NO_ERROR_D[OF ok] obtain Y P M D inv_oetf white where
    a: "yuv = Some Y" "p010 = Some P" "metadata = Some M" "dest = Some D"
    and b: "data Y \<noteq> None" "chroma_data Y \<noteq> Null" "data P \<noteq> None" "chroma_data P \<noteq> Null"
      "width Y = width P" "height Y = height P"
      "colorGamut Y \<noteq> ULTRAHDR_COLORGAMUT_UNSPECIFIED"
      "colorGamut P \<noteq> ULTRAHDR_COLORGAMUT_UNSPECIFIED"
      "hdr_tf_switch hdr_tf = Some (inv_oetf, white)"
    by blast
  have
    r: "fst (snd (generateGainMap encode fresh yuv p010 hdr_tf metadata dest sdr_is_601)) =
      Some (M\<lparr>version := kGainMapVersion, maxContentBoost := fdiv white kSdrWhiteNits,
              minContentBoost := Finite 1, gamma := Finite 1,
              offsetSdr := Finite 0, offsetHdr := Finite 0,
              hdrCapacityMin := Finite 1, hdrCapacityMax := fdiv white kSdrWhiteNits\<rparr>)"
    unfolding a by (rule generateGainMap_success(2)[OF b])
  have w: "(hdr_tf = ULTRAHDR_TF_LINEAR \<or> hdr_tf = ULTRAHDR_TF_HLG) \<and> white = kHlgMaxNits
      \<or> hdr_tf = ULTRAHDR_TF_PQ \<and> white = kPqMaxNits"
    using hdr_tf_switch_Some[OF b(9)] .
  have k: "fdiv (Finite 1000) (Finite 203) = Finite (5165399 / 1048576)"
    "fdiv (Finite 10000) (Finite 203) = Finite (6456749 / 131072)"
    using fdiv_hlg fdiv_pq by (simp_all only: kHlgMaxNits_def kPqMaxNits_def kSdrWhiteNits_def)
  have fl: "fle (Finite 1) (Finite 1)" "fle (Finite 1) (fdiv white kSdrWhiteNits)"
    "fle (fdiv white kSdrWhiteNits) (fdiv white kSdrWhiteNits)"
    using w by (auto simp: fle_def fne_def fdiv_hlg fdiv_pq)
  show ?thesis
    unfolding md_def r using w fl k
    by (auto simp: kGainMapVersion_def kHlgMaxNits_def kPqMaxNits_def kSdrWhiteNits_def simp del: fdiv.simps)
qed

text \<open>
  Claim C1, amended. For an SDR image and a P010 image with non-null luma and chroma
  pointers, equal dimensions \<open>(W, H)\<close> divisible by 4 and both gamuts specified, and an
  HDR transfer function that is LINEAR, HLG or PQ, \<open>generateGainMap\<close> returns
  \<open>ULTRAHDR_NO_ERROR\<close> and leaves a MONOCHROME destination of width \<open>W / 4\<close>, height
  \<open>H / 4\<close> and luma stride \<open>W / 4\<close>, with a null chroma pointer and chroma stride 0.
\<close>

theorem generateGainMap_dimensions:
  fixes encode fresh M D sdr_is_601
  assumes "data Y \<noteq> None" "chroma_data Y \<noteq> Null" "data P \<noteq> None" "chroma_data P \<noteq> Null"
    and "width Y = width P" "height Y = height P"
    and "width Y mod kMapDimensionScaleFactor = 0" "height Y mod kMapDimensionScaleFactor = 0"
    and "colorGamut Y \<noteq> ULTRAHDR_COLORGAMUT_UNSPECIFIED"
    and "colorGamut P \<noteq> ULTRAHDR_COLORGAMUT_UNSPECIFIED"
    and "hdr_tf = ULTRAHDR_TF_LINEAR \<or> hdr_tf = ULTRAHDR_TF_HLG \<or> hdr_tf = ULTRAHDR_TF_PQ"
  defines "r \<equiv> generateGainMap encode fresh (Some Y) (Some P) hdr_tf (Some M) (Some D) sdr_is_601"
  shows "fst r = ULTRAHDR_NO_ERROR \<and>
    (case snd (snd r) of None \<Rightarrow> False
     | Some d \<Rightarrow> pixelFormat d = ULTRAHDR_PIX_FMT_MONOCHROME
         \<and> width d = width Y div 4 \<and> 4 * width d = width Y
         \<and> height d = height Y div 4 \<and> 4 * height d = height Y
         \<and> luma_stride d = width Y div 4
         \<and> chroma_data d = Null \<and> chroma_stride d = 0 \<and> data d \<noteq> None)"
proof -
  obtain i w where t: "hdr_tf_switch hdr_tf = Some (i, w)"
    using assms(11) by auto
  note s = generateGainMap_success[OF assms(1-6,9,10) t, of encode fresh M D sdr_is_601]
  from s(3) obtain d where d: "snd (snd r) = Some d" "data d \<noteq> None"
          "width d = width Y div kMapDimensionScaleFactor"
          "height d = height Y div kMapDimensionScaleFactor"
          "colorGamut d = ULTRAHDR_COLORGAMUT_UNSPECIFIED"
          "luma_stride d = width Y div kMapDimensionScaleFactor"
          "chroma_data d = Null" "chroma_stride d = 0"
          "pixelFormat d = ULTRAHDR_PIX_FMT_MONOCHROME"
    unfolding r_def by blast
  have "4 * (width Y div 4) = width Y" "4 * (height Y div 4) = height Y"
    using assms(7,8) by (auto simp: kMapDimensionScaleFactor_def)
  with d s(1) show ?thesis
    by (simp add: r_def kMapDimensionScaleFactor_def)
qed

theorem generateGainMap_dimensions_witness:
  "fst (generateGainMap ex_encode ex_fresh (Some ex_sdr) (Some ex_hdr) ULTRAHDR_TF_PQ
         (Some ex_metadata_unset) (Some ex_dest_null) True) = ULTRAHDR_NO_ERROR \<and>
    (case snd (snd (generateGainMap ex_encode ex_fresh (Some ex_sdr) (Some ex_hdr) ULTRAHDR_TF_PQ
         (Some ex_metadata_unset) (Some ex_dest_null) True)) of None \<Rightarrow> False
     | Some d \<Rightarrow> pixelFormat d = ULTRAHDR_PIX_FMT_MONOCHROME
         \<and> width d = 2 \<and> height d = 1 \<and> luma_stride d = 2
         \<and> chroma_data d = Null \<and> chroma_stride d = 0 \<and> data d \<noteq> None)"
  using generateGainMap_dimensions[of ex_sdr ex_hdr ULTRAHDR_TF_PQ ex_encode ex_fresh
      ex_metadata_unset ex_dest_null True]
  by (simp add: ex_sdr_def ex_hdr_def kMapDimensionScaleFactor_def split: option.splits)

text \<open>
  The claim as it is written, for every pair of images, fails: the transfer function
  \<open>ULTRAHDR_TF_SRGB\<close> is rejected by the \<open>default\<close> branch, and an SDR image whose chroma
  pointer is null (which the struct allows) is rejected by the pointer check.
\<close>

theorem generateGainMap_rejects_counterexample:
  "width ex_sdr = width ex_hdr \<and> height ex_sdr = height ex_hdr
   \<and> width ex_sdr mod 4 = 0 \<and> height ex_sdr mod 4 = 0
   \<and> colorGamut ex_sdr \<noteq> ULTRAHDR_COLORGAMUT_UNSPECIFIED
   \<and> colorGamut ex_hdr \<noteq> ULTRAHDR_COLORGAMUT_UNSPECIFIED
   \<and> fst (generateGainMap ex_encode ex_fresh (Some ex_sdr) (Some ex_hdr) ULTRAHDR_TF_SRGB
        (Some ex_metadata_unset) (Some ex_dest_null) False) = ERROR_ULTRAHDR_INVALID_TRANS_FUNC
   \<and> fst (generateGainMap ex_encode ex_fresh (Some (ex_sdr\<lparr>chroma_data := Null\<rparr>)) (Some ex_hdr)
        ULTRAHDR_TF_HLG (Some ex_metadata_unset) (Some ex_dest_null) False) = ERROR_ULTRAHDR_BAD_PTR"
  by (simp add: generateGainMap_def ex_sdr_def ex_hdr_def Let_def)

theorem generateGainMap_metadata_witness:
  "fst (generateGainMap ex_encode ex_fresh (Some ex_sdr) (Some ex_hdr) ULTRAHDR_TF_HLG
         (Some ex_metadata_unset) (Some ex_dest_null) False) = ULTRAHDR_NO_ERROR \<and>
   maxContentBoost (the (fst (snd (generateGainMap ex_encode ex_fresh (Some ex_sdr) (Some ex_hdr)
         ULTRAHDR_TF_HLG (Some ex_metadata_unset) (Some ex_dest_null) False))))
     = Finite (5165399 / 1048576)"
proof -
  have ok: "fst (generateGainMap ex_encode ex_fresh (Some ex_sdr) (Some ex_hdr) ULTRAHDR_TF_HLG
         (Some ex_metadata_unset) (Some ex_dest_null) False) = ULTRAHDR_NO_ERROR"
    by (simp add: generateGainMap_def ex_sdr_def ex_hdr_def Let_def)
  have k: "fdiv (Finite 1000) (Finite 203) = Finite (5165399 / 1048576)"
    using fdiv_hlg by (simp only: kHlgMaxNits_def kSdrWhiteNits_def)
  show ?thesis
    using generateGainMap_metadata[OF ok] ok k by (simp del: fdiv.simps)
qed


subsection \<open>Gain map application\<close>

lemma round_half_even_of_int: "round_half_even (of_int k) = k"
  by (simp add: round_half_even_def)

lemma round32_of_nat_integral:
  "round32 (of_nat n) = PlusInf \<or> (\<exists>k. round32 (of_nat n) = Finite (of_int k))"
proof (cases "n = 0")
  case True
  have "round32 (of_nat 0) = Finite (of_int 0)"
    by (simp add: round32_def)
  with True show ?thesis by blast
next
  case False
  define e where "e = max (floor_log2 \<bar>of_nat n\<bar>) (- 126)"
  define r :: rat where
    "r = of_int (round_half_even (\<bar>of_nat n\<bar> / 2 powi (e - 23))) * 2 powi (e - 23)"
  have "\<exists>k. r = of_int k"
  proof (cases "e \<le> 23")
    case True
    define j where "j = nat (23 - e)"
    have p: "(2::rat) powi (e - 23) = 1 / 2 ^ j"
      using True by (simp add: power_int_def j_def field_simps)
    have "\<bar>of_nat n :: rat\<bar> / 2 powi (e - 23) = of_int (int n * 2 ^ j)"
      by (simp add: p)
    then have "round_half_even (\<bar>of_nat n\<bar> / 2 powi (e - 23)) = int n * 2 ^ j"
      by (simp only: round_half_even_of_int)
    then have "r = of_int (int n)"
      by (simp add: r_def p)
    then show ?thesis by blast
  next
    case False
    define j where "j = nat (e - 23)"
    have p: "(2::rat) powi (e - 23) = of_int (2 ^ j)"
      using False by (simp add: power_int_def j_def)
    have "r = of_int (round_half_even (\<bar>of_nat n\<bar> / 2 powi (e - 23)) * 2 ^ j)"
      unfolding r_def p by simp
    then show ?thesis by blast
  qed
  then obtain k where k: "r = of_int k" by blast
  have q: "(of_nat n :: rat) \<noteq> 0" "0 < (of_nat n :: rat)" "sgn (of_nat n :: rat) = 1"
    using \<open>n \<noteq> 0\<close> by simp_all
  have "round32 (of_nat n) = (if 2 powi 128 \<le> r then PlusInf else Finite r)"
    unfolding round32_def Let_def r_def e_def using q by simp
  with k show ?thesis by auto
qed

lemma choose_sampler_idw: "choose_sampler n = sampleMap_idw"
  using round32_of_nat_integral[of n]
  by (auto simp: choose_sampler_def float_of_size_t_def fne_def)

lemma applyGainMap_BAD_PTR:
  assumes "yuv = None \<or> gm = None \<or> metadata = None \<or> dest = None
     \<or> (\<exists>Y. yuv = Some Y \<and> (data Y = None \<or> chroma_data Y = Null))
     \<or> (\<exists>G. gm = Some G \<and> data G = None)"
  shows "applyGainMap render yuv gm metadata fmt boost dest = Some (ERROR_ULTRAHDR_BAD_PTR, dest)"
  using assms
  by (cases yuv; cases gm; cases metadata; cases dest) (auto simp: applyGainMap_def)

lemma applyGainMap_BAD_METADATA:
  assumes "data Y \<noteq> None" "chroma_data Y \<noteq> Null" "data G \<noteq> None"
    and "version M \<noteq> kGainMapVersion \<or> fne (gamma M) (Finite 1)
       \<or> fne (offsetSdr M) (Finite 0) \<or> fne (offsetHdr M) (Finite 0)
       \<or> fne (hdrCapacityMin M) (minContentBoost M) \<or> fne (hdrCapacityMax M) (maxContentBoost M)"
  shows "applyGainMap render (Some Y) (Some G) (Some M) fmt boost (Some D)
     = Some (ERROR_ULTRAHDR_BAD_METADATA, Some D)"
proof -
  obtain yb gb where "data Y = Some yb" "data G = Some gb"
    using assms(1,3) by auto
  then show ?thesis
    using assms(2,4) by (auto simp: applyGainMap_def)
qed

lemma applyGainMap_checked:
  assumes "data Y \<noteq> None" "chroma_data Y \<noteq> Null" "data G \<noteq> None"
    and "version M = kGainMapVersion" "\<not> fne (gamma M) (Finite 1)"
       "\<not> fne (offsetSdr M) (Finite 0)" "\<not> fne (offsetHdr M) (Finite 0)"
       "\<not> fne (hdrCapacityMin M) (minContentBoost M)" "\<not> fne (hdrCapacityMax M) (maxContentBoost M)"
  shows "applyGainMap render (Some Y) (Some G) (Some M) fmt boost (Some D) =
     (if width G = 0 then None
          else if width Y mod width G \<noteq> 0
          then Some (ERROR_ULTRAHDR_UNSUPPORTED_MAP_SCALE_FACTOR, Some D)
          else if height G = 0 then None
          else if height Y mod height G \<noteq> 0
          then Some (ERROR_ULTRAHDR_UNSUPPORTED_MAP_SCALE_FACTOR, Some D)
          else if width Y * height G \<noteq> height Y * width G
          then Some (ERROR_ULTRAHDR_UNSUPPORTED_MAP_SCALE_FACTOR, Some D)
          else
            (case data D of
                  None \<Rightarrow>
                    if stores fmt \<and> 0 < width Y \<and> 0 < height Y then None
                    else Some (ULTRAHDR_NO_ERROR, Some (D\<lparr>width := width Y, height := height Y, colorGamut := colorGamut Y\<rparr>))
                | Some b \<Rightarrow> Some (ULTRAHDR_NO_ERROR, Some (D\<lparr>width := width Y, height := height Y, colorGamut := colorGamut Y,
                     data := Some (for_loop (height Y) (\<lambda>y.
                    for_loop (width Y) (\<lambda>x.
                      store_pixel fmt (width Y) (height Y)
                        (render sampleMap_idw (fmin boost (maxContentBoost M)) M fmt
                           Y G x y)
                        (x + y * width Y))) b)\<rparr>))))"
proof -
  obtain yb gb where "data Y = Some yb" "data G = Some gb"
    using assms(1,3) by auto
  then show ?thesis
    using assms(2,4-9) by (simp add: applyGainMap_def Let_def choose_sampler_idw)
qed

text \<open>
  Claim C3, amended. \<open>applyGainMap\<close> returns \<open>ERROR_ULTRAHDR_BAD_PTR\<close> whenever the SDR
  image, gain-map image, metadata or destination pointer is null, or the luma or chroma
  pointer of the SDR image or the data pointer of the gain map is null. Otherwise it
  returns \<open>ERROR_ULTRAHDR_BAD_METADATA\<close> whenever the version is not "1.0", gamma is not
  1.0, an offset is not 0, \<open>hdrCapacityMin\<close> differs from \<open>minContentBoost\<close> or
  \<open>hdrCapacityMax\<close> from \<open>maxContentBoost\<close>. In both cases the destination is as it was.
\<close>

theorem applyGainMap_errors:
  fixes render :: "'c render_kernel" and yuv gm metadata fmt boost dest
  defines "r \<equiv> applyGainMap render yuv gm metadata fmt boost dest"
  defines "null_arg \<equiv> yuv = None \<or> gm = None \<or> metadata = None \<or> dest = None
     \<or> (\<exists>Y. yuv = Some Y \<and> (data Y = None \<or> chroma_data Y = Null))
     \<or> (\<exists>G. gm = Some G \<and> data G = None)"
  shows "(null_arg \<longrightarrow> r = Some (ERROR_ULTRAHDR_BAD_PTR, dest))
    \<and> (\<not> null_arg \<and> (\<exists>M. metadata = Some M \<and>
           (version M \<noteq> ''1.0'' \<or> fne (gamma M) (Finite 1)
            \<or> fne (offsetSdr M) (Finite 0) \<or> fne (offsetHdr M) (Finite 0)
            \<or> fne (hdrCapacityMin M) (minContentBoost M)
            \<or> fne (hdrCapacityMax M) (maxContentBoost M)))
        \<longrightarrow> r = Some (ERROR_ULTRAHDR_BAD_METADATA, dest))"
proof (intro conjI impI)
  assume null_arg
  then show "r = Some (ERROR_ULTRAHDR_BAD_PTR, dest)"
    unfolding r_def null_arg_def by (rule applyGainMap_BAD_PTR)
next
  assume a: "\<not> null_arg \<and> (\<exists>M. metadata = Some M \<and>
           (version M \<noteq> ''1.0'' \<or> fne (gamma M) (Finite 1)
            \<or> fne (offsetSdr M) (Finite 0) \<or> fne (offsetHdr M) (Finite 0)
            \<or> fne (hdrCapacityMin M) (minContentBoost M)
            \<or> fne (hdrCapacityMax M) (maxContentBoost M)))"
  then obtain Y G M D where s: "yuv = Some Y" "gm = Some G" "metadata = Some M" "dest = Some D"
    unfolding null_arg_def by auto
  have p: "data Y \<noteq> None" "chroma_data Y \<noteq> Null" "data G \<noteq> None"
    using a s unfolding null_arg_def by auto
  have m: "version M \<noteq> kGainMapVersion \<or> fne (gamma M) (Finite 1)
       \<or> fne (offsetSdr M) (Finite 0) \<or> fne (offsetHdr M) (Finite 0)
       \<or> fne (hdrCapacityMin M) (minContentBoost M) \<or> fne (hdrCapacityMax M) (maxContentBoost M)"
    using a s by (simp add: kGainMapVersion_def)
  show "r = Some (ERROR_ULTRAHDR_BAD_METADATA, dest)"
    unfolding r_def s by (rule applyGainMap_BAD_METADATA[OF p m])
qed

theorem applyGainMap_errors_witness:
  "applyGainMap ex_render (Some ex_sdr) None (Some ex_metadata) ULTRAHDR_OUTPUT_HDR_LINEAR
      (Finite 4) (Some ex_dest) = Some (ERROR_ULTRAHDR_BAD_PTR, Some ex_dest)
   \<and> applyGainMap ex_render (Some ex_sdr) (Some ex_gainmap) (Some (ex_metadata\<lparr>gamma := Finite 2\<rparr>))
      ULTRAHDR_OUTPUT_HDR_LINEAR (Finite 4) (Some ex_dest) = Some (ERROR_ULTRAHDR_BAD_METADATA, Some ex_dest)"
  using applyGainMap_errors[where yuv = "Some ex_sdr" and gm = None and metadata = "Some ex_metadata"
      and dest = "Some ex_dest" and render = ex_render and fmt = ULTRAHDR_OUTPUT_HDR_LINEAR
      and boost = "Finite 4"]
    applyGainMap_errors[where yuv = "Some ex_sdr" and gm = "Some ex_gainmap"
      and metadata = "Some (ex_metadata\<lparr>gamma := Finite 2\<rparr>)"
      and dest = "Some ex_dest" and render = ex_render and fmt = ULTRAHDR_OUTPUT_HDR_LINEAR
      and boost = "Finite 4"]
  by (simp add: ex_sdr_def ex_gainmap_def ex_metadata_def fne_def)

text \<open>
  The claim as it is written fails twice: with a null gain-map buffer the pointer check
  answers before the metadata are looked at, so that a wrong version is not reported as
  \<open>ERROR_ULTRAHDR_BAD_METADATA\<close>; and the \<open>data\<close> pointer of the destination is not
  checked: for the output format \<open>ULTRAHDR_OUTPUT_SDR\<close>, which stores nothing, the call
  returns \<open>ULTRAHDR_NO_ERROR\<close> with a null \<open>dest->data\<close>.
\<close>

theorem applyGainMap_errors_counterexample:
  "version (ex_metadata\<lparr>version := ''2.0''\<rparr>) \<noteq> ''1.0''
   \<and> applyGainMap ex_render (Some ex_sdr) (Some (ex_gainmap\<lparr>data := None\<rparr>))
       (Some (ex_metadata\<lparr>version := ''2.0''\<rparr>)) ULTRAHDR_OUTPUT_HDR_LINEAR (Finite 4) (Some ex_dest)
     = Some (ERROR_ULTRAHDR_BAD_PTR, Some ex_dest)
   \<and> data (ex_dest_null :: nat ultrahdr_uncompressed_struct) = None
   \<and> applyGainMap ex_render (Some ex_sdr) (Some ex_gainmap) (Some ex_metadata) ULTRAHDR_OUTPUT_SDR
       (Finite 4) (Some ex_dest_null)
     = Some (ULTRAHDR_NO_ERROR, Some (ex_dest_null\<lparr>width := 8, height := 4,
          colorGamut := ULTRAHDR_COLORGAMUT_BT709\<rparr>))"
  by (simp add: applyGainMap_def ex_sdr_def ex_gainmap_def ex_metadata_def ex_dest_null_def
      kGainMapVersion_def fne_def Let_def)

text \<open>
  Claim C5, amended. For every SDR image and gain map that pass the pointer and
  metadata checks and whose widths are not in an integral ratio (the SDR width is not a
  multiple of the non-zero map width), \<open>applyGainMap\<close> returns
  \<open>ERROR_ULTRAHDR_UNSUPPORTED_MAP_SCALE_FACTOR\<close> and leaves the destination as it was; the
  scale factor the code computes is an integer, for which the sampler with the weight
  table is chosen, never the bilinear one.
\<close>

theorem applyGainMap_non_integral_rejected:
  fixes render :: "'c render_kernel"
  assumes "data Y \<noteq> None" "chroma_data Y \<noteq> Null" "data G \<noteq> None"
    and "version M = ''1.0''" "\<not> fne (gamma M) (Finite 1)"
       "\<not> fne (offsetSdr M) (Finite 0)" "\<not> fne (offsetHdr M) (Finite 0)"
       "\<not> fne (hdrCapacityMin M) (minContentBoost M)" "\<not> fne (hdrCapacityMax M) (maxContentBoost M)"
    and "width G \<noteq> 0" "width Y mod width G \<noteq> 0"
  shows "applyGainMap render (Some Y) (Some G) (Some M) fmt boost (Some D)
      = Some (ERROR_ULTRAHDR_UNSUPPORTED_MAP_SCALE_FACTOR, Some D)
    \<and> choose_sampler (width Y div width G) = sampleMap_idw"
  using applyGainMap_checked[OF assms(1-3) _ assms(5-9), of render fmt boost D] assms(4,10,11)
  by (simp add: kGainMapVersion_def choose_sampler_idw)

theorem applyGainMap_non_integral_rejected_witness:
  "width ex_sdr mod width ex_gainmap3 \<noteq> 0 \<and>
   applyGainMap ex_render (Some ex_sdr) (Some ex_gainmap3) (Some ex_metadata)
      ULTRAHDR_OUTPUT_HDR_LINEAR (Finite 4) (Some ex_dest)
      = Some (ERROR_ULTRAHDR_UNSUPPORTED_MAP_SCALE_FACTOR, Some ex_dest)"
  using applyGainMap_non_integral_rejected[where Y = ex_sdr and G = ex_gainmap3
      and M = ex_metadata and render = ex_render and fmt = ULTRAHDR_OUTPUT_HDR_LINEAR
      and boost = "Finite 4" and D = ex_dest]
  by (simp add: ex_sdr_def ex_gainmap3_def ex_gainmap_def ex_metadata_def fne_def)

text \<open>
  No call with a non-integral width ratio returns \<open>ULTRAHDR_NO_ERROR\<close>.
\<close>

theorem applyGainMap_bilinear_fallback_counterexample:
  "\<not> (\<exists>(render :: nat render_kernel) yuv gm Y G metadata fmt boost dest d.
        yuv = Some Y \<and> gm = Some G \<and> width Y mod width G \<noteq> 0
        \<and> applyGainMap render yuv gm metadata fmt boost dest = Some (ULTRAHDR_NO_ERROR, d))"
proof
  assume "\<exists>(render :: nat render_kernel) yuv gm Y G metadata fmt boost dest d.
        yuv = Some Y \<and> gm = Some G \<and> width Y mod width G \<noteq> 0
        \<and> applyGainMap render yuv gm metadata fmt boost dest = Some (ULTRAHDR_NO_ERROR, d)"
  then obtain render :: "nat render_kernel" and Y G metadata fmt boost dest d where
    n: "width Y mod width G \<noteq> 0"
    and r: "applyGainMap render (Some Y) (Some G) metadata fmt boost dest = Some (ULTRAHDR_NO_ERROR, d)"
    by blast
  obtain M where M: "metadata = Some M"
    using r by (cases metadata) (simp_all add: applyGainMap_def)
  obtain D where D: "dest = Some D"
    using r M by (cases dest) (simp_all add: applyGainMap_def)
  show False
    using r n unfolding M D applyGainMap_def
    by (simp split: if_splits)
qed


subsection \<open>Loops that store into a buffer\<close>

lemma for_loop_0: "for_loop 0 body s = s"
  by (simp add: for_loop_def)

lemma for_loop_Suc: "for_loop (Suc n) body s = body n (for_loop n body s)"
  by (simp add: for_loop_def)

lemma for_loop_store_other:
  assumes "\<And>j. j < n \<Longrightarrow> a j \<noteq> k"
  shows "for_loop n (\<lambda>j b. b(a j := v j)) b k = b k"
proof -
  define f where "f = (\<lambda>j b. b(a j := v j))"
  have step: "\<And>m s x. for_loop (Suc m) f s x = (if x = a m then v m else for_loop m f s x)"
    by (simp add: f_def for_loop_Suc)
  have "for_loop n f b k = b k"
    using assms
  proof (induction n)
    case 0
    then show ?case by (simp only: for_loop_0)
  next
    case (Suc n)
    have "a n \<noteq> k" using Suc.prems[of n] by simp
    moreover have "for_loop n f b k = b k"
      by (rule Suc.IH) (use Suc.prems in auto)
    ultimately show ?case by (simp only: step) auto
  qed
  then show ?thesis by (simp only: f_def)
qed

lemma for_loop_store_hit:
  assumes "j < n" "\<And>j'. j' < n \<Longrightarrow> j' \<noteq> j \<Longrightarrow> a j' \<noteq> a j"
  shows "for_loop n (\<lambda>j b. b(a j := v j)) b (a j) = v j"
proof -
  define f where "f = (\<lambda>j b. b(a j := v j))"
  have step: "\<And>m s x. for_loop (Suc m) f s x = (if x = a m then v m else for_loop m f s x)"
    by (simp add: f_def for_loop_Suc)
  have "for_loop n f b (a j) = v j"
    using assms
  proof (induction n)
    case 0
    then show ?case by simp
  next
    case (Suc n)
    show ?case
    proof (cases "j = n")
      case True
      then show ?thesis by (simp only: step) simp
    next
      case False
      with Suc.prems(1) have lt: "j < n" by simp
      have ne: "a n \<noteq> a j" using Suc.prems(2)[of n] False by simp
      have "for_loop n f b (a j) = v j"
        by (rule Suc.IH[OF lt]) (use Suc.prems(2) in auto)
      with ne show ?thesis by (simp only: step) simp
    qed
  qed
  then show ?thesis by (simp only: f_def)
qed

lemma store_rows_0: "store_rows 0 c addr px b = b"
  by (simp add: store_rows_def for_loop_0)

lemma store_rows_Suc:
  "store_rows (Suc r) c addr px b =
     for_loop c (\<lambda>j b. b(addr r j := px r j)) (store_rows r c addr px b)"
  by (simp add: store_rows_def for_loop_Suc)

lemma store_rows_other:
  "(\<And>i j. i < r \<Longrightarrow> j < c \<Longrightarrow> addr i j \<noteq> k) \<Longrightarrow> store_rows r c addr px b k = b k"
proof (induction r)
  case 0
  then show ?case by (simp add: store_rows_0)
next
  case (Suc r)
  have "for_loop c (\<lambda>j b. b(addr r j := px r j)) (store_rows r c addr px b) k
      = store_rows r c addr px b k"
    by (rule for_loop_store_other) (simp add: Suc.prems)
  with Suc show ?case by (simp add: store_rows_Suc)
qed

lemma store_rows_hit:
  assumes "i < r" "j < c"
    and inj: "\<And>i' j'. i' < r \<Longrightarrow> j' < c \<Longrightarrow> addr i' j' = addr i j \<Longrightarrow> i' = i \<and> j' = j"
  shows "store_rows r c addr px b (addr i j) = px i j"
  using assms
proof (induction r)
  case 0
  then show ?case by simp
next
  case (Suc r)
  show ?case
  proof (cases "i = r")
    case True
    have "for_loop c (\<lambda>j b. b(addr r j := px r j)) (store_rows r c addr px b) (addr r j) = px r j"
    proof (rule for_loop_store_hit[OF \<open>j < c\<close>])
      fix j' assume "j' < c" "j' \<noteq> j"
      then show "addr r j' \<noteq> addr r j"
        using Suc.prems(3)[of r j'] True by auto
    qed
    with True show ?thesis by (simp add: store_rows_Suc)
  next
    case False
    with Suc.prems have lt: "i < r" by simp
    have "for_loop c (\<lambda>j' b. b(addr r j' := px r j')) (store_rows r c addr px b) (addr i j)
        = store_rows r c addr px b (addr i j)"
    proof (rule for_loop_store_other)
      fix j' assume "j' < c"
      then show "addr r j' \<noteq> addr i j"
        using Suc.prems(3)[of r j'] False by auto
    qed
    moreover have "store_rows r c addr px b (addr i j) = px i j"
    proof (rule Suc.IH[OF lt \<open>j < c\<close>])
      fix i' j' assume "i' < r" "j' < c" "addr i' j' = addr i j"
      then show "i' = i \<and> j' = j"
        using Suc.prems(3)[of i' j'] by simp
    qed
    ultimately show ?thesis by (simp add: store_rows_Suc)
  qed
qed

lemma row_col_unique:
  fixes S :: nat
  assumes "i' * S + j' = i * S + j" "j < S" "j' < S"
  shows "i' = i \<and> j' = j"
proof -
  have a: "(i' * S + j') div S = i'" using assms(3) by simp
  have b: "(i * S + j) div S = i" using assms(2) by simp
  from a b assms(1) have "i' = i" by metis
  with assms(1) show ?thesis by simp
qed

lemma row_col_bound:
  fixes S :: nat
  assumes "i < r" "j < c" "c \<le> S"
  shows "i * S + j < S * r"
proof -
  have "i * S + j < i * S + S" using assms by simp
  also have "\<dots> = (Suc i) * S" by simp
  also have "\<dots> \<le> r * S" using assms(1) by (intro mult_le_mono1) simp
  finally show ?thesis by (simp add: mult.commute)
qed

subsection \<open>Values that fit \<open>int\<close>\<close>

lemma to_int_id: "int n \<le> INT_MAX \<Longrightarrow> to_int n = int n"
  by (simp add: to_int_def INT_MAX_def Let_def)

lemma to_size_t_id: "0 \<le> k \<Longrightarrow> k \<le> INT_MAX \<Longrightarrow> to_size_t k = nat k"
  by (simp add: to_size_t_def INT_MAX_def)

lemma to_size_t_int: "int n \<le> INT_MAX \<Longrightarrow> to_size_t (int n) = n"
  by (simp add: to_size_t_def INT_MAX_def)

lemma size_t_mul_small:
  assumes "int a \<le> INT_MAX" "int b \<le> INT_MAX"
  shows "size_t_mul a b = a * b" and "a * b < 2 ^ 63"
proof -
  have "a \<le> 2147483647" "b \<le> 2147483647"
    using assms by (simp_all add: INT_MAX_def)
  then have "a * b \<le> 2147483647 * 2147483647"
    by (rule mult_le_mono)
  then show "a * b < 2 ^ 63" by simp
  then show "size_t_mul a b = a * b" by (simp add: size_t_mul_def)
qed

lemma idx_size_small:
  assumes "int a \<le> INT_MAX" "int b \<le> INT_MAX"
  shows "idx_size base a b c = Some (base + a * b + c)"
  using size_t_mul_small[OF assms] by (simp add: idx_size_def offset_def)

lemma idx_int_small:
  assumes "int (i * s) \<le> INT_MAX"
  shows "idx_int base (int i) (int s) c = Some (base + i * s + c)"
proof -
  have z: "(0::int) \<le> int i * int s" by simp
  then have "INT_MIN \<le> int i * int s"
    unfolding INT_MIN_def by linarith
  then have r: "int_res (int i * int s) = Some (int (i * s))"
    using assms by (simp add: int_res_def)
  have n: "\<not> int base + int (i * s) < 0" by linarith
  have "nat (int base + int (i * s)) = base + i * s"
    by (simp only: of_nat_add[symmetric] nat_int)
  then show ?thesis
    unfolding idx_int_def r using n by simp
qed

lemma int_loop_Some:
  assumes "int n \<le> INT_MAX" and "\<And>i t. i < n \<Longrightarrow> body i t = Some (f i t)"
  shows "int_loop n body s = Some (for_loop n f s)"
proof -
  have "m \<le> n \<Longrightarrow> fold (\<lambda>i r. case r of None \<Rightarrow> None | Some t \<Rightarrow> body i t) [0..<m] (Some s)
        = Some (fold f [0..<m] s)" for m
  proof (induction m)
    case 0
    show ?case by simp
  next
    case (Suc m)
    then show ?case using assms(2)[of m] by simp
  qed
  then show ?thesis
    using assms(1) by (simp add: int_loop_def for_loop_def)
qed

lemma int_loop_0: "int_loop 0 body s = Some s"
  by (simp add: int_loop_def INT_MAX_def)

lemma int_store_rows_Some:
  assumes r: "int rows \<le> INT_MAX" and c: "rows = 0 \<or> int cols \<le> INT_MAX"
    and a: "\<And>i j. i < rows \<Longrightarrow> j < cols \<Longrightarrow> addr i j = Some (ad i j) \<and> px i j = Some (p i j)"
  shows "int_store_rows rows cols addr px b = Some (store_rows rows cols ad p b)"
proof (cases "rows = 0")
  case True
  then show ?thesis
    by (simp add: int_store_rows_def store_rows_def int_loop_0 for_loop_0)
next
  case False
  with c have c': "int cols \<le> INT_MAX" by simp
  have inner: "int_loop cols (\<lambda>j. store (addr i j) (px i j)) t
                 = Some (for_loop cols (\<lambda>j b. b(ad i j := p i j)) t)" if "i < rows" for i t
    by (rule int_loop_Some[OF c']) (use a[OF that] in \<open>simp add: store_def\<close>)
  show ?thesis
    unfolding int_store_rows_def store_rows_def
    by (rule int_loop_Some[OF r]) (use inner in simp)
qed

subsection \<open>Adding images to the assembler\<close>

lemma extract_primary_data:
  assumes "extractPrimaryImageAndGainMap c img p g = (ULTRAHDR_NO_ERROR, p', g')"
  shows "data_c p' \<noteq> None"
  using assms
  by (auto simp: extractPrimaryImageAndGainMap_def split: option.splits list.splits)

lemma copy_compressed_Some:
  "src \<noteq> None \<Longrightarrow> \<exists>j. copy_compressed c src len g = Some j"
  by (auto simp: copy_compressed_def)

lemma addImage_jpeg_populates:
  assumes d: "data_c img \<noteq> None"
  shows "\<exists>s st'. addImage_jpeg c st img = Some (s, st') \<and> sdr_jpeg_img st' \<noteq> None
     \<and> (sdr_jpeg_img st \<noteq> None \<longrightarrow> sdr_jpeg_img st' = sdr_jpeg_img st)"
proof -
  obtain err p g where e: "extractPrimaryImageAndGainMap c img (uninit_c c) (uninit_c c) = (err, p, g)"
    by (cases "extractPrimaryImageAndGainMap c img (uninit_c c) (uninit_c c)") auto
  show ?thesis
  proof (cases "err = ULTRAHDR_NO_ERROR")
    case False
    obtain j where j: "copy_compressed c (data_c img) (length_c img) (colorGamut_c img) = Some j"
      using copy_compressed_Some[OF d] by blast
    show ?thesis
      using False e j by (simp add: addImage_jpeg_def)
  next
    case True
    have "data_c p \<noteq> None"
      using extract_primary_data e True by blast
    then obtain j where j: "copy_compressed c (data_c p) (length_c p) (colorGamut_c img) = Some j"
      using copy_compressed_Some by blast
    define st1 where "st1 = (if sdr_jpeg_img st = None then st\<lparr>sdr_jpeg_img := Some j\<rparr> else st)"
    have st1: "sdr_jpeg_img st1 \<noteq> None" "sdr_jpeg_img st \<noteq> None \<longrightarrow> sdr_jpeg_img st1 = sdr_jpeg_img st"
      by (simp_all add: st1_def)
    have c1: "(if sdr_jpeg_img st = None
                   then map_option (\<lambda>j. st\<lparr>sdr_jpeg_img := Some j\<rparr>)
                          (copy_compressed c (data_c p) (length_c p) (colorGamut_c img))
                   else Some st) = Some st1"
      by (simp add: j st1_def)
    have "addImage_jpeg c st img =
        (if gain_map_raw_img st1 = None \<or> gain_map_metadata st1 = None then
                   (case decompressImage c (data_c g) (length_c g) of
                      None \<Rightarrow> Some (ERROR_ULTRAHDR_DECODE_ERROR, st1)
                    | Some dec \<Rightarrow>
                        let st2 =
                              (if gain_map_raw_img st1 = None
                               then st1\<lparr>gain_map_raw_img := Some (new_uncompressed
                                      \<lparr>data := Some (memcpy (alloc c) 0 (DecompressedImagePtr dec)
                                                       (DecompressedImageSize dec)),
                                       width := DecompressedImageWidth dec,
                                       height := DecompressedImageHeight dec\<rparr>)\<rparr>
                               else st1);
                            m = getMetadataFromXMP c (XMP dec) new_metadata
                        in if gain_map_metadata st2 = None \<and> \<not> fst m
                           then Some (ERROR_ULTRAHDR_METADATA_ERROR,
                                      st2\<lparr>gain_map_metadata := Some (snd m)\<rparr>)
                           else
                             let st3 = (if gain_map_metadata st2 = None
                                        then st2\<lparr>gain_map_metadata := Some (snd m)\<rparr> else st2)
                             in (case decompressImage c (data_c p)
                                        (length_c p) of
                                   None \<Rightarrow> Some (ERROR_ULTRAHDR_DECODE_ERROR, st3)
                                 | Some dec' \<Rightarrow> Some (ULTRAHDR_NO_ERROR, st3)))
                 else Some (ULTRAHDR_NO_ERROR, st1))"
      by (simp only: addImage_jpeg_def e prod.case True c1 option.case simp_thms if_True)
    moreover have "\<And>x y. sdr_jpeg_img (x\<lparr>gain_map_raw_img := y\<rparr>) = sdr_jpeg_img x"
      "\<And>x y. sdr_jpeg_img (x\<lparr>gain_map_metadata := y\<rparr>) = sdr_jpeg_img x"
      by simp_all
    ultimately show ?thesis
      using st1 by (auto simp: Let_def split: option.splits)
  qed
qed

text \<open>
  Claim C8, amended. A non-null buffer of at least three bytes that begins with the
  SOI marker FF D8 is classified as JPEG, \<open>addImage\<close> takes the JPEG/JPEG_R branch for
  it, and after the call the \<open>sdr_jpeg_img\<close> slot is populated (and is the old one if
  it was populated before). A null buffer or one shorter than three bytes is never
  classified as JPEG. A buffer that does not begin with FF D8 and whose third byte is
  not FF is not classified as JPEG, and without an ISOBMFF brand \<open>addImage\<close> rejects it
  with \<open>ERROR_ULTRAHDR_UNSUPPORTED_FEATURE\<close>, leaving the assembler as it was.
\<close>

theorem addImage_compressed_sniffs_jpeg:
  "(data_c img = Some b \<and> 3 \<le> length_c img \<and> b 0 = 0xFF \<and> b 1 = 0xD8 \<longrightarrow>
      isJpeg (data_c img) (length_c img)
      \<and> addImage_compressed c st (Some img) = addImage_jpeg c st img
      \<and> (\<exists>s st'. addImage_compressed c st (Some img) = Some (s, st') \<and> sdr_jpeg_img st' \<noteq> None
           \<and> (sdr_jpeg_img st \<noteq> None \<longrightarrow> sdr_jpeg_img st' = sdr_jpeg_img st)))
   \<and> (data_c img = None \<or> length_c img < 3 \<longrightarrow> \<not> isJpeg (data_c img) (length_c img))
   \<and> (data_c img = Some b \<and> \<not> (b 0 = 0xFF \<and> b 1 = 0xD8) \<and> b 2 \<noteq> 0xFF \<longrightarrow>
        \<not> isJpeg (data_c img) (length_c img)
        \<and> (\<not> isHeif (data_c img) (length_c img) \<longrightarrow>
             addImage_compressed c st (Some img) = Some (ERROR_ULTRAHDR_UNSUPPORTED_FEATURE, st)))"
proof (intro conjI impI)
  assume a: "data_c img = Some b \<and> 3 \<le> length_c img \<and> b 0 = 0xFF \<and> b 1 = 0xD8"
  then show j: "isJpeg (data_c img) (length_c img)"
    by (simp add: isJpeg_def)
  then show r: "addImage_compressed c st (Some img) = addImage_jpeg c st img"
    by (simp add: addImage_compressed_def)
  have "data_c img \<noteq> None" using a by simp
  from addImage_jpeg_populates[OF this, of c st]
  show "\<exists>s st'. addImage_compressed c st (Some img) = Some (s, st') \<and> sdr_jpeg_img st' \<noteq> None
           \<and> (sdr_jpeg_img st \<noteq> None \<longrightarrow> sdr_jpeg_img st' = sdr_jpeg_img st)"
    unfolding r .
next
  assume "data_c img = None \<or> length_c img < 3"
  then show "\<not> isJpeg (data_c img) (length_c img)"
    by (auto simp: isJpeg_def split: option.splits)
next
  assume a: "data_c img = Some b \<and> \<not> (b 0 = 0xFF \<and> b 1 = 0xD8) \<and> b 2 \<noteq> 0xFF"
  then show n: "\<not> isJpeg (data_c img) (length_c img)"
    by (auto simp: isJpeg_def)
  assume "\<not> isHeif (data_c img) (length_c img)"
  with n show "addImage_compressed c st (Some img) = Some (ERROR_ULTRAHDR_UNSUPPORTED_FEATURE, st)"
    by (simp add: addImage_compressed_def)
qed

theorem addImage_compressed_sniffs_jpeg_witness:
  "isJpeg (data_c ex_jpeg) (length_c ex_jpeg)
   \<and> (\<exists>s st'. addImage_compressed ex_codecs ex_empty (Some ex_jpeg) = Some (s, st')
         \<and> sdr_jpeg_img st' \<noteq> None)
   \<and> \<not> isJpeg (data_c ex_soi2) (length_c ex_soi2)
   \<and> addImage_compressed ex_codecs ex_empty (Some (ex_jpeg\<lparr>data_c := Some (\<lambda>i. 0)\<rparr>))
       = Some (ERROR_ULTRAHDR_UNSUPPORTED_FEATURE, ex_empty)"
proof -
  let ?z = "ex_jpeg\<lparr>data_c := Some (\<lambda>i. 0)\<rparr>"
  have h: "\<not> isHeif (data_c ?z) (length_c ?z)"
    by (simp add: isHeif_def isHeic_def isAvif_def brand_is_def ex_jpeg_def)
  have p1: "data_c ex_jpeg = Some (the (data_c ex_jpeg)) \<and> 3 \<le> length_c ex_jpeg
     \<and> the (data_c ex_jpeg) 0 = 0xFF \<and> the (data_c ex_jpeg) 1 = 0xD8"
    by (simp add: ex_jpeg_def)
  have p2: "data_c ex_soi2 = None \<or> length_c ex_soi2 < 3"
    by (simp add: ex_soi2_def)
  have p3: "data_c ?z = Some (\<lambda>i. 0) \<and> \<not> ((\<lambda>i. 0 :: u8) 0 = 0xFF \<and> (\<lambda>i. 0 :: u8) 1 = 0xD8)
     \<and> (\<lambda>i. 0 :: u8) 2 \<noteq> 0xFF"
    by simp
  note t1 = addImage_compressed_sniffs_jpeg[of ex_jpeg "the (data_c ex_jpeg)" ex_codecs ex_empty,
      THEN conjunct1, rule_format, OF p1]
  note t2 = addImage_compressed_sniffs_jpeg[of ex_soi2 "the (data_c ex_soi2)" ex_codecs ex_empty,
      THEN conjunct2, THEN conjunct1, rule_format, OF p2]
  note t3 = addImage_compressed_sniffs_jpeg[of ?z "\<lambda>i. 0" ex_codecs ex_empty,
      THEN conjunct2, THEN conjunct2, rule_format, OF p3]
  from t1 t2 t3 h show ?thesis
    by blast
qed

text \<open>
  The claim as it is written fails on the two-byte buffer FF D8: its prefix is the SOI
  marker, and it is not classified as JPEG, because \<open>isJpeg\<close> asks for three bytes.
\<close>

theorem addImage_compressed_soi_counterexample:
  "data_c ex_soi2 \<noteq> None \<and> length_c ex_soi2 = 2
   \<and> the (data_c ex_soi2) 0 = 0xFF \<and> the (data_c ex_soi2) 1 = 0xD8
   \<and> \<not> isJpeg (data_c ex_soi2) (length_c ex_soi2)
   \<and> addImage_compressed ex_codecs ex_empty (Some ex_soi2)
       = Some (ERROR_ULTRAHDR_UNSUPPORTED_FEATURE, ex_empty)"
  by (simp add: ex_soi2_def isJpeg_def isHeif_def isHeic_def isAvif_def addImage_compressed_def)

text \<open>The second disjunct of the test in \<open>isJpeg\<close> alone: three bytes 00 00 FF.\<close>

lemma isJpeg_third_byte_only:
  "isJpeg (data_c ex_not_jpeg) (length_c ex_not_jpeg)"
  by (simp add: ex_not_jpeg_def isJpeg_def)

lemma addImage_raw_populated_P010:
  assumes "pixelFormat img = ULTRAHDR_PIX_FMT_P010" "hdr_raw_img st \<noteq> None"
  shows "addImage_raw fresh st (Some img) = Some (ULTRAHDR_NO_ERROR, st)"
  using assms by (simp add: addImage_raw_def del: not_None_eq)

lemma addImage_raw_populated_YUV420:
  assumes "pixelFormat img = ULTRAHDR_PIX_FMT_YUV420" "sdr_raw_img st \<noteq> None"
  shows "addImage_raw fresh st (Some img) = Some (ULTRAHDR_NO_ERROR, st)"
  using assms by (simp add: addImage_raw_def del: not_None_eq)

lemma size_t_mul3_small:
  assumes "n \<le> 2 * 2147483647 + 1" and "w * h * 3 = n"
  shows "size_t_mul (size_t_mul w h) 3 = n"
proof -
  have "w * h \<le> w * h * 3" by simp
  then have "w * h < 2 ^ 64" "w * h * 3 < 2 ^ 64"
    using assms by simp_all
  then show ?thesis
    using assms(2) by (simp add: size_t_mul_def)
qed

lemma addImage_raw_first_P010:
  assumes "pixelFormat img = ULTRAHDR_PIX_FMT_P010" "hdr_raw_img st = None" "data img = Some src"
    and b: "int (width img * height img * 3) \<le> INT_MAX"
  shows "\<exists>st' r. addImage_raw fresh st (Some img) = Some (ULTRAHDR_NO_ERROR, st')
     \<and> hdr_raw_img st' = Some r
     \<and> data r = Some (memcpy fresh 0 src (width img * height img * 3))
     \<and> width r = width img \<and> height r = height img \<and> colorGamut r = colorGamut img
     \<and> pixelFormat r = pixelFormat img"
proof -
  define n where "n = width img * height img * 3"
  have i: "int n \<le> INT_MAX" using b by (simp only: n_def)
  then have "n \<le> 2 * 2147483647 + 1"
    unfolding INT_MAX_def by linarith
  from size_t_mul3_small[OF this n_def[symmetric]]
  have t: "to_int (size_t_mul (size_t_mul (width img) (height img)) 3) = int n"
    using to_int_id[OF i] by simp
  have "\<exists>st' r. addImage_raw fresh st (Some img) = Some (ULTRAHDR_NO_ERROR, st')
     \<and> hdr_raw_img st' = Some r \<and> data r = Some (memcpy fresh 0 src n)
     \<and> width r = width img \<and> height r = height img \<and> colorGamut r = colorGamut img
     \<and> pixelFormat r = pixelFormat img"
    using assms(1,2,3) by (simp add: addImage_raw_def Let_def new_uncompressed_def t)
  then show ?thesis unfolding n_def .
qed

lemma addImage_raw_first_YUV420:
  assumes "pixelFormat img = ULTRAHDR_PIX_FMT_YUV420" "sdr_raw_img st = None" "data img = Some src"
    and b: "int (width img * height img * 3 div 2) \<le> INT_MAX"
  shows "\<exists>st' r. addImage_raw fresh st (Some img) = Some (ULTRAHDR_NO_ERROR, st')
     \<and> sdr_raw_img st' = Some r
     \<and> data r = Some (memcpy fresh 0 src (width img * height img * 3 div 2))
     \<and> width r = width img \<and> height r = height img \<and> colorGamut r = colorGamut img
     \<and> pixelFormat r = pixelFormat img"
proof -
  define n where "n = width img * height img * 3"
  define m where "m = n div 2"
  have i: "int m \<le> INT_MAX" using b by (simp only: n_def m_def)
  then have "n \<le> 2 * 2147483647 + 1"
    unfolding INT_MAX_def m_def by linarith
  from size_t_mul3_small[OF this n_def[symmetric]]
  have t: "to_int (size_t_mul (size_t_mul (width img) (height img)) 3 div 2) = int m"
    using to_int_id[OF i] by (simp add: m_def)
  have "\<exists>st' r. addImage_raw fresh st (Some img) = Some (ULTRAHDR_NO_ERROR, st')
     \<and> sdr_raw_img st' = Some r \<and> data r = Some (memcpy fresh 0 src m)
     \<and> width r = width img \<and> height r = height img \<and> colorGamut r = colorGamut img
     \<and> pixelFormat r = pixelFormat img"
    using assms(1,2,3) by (simp add: addImage_raw_def Let_def new_uncompressed_def t)
  then show ?thesis unfolding m_def n_def .
qed

text \<open>
  Claim C9. \<open>addImage\<close> on an uncompressed image of format P010 (slot \<open>hdr_raw_img\<close>)
  or YUV420 (slot \<open>sdr_raw_img\<close>): when the slot is populated the call returns
  \<open>ULTRAHDR_NO_ERROR\<close> and the assembler, the slot with it, is unchanged; when the slot
  is empty the call returns \<open>ULTRAHDR_NO_ERROR\<close> and populates the slot with the
  dimensions, gamut and format of the image and a copy of its bytes, and every later
  call with an image of the same format returns \<open>ULTRAHDR_NO_ERROR\<close> and changes nothing.
  The number of bytes, \<open>W * H * 3\<close> for P010 and \<open>W * H * 3 / 2\<close> for YUV420, is a value of
  the \<open>int\<close> that holds it in the code.
\<close>

theorem addImage_raw_first_writer_wins:
  fixes fresh st img
  assumes fmt: "pixelFormat img = ULTRAHDR_PIX_FMT_P010 \<or> pixelFormat img = ULTRAHDR_PIX_FMT_YUV420"
  defines "slot \<equiv> (\<lambda>s. if pixelFormat img = ULTRAHDR_PIX_FMT_P010 then hdr_raw_img s else sdr_raw_img s)"
  defines "nbytes \<equiv> (if pixelFormat img = ULTRAHDR_PIX_FMT_P010 then width img * height img * 3
                      else width img * height img * 3 div 2)"
  shows "(slot st \<noteq> None \<longrightarrow> addImage_raw fresh st (Some img) = Some (ULTRAHDR_NO_ERROR, st))
    \<and> (slot st = None \<and> data img \<noteq> None \<and> int nbytes \<le> INT_MAX \<longrightarrow>
         (\<exists>st' r buf. addImage_raw fresh st (Some img) = Some (ULTRAHDR_NO_ERROR, st')
            \<and> slot st' = Some r \<and> data r = Some buf
            \<and> width r = width img \<and> height r = height img \<and> colorGamut r = colorGamut img
            \<and> pixelFormat r = pixelFormat img
            \<and> (\<forall>i < nbytes. buf i = the (data img) i)
            \<and> (\<forall>img2 fresh2. pixelFormat img2 = pixelFormat img \<longrightarrow>
                  addImage_raw fresh2 st' (Some img2) = Some (ULTRAHDR_NO_ERROR, st'))))"
proof (cases "pixelFormat img = ULTRAHDR_PIX_FMT_P010")
  case True
  have s: "slot = hdr_raw_img" "nbytes = width img * height img * 3"
    using True by (simp_all add: slot_def nbytes_def)
  show ?thesis
  proof (intro conjI impI)
    assume "slot st \<noteq> None"
    then show "addImage_raw fresh st (Some img) = Some (ULTRAHDR_NO_ERROR, st)"
      using addImage_raw_populated_P010[OF True] by (simp add: s)
  next
    assume a: "slot st = None \<and> data img \<noteq> None \<and> int nbytes \<le> INT_MAX"
    then obtain src where src: "data img = Some src" by auto
    from a have e: "hdr_raw_img st = None" by (simp add: s)
    from a have nb: "int (width img * height img * 3) \<le> INT_MAX" by (simp add: s)
    from addImage_raw_first_P010[OF True e src nb, of fresh] obtain st' r where
      r: "addImage_raw fresh st (Some img) = Some (ULTRAHDR_NO_ERROR, st')"
        "hdr_raw_img st' = Some r"
        "data r = Some (memcpy fresh 0 src (width img * height img * 3))"
        "width r = width img" "height r = height img" "colorGamut r = colorGamut img"
        "pixelFormat r = pixelFormat img"
      by blast
    have c: "\<forall>i < nbytes. memcpy fresh 0 src (width img * height img * 3) i = the (data img) i"
      by (simp add: memcpy_def s src)
    have l: "\<forall>img2 fresh2. pixelFormat img2 = pixelFormat img \<longrightarrow>
                  addImage_raw fresh2 st' (Some img2) = Some (ULTRAHDR_NO_ERROR, st')"
      using addImage_raw_populated_P010 r(2) True by simp
    show "\<exists>st' r buf. addImage_raw fresh st (Some img) = Some (ULTRAHDR_NO_ERROR, st')
            \<and> slot st' = Some r \<and> data r = Some buf
            \<and> width r = width img \<and> height r = height img \<and> colorGamut r = colorGamut img
            \<and> pixelFormat r = pixelFormat img
            \<and> (\<forall>i < nbytes. buf i = the (data img) i)
            \<and> (\<forall>img2 fresh2. pixelFormat img2 = pixelFormat img \<longrightarrow>
                  addImage_raw fresh2 st' (Some img2) = Some (ULTRAHDR_NO_ERROR, st'))"
      using r c l unfolding s by blast
  qed
next
  case False
  with fmt have y: "pixelFormat img = ULTRAHDR_PIX_FMT_YUV420" by simp
  have s: "slot = sdr_raw_img" "nbytes = width img * height img * 3 div 2"
    using False by (simp_all add: slot_def nbytes_def)
  show ?thesis
  proof (intro conjI impI)
    assume "slot st \<noteq> None"
    then show "addImage_raw fresh st (Some img) = Some (ULTRAHDR_NO_ERROR, st)"
      using addImage_raw_populated_YUV420[OF y] by (simp add: s)
  next
    assume a: "slot st = None \<and> data img \<noteq> None \<and> int nbytes \<le> INT_MAX"
    then obtain src where src: "data img = Some src" by auto
    from a have e: "sdr_raw_img st = None" by (simp add: s)
    from a have nb: "int (width img * height img * 3 div 2) \<le> INT_MAX" by (simp add: s)
    from addImage_raw_first_YUV420[OF y e src nb, of fresh] obtain st' r where
      r: "addImage_raw fresh st (Some img) = Some (ULTRAHDR_NO_ERROR, st')"
        "sdr_raw_img st' = Some r"
        "data r = Some (memcpy fresh 0 src (width img * height img * 3 div 2))"
        "width r = width img" "height r = height img" "colorGamut r = colorGamut img"
        "pixelFormat r = pixelFormat img"
      by blast
    have c: "\<forall>i < nbytes. memcpy fresh 0 src (width img * height img * 3 div 2) i = the (data img) i"
      by (simp add: memcpy_def s src)
    have l: "\<forall>img2 fresh2. pixelFormat img2 = pixelFormat img \<longrightarrow>
                  addImage_raw fresh2 st' (Some img2) = Some (ULTRAHDR_NO_ERROR, st')"
      using addImage_raw_populated_YUV420 r(2) y by simp
    show "\<exists>st' r buf. addImage_raw fresh st (Some img) = Some (ULTRAHDR_NO_ERROR, st')
            \<and> slot st' = Some r \<and> data r = Some buf
            \<and> width r = width img \<and> height r = height img \<and> colorGamut r = colorGamut img
            \<and> pixelFormat r = pixelFormat img
            \<and> (\<forall>i < nbytes. buf i = the (data img) i)
            \<and> (\<forall>img2 fresh2. pixelFormat img2 = pixelFormat img \<longrightarrow>
                  addImage_raw fresh2 st' (Some img2) = Some (ULTRAHDR_NO_ERROR, st'))"
      using r c l unfolding s by blast
  qed
qed

theorem addImage_raw_first_writer_wins_witness:
  "(\<exists>st'. addImage_raw ex_fresh ex_empty (Some ex_sdr) = Some (ULTRAHDR_NO_ERROR, st')
       \<and> sdr_raw_img st' \<noteq> None
       \<and> addImage_raw ex_fresh st' (Some ex_sdr2) = Some (ULTRAHDR_NO_ERROR, st'))"
proof -
  have f: "pixelFormat ex_sdr = ULTRAHDR_PIX_FMT_P010 \<or> pixelFormat ex_sdr = ULTRAHDR_PIX_FMT_YUV420"
    by (simp add: ex_sdr_def)
  have e: "(if pixelFormat ex_sdr = ULTRAHDR_PIX_FMT_P010 then hdr_raw_img ex_empty
            else sdr_raw_img ex_empty) = None \<and> data ex_sdr \<noteq> None
           \<and> int (if pixelFormat ex_sdr = ULTRAHDR_PIX_FMT_P010
                   then width ex_sdr * height ex_sdr * 3
                   else width ex_sdr * height ex_sdr * 3 div 2) \<le> INT_MAX"
    by (simp add: ex_sdr_def ex_empty_def INT_MAX_def)
  have g: "pixelFormat ex_sdr2 = pixelFormat ex_sdr"
    by (simp add: ex_sdr2_def)
  have y: "pixelFormat ex_sdr \<noteq> ULTRAHDR_PIX_FMT_P010"
    by (simp add: ex_sdr_def)
  from addImage_raw_first_writer_wins[OF f, of ex_empty ex_fresh, THEN conjunct2, rule_format, OF e]
  show ?thesis
    using g y by (auto simp del: not_None_eq)
qed


subsection \<open>Geometric editor\<close>

lemma in_strides:
  fixes inp :: "'a ultrahdr_uncompressed_struct"
  defines "S \<equiv> (if luma_stride inp \<noteq> 0 then luma_stride inp else width inp)"
  defines "C \<equiv> (if chroma_stride inp \<noteq> 0 then chroma_stride inp else S div 2)"
  assumes s: "int S \<le> INT_MAX"
  shows "in_luma_stride_of inp = int S" and "to_size_t (in_luma_stride_of inp) = S"
    and "int C \<le> INT_MAX \<Longrightarrow> in_chroma_stride_of inp = int C"
    and "int C \<le> INT_MAX \<Longrightarrow> to_size_t (in_chroma_stride_of inp) = C"
proof -
  show l: "in_luma_stride_of inp = int S"
    using to_int_id[OF s] by (simp add: in_luma_stride_of_def S_def)
  show "to_size_t (in_luma_stride_of inp) = S"
    using to_size_t_int[OF s] by (simp add: l)
  have h: "to_size_t (int S div 2) = S div 2"
  proof -
    have "int S div 2 = int (S div 2)" by (simp add: zdiv_int)
    moreover have "int (S div 2) \<le> INT_MAX" using s by (simp add: INT_MAX_def)
    ultimately show ?thesis using to_size_t_int by simp
  qed
  show c: "in_chroma_stride_of inp = int C" if "int C \<le> INT_MAX"
  proof -
    have "in_chroma_stride_of inp = to_int C"
      by (simp add: in_chroma_stride_of_def l h C_def)
    then show ?thesis using to_int_id[OF that] by simp
  qed
  show "to_size_t (in_chroma_stride_of inp) = C" if "int C \<le> INT_MAX"
    using to_size_t_int[OF that] c[OF that] by simp
qed

lemma rotate_luma_90:
  assumes "int (width inp) \<le> INT_MAX" "int (height inp) \<le> INT_MAX"
    and "int (if luma_stride inp \<noteq> 0 then luma_stride inp else width inp) \<le> INT_MAX"
  shows "rotate_luma inp src 90 out dst =
     Some (out\<lparr>width := height inp, height := width inp, luma_stride := height inp,
         data := Some (store_rows (width inp) (height inp) (\<lambda>i j. i * height inp + j)
                        (\<lambda>i j. src ((height inp - j - 1)
                                      * (if luma_stride inp \<noteq> 0 then luma_stride inp else width inp)
                                      + i)) dst)\<rparr>)"
proof -
  let ?S = "if luma_stride inp \<noteq> 0 then luma_stride inp else width inp"
  have "int_store_rows (width inp) (height inp) (\<lambda>i j. idx_size 0 i (height inp) j)
          (\<lambda>i j. load src (idx_size 0 (height inp - j - 1) (to_size_t (in_luma_stride_of inp)) i)) dst
        = Some (store_rows (width inp) (height inp) (\<lambda>i j. i * height inp + j)
                  (\<lambda>i j. src ((height inp - j - 1) * ?S + i)) dst)"
  proof (rule int_store_rows_Some)
    show "int (width inp) \<le> INT_MAX" by fact
    show "width inp = 0 \<or> int (height inp) \<le> INT_MAX" using assms(2) by simp
    fix i j assume ij: "i < width inp" "j < height inp"
    have i: "int i \<le> INT_MAX" using ij(1) assms(1) by simp
    have j: "int (height inp - j - 1) \<le> INT_MAX" using assms(2) by simp
    show "idx_size 0 i (height inp) j = Some (i * height inp + j) \<and>
          load src (idx_size 0 (height inp - j - 1) (to_size_t (in_luma_stride_of inp)) i)
            = Some (src ((height inp - j - 1) * ?S + i))"
      using idx_size_small[OF i assms(2), of 0 j] idx_size_small[OF j assms(3), of 0 i]
        in_strides(2)[OF assms(3)]
      by (simp add: load_def)
  qed
  then show ?thesis
    by (simp add: rotate_luma_def Let_def)
qed

lemma rotate_luma_180:
  assumes "int (width inp) \<le> INT_MAX" "int (height inp) \<le> INT_MAX"
    and "int (if luma_stride inp \<noteq> 0 then luma_stride inp else width inp) \<le> INT_MAX"
  shows "rotate_luma inp src 180 out dst =
     Some (out\<lparr>width := width inp, height := height inp,
         luma_stride := (if luma_stride inp \<noteq> 0 then luma_stride inp else width inp),
         data := Some (store_rows (height inp) (width inp)
                        (\<lambda>i j. i * (if luma_stride inp \<noteq> 0 then luma_stride inp else width inp) + j)
                        (\<lambda>i j. src ((height inp - i - 1)
                                      * (if luma_stride inp \<noteq> 0 then luma_stride inp else width inp)
                                      + (width inp - j - 1))) dst)\<rparr>)"
proof -
  let ?S = "if luma_stride inp \<noteq> 0 then luma_stride inp else width inp"
  have "int_store_rows (height inp) (width inp) (\<lambda>i j. idx_size 0 i (to_size_t (in_luma_stride_of inp)) j)
          (\<lambda>i j. load src (idx_size 0 (height inp - i - 1) (to_size_t (in_luma_stride_of inp))
                              (width inp - j - 1))) dst
        = Some (store_rows (height inp) (width inp) (\<lambda>i j. i * ?S + j)
                  (\<lambda>i j. src ((height inp - i - 1) * ?S + (width inp - j - 1))) dst)"
  proof (rule int_store_rows_Some)
    show "int (height inp) \<le> INT_MAX" by fact
    show "height inp = 0 \<or> int (width inp) \<le> INT_MAX" using assms(1) by simp
    fix i j assume ij: "i < height inp" "j < width inp"
    have i: "int i \<le> INT_MAX" using ij(1) assms(2) by simp
    have j: "int (height inp - i - 1) \<le> INT_MAX" using assms(2) by simp
    show "idx_size 0 i (to_size_t (in_luma_stride_of inp)) j = Some (i * ?S + j) \<and>
          load src (idx_size 0 (height inp - i - 1) (to_size_t (in_luma_stride_of inp)) (width inp - j - 1))
            = Some (src ((height inp - i - 1) * ?S + (width inp - j - 1)))"
      using idx_size_small[OF i assms(3), of 0 j] idx_size_small[OF j assms(3), of 0 "width inp - j - 1"]
        in_strides(2)[OF assms(3)]
      by (simp add: load_def)
  qed
  then show ?thesis
    using in_strides(2)[OF assms(3)] by (simp add: rotate_luma_def Let_def)
qed

lemma rotate_luma_270:
  assumes "int (width inp) \<le> INT_MAX" "int (height inp) \<le> INT_MAX"
    and "int (if luma_stride inp \<noteq> 0 then luma_stride inp else width inp) \<le> INT_MAX"
    and "int ((height inp - 1) * (if luma_stride inp \<noteq> 0 then luma_stride inp else width inp)) \<le> INT_MAX"
  shows "rotate_luma inp src 270 out dst =
     Some (out\<lparr>width := height inp, height := width inp, luma_stride := height inp,
         data := Some (store_rows (width inp) (height inp) (\<lambda>i j. i * height inp + j)
                        (\<lambda>i j. src (j * (if luma_stride inp \<noteq> 0 then luma_stride inp else width inp)
                                      + (width inp - i - 1))) dst)\<rparr>)"
proof -
  let ?S = "if luma_stride inp \<noteq> 0 then luma_stride inp else width inp"
  have "int_store_rows (width inp) (height inp) (\<lambda>i j. idx_size 0 i (height inp) j)
          (\<lambda>i j. load src (idx_int 0 (int j) (in_luma_stride_of inp) (width inp - i - 1))) dst
        = Some (store_rows (width inp) (height inp) (\<lambda>i j. i * height inp + j)
                  (\<lambda>i j. src (j * ?S + (width inp - i - 1))) dst)"
  proof (rule int_store_rows_Some)
    show "int (width inp) \<le> INT_MAX" by fact
    show "width inp = 0 \<or> int (height inp) \<le> INT_MAX" using assms(2) by simp
    fix i j assume ij: "i < width inp" "j < height inp"
    have i: "int i \<le> INT_MAX" using ij(1) assms(1) by simp
    have "j * ?S \<le> (height inp - 1) * ?S"
      using ij(2) by (intro mult_le_mono1) simp
    then have j: "int (j * ?S) \<le> INT_MAX" using assms(4) by linarith
    show "idx_size 0 i (height inp) j = Some (i * height inp + j) \<and>
          load src (idx_int 0 (int j) (in_luma_stride_of inp) (width inp - i - 1))
            = Some (src (j * ?S + (width inp - i - 1)))"
      using idx_size_small[OF i assms(2), of 0 j] idx_int_small[OF j, of 0 "width inp - i - 1"]
        in_strides(1)[OF assms(3)]
      by (simp add: load_def)
  qed
  then show ?thesis
    by (simp add: rotate_luma_def Let_def)
qed

lemma rotate_chroma_px_Some:
  fixes inp :: "u8 ultrahdr_uncompressed_struct"
  defines "S \<equiv> (if luma_stride inp \<noteq> 0 then luma_stride inp else width inp)"
  defines "C \<equiv> (if chroma_stride inp \<noteq> 0 then chroma_stride inp else S div 2)"
  assumes s: "int S \<le> INT_MAX" and c: "int C \<le> INT_MAX" and h: "int (height inp) \<le> INT_MAX"
    and b: "deg \<noteq> 90 \<Longrightarrow> deg \<noteq> 180 \<Longrightarrow> int (j * C) \<le> INT_MAX"
  shows "rotate_chroma_px inp deg src k i j \<noteq> None"
proof -
  have cs: "in_chroma_stride_of inp = int C" "to_size_t (int C) = C"
    using in_strides(3)[of inp] s c to_size_t_int[OF c] unfolding S_def C_def by simp_all
  have a: "idx_size k a C x \<noteq> None" if "int a \<le> INT_MAX" for a x
    using idx_size_small[OF that c] by simp
  have h1: "int (height inp div 2 - j - 1) \<le> INT_MAX" "int (height inp div 2 - i - 1) \<le> INT_MAX"
    using h by (simp_all add: INT_MAX_def)
  show ?thesis
  proof (cases "deg = 90 \<or> deg = 180")
    case True
    then show ?thesis
      using a[OF h1(1)] a[OF h1(2)]
      by (auto simp: rotate_chroma_px_def Let_def cs load_def simp del: not_None_eq)
  next
    case False
    then have "int (j * C) \<le> INT_MAX" using b by simp
    from idx_int_small[OF this] show ?thesis
      using False by (simp add: rotate_chroma_px_def Let_def cs load_def)
  qed
qed

lemma rotate_ok:
  fixes inp out :: "u8 ultrahdr_uncompressed_struct"
  defines "S \<equiv> (if luma_stride inp \<noteq> 0 then luma_stride inp else width inp)"
  defines "C \<equiv> (if chroma_stride inp \<noteq> 0 then chroma_stride inp else S div 2)"
  assumes d: "data inp = Some src" "data out = Some dst"
    and g: "deg = 90 \<or> deg = 180 \<or> deg = 270"
    and f: "pixelFormat inp = ULTRAHDR_PIX_FMT_YUV420 \<or> pixelFormat inp = ULTRAHDR_PIX_FMT_MONOCHROME"
    and b: "int (height inp) \<le> INT_MAX" "int S \<le> INT_MAX"
      "pixelFormat inp = ULTRAHDR_PIX_FMT_YUV420 \<longrightarrow> int C \<le> INT_MAX"
    and b270: "deg = 270 \<and> pixelFormat inp = ULTRAHDR_PIX_FMT_YUV420 \<longrightarrow>
                 int ((height inp div 2 - 1) * C) \<le> INT_MAX"
    and l: "rotate_luma inp src deg
              (out\<lparr>colorGamut := colorGamut inp, pixelFormat := pixelFormat inp\<rparr>) dst = Some o1"
    and o1: "data o1 = Some lbuf" "int (width o1) \<le> INT_MAX" "int (height o1) \<le> INT_MAX"
      "int (luma_stride o1) \<le> INT_MAX" "colorGamut o1 = colorGamut inp"
      "pixelFormat o1 = pixelFormat inp" "deg = 270 \<longrightarrow> width o1 = height inp"
  shows "\<exists>res buf. rotate (Some inp) deg (Some out) = Some (ULTRAHDR_NO_ERROR, Some res)
     \<and> width res = width o1 \<and> height res = height o1 \<and> luma_stride res = luma_stride o1
     \<and> colorGamut res = colorGamut inp \<and> pixelFormat res = pixelFormat inp
     \<and> data res = Some buf \<and> (\<forall>k < luma_stride o1 * height o1. buf k = lbuf k)"
proof (cases "pixelFormat inp = ULTRAHDR_PIX_FMT_MONOCHROME")
  case True
  have r: "rotate (Some inp) deg (Some out) = Some (ULTRAHDR_NO_ERROR, Some o1)"
    using d g True l by (auto simp: rotate_def)
  show ?thesis using r o1 by simp
next
  case False
  with f have y: "pixelFormat inp = ULTRAHDR_PIX_FMT_YUV420" by simp
  from b(3) y have c: "int C \<le> INT_MAX" by simp
  define baseU where "baseU = luma_stride o1 * height o1"
  define ocs where "ocs = luma_stride o1 div 2"
  define o2 where "o2 = o1\<lparr>chroma_stride := ocs, chroma_data := Own baseU\<rparr>"
  define rows where "rows = height o1 div 2"
  define cols where "cols = width o1 div 2"
  have rc: "int rows \<le> INT_MAX" "int cols \<le> INT_MAX" "int ocs \<le> INT_MAX"
    using o1(2,3,4) by (simp_all add: rows_def cols_def ocs_def INT_MAX_def)
  have oc: "set_out_chroma o1 = Some (o2, baseU)"
    using size_t_mul_small[OF o1(4) o1(3)]
    by (simp add: set_out_chroma_def offset_def o2_def baseU_def ocs_def)
  obtain cb kU where cs: "chroma_source inp src (in_luma_stride_of inp) = Some (cb, kU)"
  proof (cases "chroma_data inp")
    case Null
    have "chroma_source inp src (in_luma_stride_of inp) = Some (src, S * height inp)"
      using size_t_mul_small[OF b(2) b(1)] in_strides(2)[of inp] b(2)
      by (simp add: chroma_source_def Null offset_def S_def)
    then show ?thesis using that by blast
  next
    case (Own k)
    then show ?thesis using that by (simp add: chroma_source_def)
  next
    case (Ext e)
    then show ?thesis using that by (simp add: chroma_source_def)
  qed
  have cst: "in_chroma_stride_of inp = int C" "to_size_t (int C) = C"
    using in_strides(3)[of inp] b(2) c to_size_t_int[OF c] unfolding S_def C_def by simp_all
  have h2: "int (height inp div 2) \<le> INT_MAX"
    using b(1) by (simp add: INT_MAX_def)
  have kV: "idx_size kU (to_size_t (in_chroma_stride_of inp)) (height inp div 2) 0
              = Some (kU + C * (height inp div 2))"
    using idx_size_small[OF c h2, of kU 0] by (simp add: cst)
  have bV: "idx_size baseU ocs rows 0 = Some (baseU + ocs * rows)"
    using idx_size_small[OF rc(3) rc(1), of baseU 0] by simp
  have px: "rotate_chroma_px inp deg cb k i j \<noteq> None" if "j < cols" for k i j
  proof -
    have j: "int (j * C) \<le> INT_MAX" if n: "deg \<noteq> 90" "deg \<noteq> 180"
    proof -
      from n g have e: "deg = 270" by simp
      from \<open>j < cols\<close> o1(7) e have "j \<le> height inp div 2 - 1"
        by (simp add: cols_def)
      then have "j * C \<le> (height inp div 2 - 1) * C"
        by (rule mult_le_mono1)
      moreover have "int ((height inp div 2 - 1) * C) \<le> INT_MAX"
        using b270 e y by blast
      ultimately show ?thesis by linarith
    qed
    show ?thesis
      by (rule rotate_chroma_px_Some[of inp, folded S_def C_def, OF b(2) c b(1)]) (rule j)
  qed
  define pU where "pU = (\<lambda>i j. the (rotate_chroma_px inp deg cb kU i j))"
  define pV where "pV = (\<lambda>i j. the (rotate_chroma_px inp deg cb (kU + C * (height inp div 2)) i j))"
  define d2 where "d2 = store_rows rows cols (\<lambda>i j. baseU + i * ocs + j) pU lbuf"
  define d3 where "d3 = store_rows rows cols (\<lambda>i j. baseU + ocs * rows + i * ocs + j) pV d2"
  have s2: "int_store_rows rows cols (\<lambda>i j. idx_size baseU i ocs j)
              (rotate_chroma_px inp deg cb kU) lbuf = Some d2"
    unfolding d2_def
  proof (rule int_store_rows_Some)
    show "int rows \<le> INT_MAX" by fact
    show "rows = 0 \<or> int cols \<le> INT_MAX" using rc(2) by simp
    fix i j assume ij: "i < rows" "j < cols"
    have i: "int i \<le> INT_MAX" using ij(1) rc(1) by simp
    show "idx_size baseU i ocs j = Some (baseU + i * ocs + j) \<and>
          rotate_chroma_px inp deg cb kU i j = Some (pU i j)"
      using idx_size_small[OF i rc(3), of baseU j] px[OF ij(2), of kU i]
      by (auto simp: pU_def)
  qed
  have s3: "int_store_rows rows cols (\<lambda>i j. idx_size (baseU + ocs * rows) i ocs j)
              (rotate_chroma_px inp deg cb (kU + C * (height inp div 2))) d2 = Some d3"
    unfolding d3_def
  proof (rule int_store_rows_Some)
    show "int rows \<le> INT_MAX" by fact
    show "rows = 0 \<or> int cols \<le> INT_MAX" using rc(2) by simp
    fix i j assume ij: "i < rows" "j < cols"
    have i: "int i \<le> INT_MAX" using ij(1) rc(1) by simp
    show "idx_size (baseU + ocs * rows) i ocs j = Some (baseU + ocs * rows + i * ocs + j) \<and>
          rotate_chroma_px inp deg cb (kU + C * (height inp div 2)) i j = Some (pV i j)"
      using idx_size_small[OF i rc(3), of "baseU + ocs * rows" j]
        px[OF ij(2), of "kU + C * (height inp div 2)" i]
      by (auto simp: pV_def)
  qed
  have f2: "height o2 = height o1" "width o2 = width o1" "chroma_stride o2 = ocs"
    "luma_stride o2 = luma_stride o1" "colorGamut o2 = colorGamut o1"
    "pixelFormat o2 = pixelFormat o1"
    by (simp_all add: o2_def)
  have r: "rotate (Some inp) deg (Some out) = Some (ULTRAHDR_NO_ERROR, Some (o2\<lparr>data := Some d3\<rparr>))"
    using d g y l
    by (auto simp: rotate_def Let_def oc cs o1(1) f2 kV bV s2 s3
          rows_def[symmetric] cols_def[symmetric])
  have k: "\<forall>k < luma_stride o1 * height o1. d3 k = lbuf k"
  proof (intro allI impI)
    fix k assume "k < luma_stride o1 * height o1"
    then have lt: "k < baseU" by (simp add: baseU_def)
    have "d3 k = d2 k"
      unfolding d3_def by (rule store_rows_other) (use lt in simp)
    also have "\<dots> = lbuf k"
      unfolding d2_def by (rule store_rows_other) (use lt in simp)
    finally show "d3 k = lbuf k" .
  qed
  show ?thesis
    using r k o1(5,6) by (simp add: f2)
qed

lemma store_rows_plane:
  fixes S :: nat
  assumes "i < r" "j < c" "c \<le> S"
  shows "store_rows r c (\<lambda>i j. i * S + j) px b (i * S + j) = px i j"
proof (rule store_rows_hit[where addr = "\<lambda>i j. i * S + j", OF assms(1,2)])
  fix i' j' assume "i' < r" "j' < c" "i' * S + j' = i * S + j"
  then show "i' = i \<and> j' = j"
    using row_col_unique[of i' S j' i j] assms by simp
qed

text \<open>
  Claim C6. For an input image of format YUV420 or MONOCHROME (with non-null \<open>data\<close>,
  an output struct with non-null \<open>data\<close>, width \<open>W\<close>, height \<open>H\<close>, and \<open>in[r][c]\<close> the
  sample at offset \<open>r * S + c\<close> for the luma stride \<open>S\<close> of the input, \<open>out[i][j]\<close> the one
  at \<open>i * out->luma_stride + j\<close>), \<open>rotate\<close> returns \<open>ULTRAHDR_NO_ERROR\<close> and copies gamut
  and pixel format; with degree 90 the output has width \<open>H\<close>, height \<open>W\<close> and
  \<open>out[i][j] = in[H-1-j][i]\<close>; with 180 it has width \<open>W\<close>, height \<open>H\<close> and
  \<open>out[i][j] = in[H-1-i][W-1-j]\<close>; with 270 it has width \<open>H\<close>, height \<open>W\<close> and
  \<open>out[i][j] = in[j][W-1-i]\<close>. The luma stride of the input is 0 (unset) or at least
  the width, as the struct requires. Width, height and strides are values of the \<open>int\<close>s
  that hold them or count up to them in the code; for 270 degrees so are the row offsets
  \<open>j * in_luma_stride\<close> and \<open>j * in_chroma_stride\<close>, which the code computes in \<open>int\<close>.
\<close>

theorem rotate_luma_plane:
  fixes inp out :: "u8 ultrahdr_uncompressed_struct"
  defines "W \<equiv> width inp" and "H \<equiv> height inp"
    and "S \<equiv> (if luma_stride inp \<noteq> 0 then luma_stride inp else width inp)"
  defines "C \<equiv> (if chroma_stride inp \<noteq> 0 then chroma_stride inp else S div 2)"
  assumes d: "data inp = Some src" "data out = Some dst"
    and f: "pixelFormat inp = ULTRAHDR_PIX_FMT_YUV420 \<or> pixelFormat inp = ULTRAHDR_PIX_FMT_MONOCHROME"
    and s: "luma_stride inp = 0 \<or> width inp \<le> luma_stride inp"
    and b: "int W \<le> INT_MAX" "int H \<le> INT_MAX" "int S \<le> INT_MAX"
      "pixelFormat inp = ULTRAHDR_PIX_FMT_YUV420 \<longrightarrow> int C \<le> INT_MAX"
  shows "(\<exists>res buf. rotate (Some inp) 90 (Some out) = Some (ULTRAHDR_NO_ERROR, Some res)
            \<and> data res = Some buf \<and> width res = H \<and> height res = W
            \<and> colorGamut res = colorGamut inp \<and> pixelFormat res = pixelFormat inp
            \<and> (\<forall>i<W. \<forall>j<H. buf (i * luma_stride res + j) = src ((H - 1 - j) * S + i)))
       \<and> (\<exists>res buf. rotate (Some inp) 180 (Some out) = Some (ULTRAHDR_NO_ERROR, Some res)
            \<and> data res = Some buf \<and> width res = W \<and> height res = H
            \<and> colorGamut res = colorGamut inp \<and> pixelFormat res = pixelFormat inp
            \<and> (\<forall>i<H. \<forall>j<W. buf (i * luma_stride res + j) = src ((H - 1 - i) * S + (W - 1 - j))))
       \<and> (int ((H - 1) * S) \<le> INT_MAX
            \<and> (pixelFormat inp = ULTRAHDR_PIX_FMT_YUV420 \<longrightarrow> int ((H div 2 - 1) * C) \<le> INT_MAX)
          \<longrightarrow> (\<exists>res buf. rotate (Some inp) 270 (Some out) = Some (ULTRAHDR_NO_ERROR, Some res)
            \<and> data res = Some buf \<and> width res = H \<and> height res = W
            \<and> colorGamut res = colorGamut inp \<and> pixelFormat res = pixelFormat inp
            \<and> (\<forall>i<W. \<forall>j<H. buf (i * luma_stride res + j) = src (j * S + (W - 1 - i)))))"
proof (intro conjI impI)
  let ?out = "out\<lparr>colorGamut := colorGamut inp, pixelFormat := pixelFormat inp\<rparr>"
  have sw: "W \<le> S"
    using s by (auto simp: S_def W_def)
  have bw: "int (width inp) \<le> INT_MAX" and bh: "int (height inp) \<le> INT_MAX"
    and bs: "int (if luma_stride inp \<noteq> 0 then luma_stride inp else width inp) \<le> INT_MAX"
    using b(1,2,3) unfolding W_def H_def S_def by blast+
  have bc: "pixelFormat inp = ULTRAHDR_PIX_FMT_YUV420 \<longrightarrow>
      int (if chroma_stride inp \<noteq> 0 then chroma_stride inp
           else (if luma_stride inp \<noteq> 0 then luma_stride inp else width inp) div 2) \<le> INT_MAX"
    using b(4) unfolding C_def S_def by blast
  {
    define l where "l = store_rows W H (\<lambda>i j. i * H + j) (\<lambda>i j. src ((H - j - 1) * S + i)) dst"
    define o1 where "o1 = ?out\<lparr>width := H, height := W, luma_stride := H, data := Some l\<rparr>"
    have rl: "rotate_luma inp src 90 ?out dst = Some o1"
      unfolding o1_def l_def W_def H_def S_def by (rule rotate_luma_90[OF bw bh bs])
    have g: "(90::int) = 90 \<or> (90::int) = 180 \<or> (90::int) = 270" by simp
    have n: "(90::int) = 270 \<and> pixelFormat inp = ULTRAHDR_PIX_FMT_YUV420 \<longrightarrow>
        int ((height inp div 2 - 1) * (if chroma_stride inp \<noteq> 0 then chroma_stride inp
           else (if luma_stride inp \<noteq> 0 then luma_stride inp else width inp) div 2)) \<le> INT_MAX"
      by simp
    have o: "data o1 = Some l" "int (width o1) \<le> INT_MAX" "int (height o1) \<le> INT_MAX"
      "int (luma_stride o1) \<le> INT_MAX" "colorGamut o1 = colorGamut inp"
      "pixelFormat o1 = pixelFormat inp" "(90::int) = 270 \<longrightarrow> width o1 = height inp"
      using b(1,2) by (simp_all add: o1_def)
    have of1: "width o1 = H" "height o1 = W" "luma_stride o1 = H"
      by (simp_all add: o1_def)
    from rotate_ok[OF d g f bh bs bc n rl o] obtain res' buf where
      r: "rotate (Some inp) 90 (Some out) = Some (ULTRAHDR_NO_ERROR, Some res')"
        "width res' = H" "height res' = W" "luma_stride res' = H"
        "colorGamut res' = colorGamut inp" "pixelFormat res' = pixelFormat inp"
        "data res' = Some buf" "\<forall>k < H * W. buf k = l k"
      unfolding of1 by blast
    have px: "\<forall>i<W. \<forall>j<H. buf (i * luma_stride res' + j) = src ((H - 1 - j) * S + i)"
    proof (intro allI impI)
      fix i j assume ij: "i < W" "j < H"
      have "i * H + j < H * W" by (rule row_col_bound[OF ij]) simp
      then have "buf (i * H + j) = l (i * H + j)"
        using r(8) by simp
      also have "\<dots> = src ((H - j - 1) * S + i)"
        unfolding l_def using store_rows_plane[OF ij, of H "\<lambda>i j. src ((H - j - 1) * S + i)" dst]
        by simp
      finally show "buf (i * luma_stride res' + j) = src ((H - 1 - j) * S + i)"
        using r(4) by simp
    qed
    show "\<exists>res buf. rotate (Some inp) 90 (Some out) = Some (ULTRAHDR_NO_ERROR, Some res)
            \<and> data res = Some buf \<and> width res = H \<and> height res = W
            \<and> colorGamut res = colorGamut inp \<and> pixelFormat res = pixelFormat inp
            \<and> (\<forall>i<W. \<forall>j<H. buf (i * luma_stride res + j) = src ((H - 1 - j) * S + i))"
      using r(1,2,3,5,6,7) px by blast
  }
  {
    define l where "l = store_rows H W (\<lambda>i j. i * S + j)
                          (\<lambda>i j. src ((H - i - 1) * S + (W - j - 1))) dst"
    define o1 where "o1 = ?out\<lparr>width := W, height := H, luma_stride := S, data := Some l\<rparr>"
    have rl: "rotate_luma inp src 180 ?out dst = Some o1"
      unfolding o1_def l_def W_def H_def S_def by (rule rotate_luma_180[OF bw bh bs])
    have g: "(180::int) = 90 \<or> (180::int) = 180 \<or> (180::int) = 270" by simp
    have n: "(180::int) = 270 \<and> pixelFormat inp = ULTRAHDR_PIX_FMT_YUV420 \<longrightarrow>
        int ((height inp div 2 - 1) * (if chroma_stride inp \<noteq> 0 then chroma_stride inp
           else (if luma_stride inp \<noteq> 0 then luma_stride inp else width inp) div 2)) \<le> INT_MAX"
      by simp
    have o: "data o1 = Some l" "int (width o1) \<le> INT_MAX" "int (height o1) \<le> INT_MAX"
      "int (luma_stride o1) \<le> INT_MAX" "colorGamut o1 = colorGamut inp"
      "pixelFormat o1 = pixelFormat inp" "(180::int) = 270 \<longrightarrow> width o1 = height inp"
      using b(1,2,3) by (simp_all add: o1_def)
    have of1: "width o1 = W" "height o1 = H" "luma_stride o1 = S"
      by (simp_all add: o1_def)
    from rotate_ok[OF d g f bh bs bc n rl o] obtain res' buf where
      r: "rotate (Some inp) 180 (Some out) = Some (ULTRAHDR_NO_ERROR, Some res')"
        "width res' = W" "height res' = H" "luma_stride res' = S"
        "colorGamut res' = colorGamut inp" "pixelFormat res' = pixelFormat inp"
        "data res' = Some buf" "\<forall>k < S * H. buf k = l k"
      unfolding of1 by blast
    have px: "\<forall>i<H. \<forall>j<W. buf (i * luma_stride res' + j) = src ((H - 1 - i) * S + (W - 1 - j))"
    proof (intro allI impI)
      fix i j assume ij: "i < H" "j < W"
      have "i * S + j < S * H" by (rule row_col_bound[OF ij sw])
      then have "buf (i * S + j) = l (i * S + j)"
        using r(8) by simp
      also have "\<dots> = src ((H - i - 1) * S + (W - j - 1))"
        unfolding l_def
        using store_rows_plane[OF ij sw, of "\<lambda>i j. src ((H - i - 1) * S + (W - j - 1))" dst]
        by simp
      finally show "buf (i * luma_stride res' + j) = src ((H - 1 - i) * S + (W - 1 - j))"
        using r(4) by simp
    qed
    show "\<exists>res buf. rotate (Some inp) 180 (Some out) = Some (ULTRAHDR_NO_ERROR, Some res)
            \<and> data res = Some buf \<and> width res = W \<and> height res = H
            \<and> colorGamut res = colorGamut inp \<and> pixelFormat res = pixelFormat inp
            \<and> (\<forall>i<H. \<forall>j<W. buf (i * luma_stride res + j) = src ((H - 1 - i) * S + (W - 1 - j)))"
      using r(1,2,3,5,6,7) px by blast
  }
  {
    assume e: "int ((H - 1) * S) \<le> INT_MAX
            \<and> (pixelFormat inp = ULTRAHDR_PIX_FMT_YUV420 \<longrightarrow> int ((H div 2 - 1) * C) \<le> INT_MAX)"
    define l where "l = store_rows W H (\<lambda>i j. i * H + j) (\<lambda>i j. src (j * S + (W - i - 1))) dst"
    define o1 where "o1 = ?out\<lparr>width := H, height := W, luma_stride := H, data := Some l\<rparr>"
    have e1: "int ((height inp - 1) * (if luma_stride inp \<noteq> 0 then luma_stride inp else width inp))
                \<le> INT_MAX"
      using e unfolding H_def S_def by blast
    have n: "(270::int) = 270 \<and> pixelFormat inp = ULTRAHDR_PIX_FMT_YUV420 \<longrightarrow>
        int ((height inp div 2 - 1) * (if chroma_stride inp \<noteq> 0 then chroma_stride inp
           else (if luma_stride inp \<noteq> 0 then luma_stride inp else width inp) div 2)) \<le> INT_MAX"
      using e unfolding H_def C_def S_def by blast
    have rl: "rotate_luma inp src 270 ?out dst = Some o1"
      unfolding o1_def l_def W_def H_def S_def by (rule rotate_luma_270[OF bw bh bs e1])
    have g: "(270::int) = 90 \<or> (270::int) = 180 \<or> (270::int) = 270" by simp
    have o: "data o1 = Some l" "int (width o1) \<le> INT_MAX" "int (height o1) \<le> INT_MAX"
      "int (luma_stride o1) \<le> INT_MAX" "colorGamut o1 = colorGamut inp"
      "pixelFormat o1 = pixelFormat inp" "(270::int) = 270 \<longrightarrow> width o1 = height inp"
      using b(1,2) by (simp_all add: o1_def H_def)
    have of1: "width o1 = H" "height o1 = W" "luma_stride o1 = H"
      by (simp_all add: o1_def)
    from rotate_ok[OF d g f bh bs bc n rl o] obtain res' buf where
      r: "rotate (Some inp) 270 (Some out) = Some (ULTRAHDR_NO_ERROR, Some res')"
        "width res' = H" "height res' = W" "luma_stride res' = H"
        "colorGamut res' = colorGamut inp" "pixelFormat res' = pixelFormat inp"
        "data res' = Some buf" "\<forall>k < H * W. buf k = l k"
      unfolding of1 by blast
    have px: "\<forall>i<W. \<forall>j<H. buf (i * luma_stride res' + j) = src (j * S + (W - 1 - i))"
    proof (intro allI impI)
      fix i j assume ij: "i < W" "j < H"
      have "i * H + j < H * W" by (rule row_col_bound[OF ij]) simp
      then have "buf (i * H + j) = l (i * H + j)"
        using r(8) by simp
      also have "\<dots> = src (j * S + (W - i - 1))"
        unfolding l_def using store_rows_plane[OF ij, of H "\<lambda>i j. src (j * S + (W - i - 1))" dst]
        by simp
      finally show "buf (i * luma_stride res' + j) = src (j * S + (W - 1 - i))"
        using r(4) by simp
    qed
    show "\<exists>res buf. rotate (Some inp) 270 (Some out) = Some (ULTRAHDR_NO_ERROR, Some res)
            \<and> data res = Some buf \<and> width res = H \<and> height res = W
            \<and> colorGamut res = colorGamut inp \<and> pixelFormat res = pixelFormat inp
            \<and> (\<forall>i<W. \<forall>j<H. buf (i * luma_stride res + j) = src (j * S + (W - 1 - i)))"
      using r(1,2,3,5,6,7) px by blast
  }
qed

theorem rotate_luma_plane_witness:
  "(\<exists>res buf. rotate (Some ex_sdr) 90 (Some ex_out) = Some (ULTRAHDR_NO_ERROR, Some res)
      \<and> data res = Some buf \<and> width res = 4 \<and> height res = 8
      \<and> colorGamut res = ULTRAHDR_COLORGAMUT_BT709 \<and> pixelFormat res = ULTRAHDR_PIX_FMT_YUV420
      \<and> (\<forall>i<8. \<forall>j<4. buf (i * luma_stride res + j) = of_nat ((4 - 1 - j) * 8 + i)))
   \<and> (\<exists>res buf. rotate (Some ex_sdr) 180 (Some ex_out) = Some (ULTRAHDR_NO_ERROR, Some res)
      \<and> data res = Some buf \<and> width res = 8 \<and> height res = 4
      \<and> (\<forall>i<4. \<forall>j<8. buf (i * luma_stride res + j) = of_nat ((4 - 1 - i) * 8 + (8 - 1 - j))))
   \<and> (\<exists>res buf. rotate (Some ex_sdr) 270 (Some ex_out) = Some (ULTRAHDR_NO_ERROR, Some res)
      \<and> data res = Some buf \<and> width res = 4 \<and> height res = 8
      \<and> (\<forall>i<8. \<forall>j<4. buf (i * luma_stride res + j) = of_nat (j * 8 + (8 - 1 - i))))"
proof -
  have a: "data ex_sdr = Some (\<lambda>i. of_nat i)" "data ex_out = Some (\<lambda>i. 0)"
    "pixelFormat ex_sdr = ULTRAHDR_PIX_FMT_YUV420 \<or> pixelFormat ex_sdr = ULTRAHDR_PIX_FMT_MONOCHROME"
    "luma_stride ex_sdr = 0 \<or> width ex_sdr \<le> luma_stride ex_sdr"
    "int (width ex_sdr) \<le> INT_MAX" "int (height ex_sdr) \<le> INT_MAX"
    "int (if luma_stride ex_sdr \<noteq> 0 then luma_stride ex_sdr else width ex_sdr) \<le> INT_MAX"
    "pixelFormat ex_sdr = ULTRAHDR_PIX_FMT_YUV420 \<longrightarrow>
       int (if chroma_stride ex_sdr \<noteq> 0 then chroma_stride ex_sdr
            else (if luma_stride ex_sdr \<noteq> 0 then luma_stride ex_sdr else width ex_sdr) div 2) \<le> INT_MAX"
    by (simp_all add: ex_sdr_def ex_out_def INT_MAX_def)
  have e: "int ((height ex_sdr - 1)
                * (if luma_stride ex_sdr \<noteq> 0 then luma_stride ex_sdr else width ex_sdr)) \<le> INT_MAX
      \<and> (pixelFormat ex_sdr = ULTRAHDR_PIX_FMT_YUV420 \<longrightarrow>
           int ((height ex_sdr div 2 - 1)
                * (if chroma_stride ex_sdr \<noteq> 0 then chroma_stride ex_sdr
                   else (if luma_stride ex_sdr \<noteq> 0 then luma_stride ex_sdr else width ex_sdr) div 2))
             \<le> INT_MAX)"
    by (simp add: ex_sdr_def INT_MAX_def)
  note t = rotate_luma_plane[OF a]
  have 1: "\<exists>res buf. rotate (Some ex_sdr) 90 (Some ex_out) = Some (ULTRAHDR_NO_ERROR, Some res)
      \<and> data res = Some buf \<and> width res = 4 \<and> height res = 8
      \<and> colorGamut res = ULTRAHDR_COLORGAMUT_BT709 \<and> pixelFormat res = ULTRAHDR_PIX_FMT_YUV420
      \<and> (\<forall>i<8. \<forall>j<4. buf (i * luma_stride res + j) = of_nat ((4 - 1 - j) * 8 + i))"
    using t[THEN conjunct1] by (simp add: ex_sdr_def)
  have 2: "\<exists>res buf. rotate (Some ex_sdr) 180 (Some ex_out) = Some (ULTRAHDR_NO_ERROR, Some res)
      \<and> data res = Some buf \<and> width res = 8 \<and> height res = 4
      \<and> (\<forall>i<4. \<forall>j<8. buf (i * luma_stride res + j) = of_nat ((4 - 1 - i) * 8 + (8 - 1 - j)))"
    using t[THEN conjunct2, THEN conjunct1] by (simp add: ex_sdr_def) blast
  have 3: "\<exists>res buf. rotate (Some ex_sdr) 270 (Some ex_out) = Some (ULTRAHDR_NO_ERROR, Some res)
      \<and> data res = Some buf \<and> width res = 4 \<and> height res = 8
      \<and> (\<forall>i<8. \<forall>j<4. buf (i * luma_stride res + j) = of_nat (j * 8 + (8 - 1 - i)))"
    using t[THEN conjunct2, THEN conjunct2, rule_format, OF e] by (simp add: ex_sdr_def) blast
  from 1 2 3 show ?thesis by blast
qed

lemma channels_size_small:
  assumes "int (if m then n else n * 3) \<le> INT_MAX" and that: "w * h = n"
  shows "channels_size m (to_int (size_t_mul w h)) = Some (int (if m then n else n * 3 div 2))"
proof -
  have n: "int n \<le> INT_MAX"
    using assms by (simp split: if_splits)
  have "n < 2 ^ 64" using n by (simp add: INT_MAX_def)
  then have "size_t_mul w h = n" using that by (simp add: size_t_mul_def)
  then have t: "to_int (size_t_mul w h) = int n" using to_int_id[OF n] by simp
  show ?thesis
  proof (cases m)
    case True
    then show ?thesis by (simp add: channels_size_def t)
  next
    case False
    then have "int (n * 3) \<le> INT_MAX" using assms by simp
    moreover have "INT_MIN \<le> int (n * 3)" unfolding INT_MIN_def by linarith
    ultimately have r: "int_res (int n * 3) = Some (int (n * 3))"
      by (simp add: int_res_def)
    have "int_div (int (n * 3)) 2 = int (n * 3 div 2)"
      by (simp add: int_div_def zdiv_int sgn_if)
    then show ?thesis using False by (simp add: channels_size_def t r)
  qed
qed

text \<open>
  Claim C10. For an input image of format YUV420 or MONOCHROME (with non-null \<open>data\<close>,
  and an output struct with non-null \<open>data\<close>), \<open>addEffects\<close> with the empty effect list
  returns \<open>ULTRAHDR_NO_ERROR\<close>; width, height, gamut, pixel format, luma stride and
  chroma stride of the output are those of the input, and the first \<open>W * H\<close> bytes
  (MONOCHROME) or \<open>W * H * 3 / 2\<close> bytes (YUV420) of the output buffer are those of the
  input buffer. \<open>W * H\<close>, and for YUV420 \<open>W * H * 3\<close>, is a value of the \<open>int\<close> \<open>size\<close>.
\<close>

theorem addEffects_empty_identity:
  fixes inp out :: "u8 ultrahdr_uncompressed_struct"
  assumes d: "data inp = Some src" "data out = Some dst"
    and f: "pixelFormat inp = ULTRAHDR_PIX_FMT_YUV420 \<or> pixelFormat inp = ULTRAHDR_PIX_FMT_MONOCHROME"
    and b: "int (if pixelFormat inp = ULTRAHDR_PIX_FMT_MONOCHROME then width inp * height inp
                 else width inp * height inp * 3) \<le> INT_MAX"
  shows "\<exists>res buf. addEffects tmp0 fresh (Some inp) [] (Some out) = Some (ULTRAHDR_NO_ERROR, Some res)
     \<and> width res = width inp \<and> height res = height inp \<and> colorGamut res = colorGamut inp
     \<and> pixelFormat res = pixelFormat inp \<and> luma_stride res = luma_stride inp
     \<and> chroma_stride res = chroma_stride inp \<and> data res = Some buf
     \<and> (\<forall>i < (if pixelFormat inp = ULTRAHDR_PIX_FMT_MONOCHROME then width inp * height inp
                else width inp * height inp * 3 div 2). buf i = src i)"
proof -
  define n where "n = (if pixelFormat inp = ULTRAHDR_PIX_FMT_MONOCHROME then width inp * height inp
                else width inp * height inp * 3 div 2)"
  have c: "channels_size (pixelFormat inp = ULTRAHDR_PIX_FMT_MONOCHROME)
             (to_int (size_t_mul (width inp) (height inp))) = Some (int n)"
    using channels_size_small[OF b refl] by (simp add: n_def)
  show ?thesis
    using d by (simp add: addEffects_def Let_def c memcpy_def n_def[symmetric])
qed

theorem addEffects_empty_identity_witness:
  "\<exists>res buf. addEffects ex_tmp ex_fresh (Some ex_sdr) [] (Some ex_out) = Some (ULTRAHDR_NO_ERROR, Some res)
     \<and> width res = 8 \<and> height res = 4 \<and> colorGamut res = ULTRAHDR_COLORGAMUT_BT709
     \<and> pixelFormat res = ULTRAHDR_PIX_FMT_YUV420 \<and> luma_stride res = 8
     \<and> chroma_stride res = 4 \<and> data res = Some buf
     \<and> (\<forall>i < 48. buf i = of_nat i)"
proof -
  have a: "data ex_sdr = Some (\<lambda>i. of_nat i)" "data ex_out = Some (\<lambda>i. 0)"
    "pixelFormat ex_sdr = ULTRAHDR_PIX_FMT_YUV420 \<or> pixelFormat ex_sdr = ULTRAHDR_PIX_FMT_MONOCHROME"
    "int (if pixelFormat ex_sdr = ULTRAHDR_PIX_FMT_MONOCHROME then width ex_sdr * height ex_sdr
          else width ex_sdr * height ex_sdr * 3) \<le> INT_MAX"
    by (simp_all add: ex_sdr_def ex_out_def INT_MAX_def)
  show ?thesis
    using addEffects_empty_identity[OF a, of ex_tmp ex_fresh]
    by (simp add: ex_sdr_def)
qed

text \<open>\<open>addEffects\<close> has two return statements: no status of an operation reaches the
  caller.\<close>

lemma addEffects_status:
  "addEffects tmp0 fresh in_img effects out_img = Some (s, r) \<Longrightarrow>
     s = ULTRAHDR_NO_ERROR \<or> s = ERROR_ULTRAHDR_BAD_PTR"
  by (auto simp: addEffects_def Let_def bind_eq_Some_conv split: option.splits if_splits)

text \<open>
  Claim C7 asks that \<open>addEffects\<close> reject an effect list with a rotation by 900 degrees
  with \<open>ERROR_ULTRAHDR_INVALID_CROPPING_PARAMETERS\<close>. In the code, \<open>rotate\<close> returns that
  status for 900 degrees, and \<open>addEffects\<close>, which drops the status of every operation,
  returns \<open>ULTRAHDR_NO_ERROR\<close> for the list.
\<close>

theorem addEffects_rotate_900_accepted:
  "map_option fst (rotate (Some ex_sdr) 900 (Some (ex_tmp\<lparr>data := Some ex_fresh\<rparr>)))
      = Some ERROR_ULTRAHDR_INVALID_CROPPING_PARAMETERS
   \<and> map_option fst (addEffects ex_tmp ex_fresh (Some ex_sdr) [ultrahdr_rotate_effect 900] (Some ex_out))
      = Some ULTRAHDR_NO_ERROR"
  by (simp add: rotate_def addEffects_def run_effect_def effect_size_def ex_sdr_def ex_tmp_def
      ex_out_def Let_def channels_size_def to_int_def size_t_mul_def int_res_def int_div_def
      INT_MAX_def INT_MIN_def offset_def)

subsection \<open>Tone mapping\<close>

lemma memset0_apply:
  "memset0 b off n k = (if off \<le> k \<and> k < off + n then 0 else b k)"
  by (simp add: memset0_def)

lemma toneMap_luma_row_apply:
  assumes "w \<le> ds"
  shows "toneMap_luma_row s ss w ds y b k =
     (if y * ds \<le> k \<and> k < y * ds + ds
      then (if k - y * ds < w then tone (s (y * ss + (k - y * ds))) else 0)
      else b k)"
proof -
  define b1 where "b1 = for_loop w (\<lambda>x b. b(y * ds + x := tone (s (y * ss + x)))) b"
  have hit: "b1 (y * ds + x) = tone (s (y * ss + x))" if "x < w" for x
    unfolding b1_def
    by (rule for_loop_store_hit[where a = "\<lambda>x. y * ds + x" and v = "\<lambda>x. tone (s (y * ss + x))", OF that])
       simp
  have other: "b1 k = b k" if "k < y * ds \<or> y * ds + w \<le> k"
    unfolding b1_def
    by (rule for_loop_store_other) (use that in auto)
  have r: "toneMap_luma_row s ss w ds y b = (if w \<noteq> ds then memset0 b1 (y * ds + w) (ds - w) else b1)"
    by (simp add: toneMap_luma_row_def b1_def Let_def)
  show ?thesis
  proof (cases "y * ds \<le> k \<and> k < y * ds + w")
    case True
    then obtain x where x: "k = y * ds + x" "x < w"
      by (metis add_diff_inverse_nat le_add_diff_inverse nat_add_left_cancel_less not_less)
    with hit[OF x(2)] assms show ?thesis
      by (simp add: r memset0_apply)
  next
    case False
    then have o: "b1 k = b k" using other by auto
    from False assms show ?thesis
      by (auto simp: r memset0_apply o)
  qed
qed

lemma toneMap_luma_rows_step:
  assumes "w \<le> ds"
  shows "for_loop (Suc n) (toneMap_luma_row s ss w ds) d k =
     (if n * ds \<le> k \<and> k < n * ds + ds
      then (if k - n * ds < w then tone (s (n * ss + (k - n * ds))) else 0)
      else for_loop n (toneMap_luma_row s ss w ds) d k)"
  unfolding for_loop_Suc by (rule toneMap_luma_row_apply[OF assms])

lemma toneMap_luma_rows_beyond:
  assumes "w \<le> ds" "n * ds \<le> k"
  shows "for_loop n (toneMap_luma_row s ss w ds) d k = d k"
  using assms(2)
proof (induction n)
  case 0
  then show ?case by (simp add: for_loop_0)
next
  case (Suc n)
  then have "n * ds \<le> k" "\<not> k < n * ds + ds" by simp_all
  then show ?case
    using Suc.IH by (simp add: toneMap_luma_rows_step[OF assms(1)])
qed
















end
